theory Spec2Isabelle
  imports Complex_Main "HOL-Library.AList" "HOL-Library.Char_ord" "HOL-Library.List_Lexorder"
begin

section \<open>The molecularnetwork package as HOL functions\<close>

text \<open>
  The package builds a similarity graph over molecules: \<^verbatim>\<open>MolecularNetwork.create_graph\<close>
  (graph.py) computes one fingerprint per SMILES string (featurizer.py), turns the
  classes into categorical labels, adds one node per molecule to a \<^verbatim>\<open>networkx.Graph\<close>
  and one edge per pair whose similarity (similarity.py) exceeds the threshold.

  Conventions of the embedding.
  \<^item> A Python exception is a value of \<open>error\<close>; a method that mutates \<^verbatim>\<open>self\<close> returns
    the pair of its outcome (\<open>Inl\<close> the exception, \<open>Inr\<close> the returned value) and the
    object as it is left, so that the effect of a call that raises stays visible.
  \<^item> A Python \<^verbatim>\<open>dict\<close> is an association list in insertion order; \<open>map_of\<close> reads it,
    \<open>AList.update\<close> is \<^verbatim>\<open>d[k] = v\<close> (in place for an old key, appended for a new one).
  \<^item> RDKit, NumPy and networkx are libraries, not code of the package. RDKit is a
    parameter (the record \<open>rdkit\<close>). So is what NumPy does to the labels (the record
    \<open>numpy\<close>): the conversion of the list of classes to an array of one dtype, and the
    comparison of an element of that array with a label. The networkx operations the
    package calls are written out after the library's documented behaviour.
  \<^item> Similarity scores and the threshold are values of a linear order \<open>'s\<close> (Python
    floats without NaN). Labels, raw or as NumPy stores them, are values of one type
    \<open>'c\<close>, in the linear order by which \<^verbatim>\<open>np.unique\<close> sorts.
  \<^item> A method whose Python name starts with an underscore has the prefix \<open>p_\<close> here.
\<close>

subsection \<open>Exceptions (utils.py and the built-in ones the code can reach)\<close>

text \<open>
  \<^verbatim>\<open>class InvalidSMILESError(Exception)\<close> has no constructor of its own: the instance
  carries the argument tuple it was raised with. \<open>KeyError\<close> carries the missing key.
\<close>

datatype error =
    InvalidSMILESError (args: "string list")
  | KeyError string
  | TypeError
  | IndexError

text \<open>A list comprehension \<^verbatim>\<open>[f(x) for x in xs]\<close> whose body may raise: the first
  exception, in input order, ends the comprehension.\<close>

fun comprehension :: "('a \<Rightarrow> error + 'b) \<Rightarrow> 'a list \<Rightarrow> error + 'b list" where
  "comprehension f [] = Inr []"
| "comprehension f (x # xs) =
     (case f x of
        Inl e \<Rightarrow> Inl e
      | Inr y \<Rightarrow> (case comprehension f xs of Inl e \<Rightarrow> Inl e | Inr ys \<Rightarrow> Inr (y # ys)))"

subsection \<open>The RDKit functions the package calls\<close>

text \<open>
  \<open>'mol\<close> is a parsed molecule, \<open>'fp\<close> a fingerprint, \<open>'s\<close> a score.
  \<^verbatim>\<open>Chem.MolFromSmiles\<close> returns \<^verbatim>\<open>None\<close> for a string it cannot parse.
\<close>

record ('mol, 'fp, 's) rdkit =
  MolFromSmiles :: "string \<Rightarrow> 'mol option"
  GetAtomPairFingerprint :: "'mol \<Rightarrow> 'fp"
  GenMACCSKeys :: "'mol \<Rightarrow> 'fp"
  GetMorganFingerprintAsBitVect :: "'mol \<Rightarrow> nat \<Rightarrow> nat \<Rightarrow> 'fp"
  FingerprintMol :: "'mol \<Rightarrow> 'fp"
  GetTopologicalTorsionFingerprint :: "'mol \<Rightarrow> 'fp"
  AsymmetricSimilarity :: "'fp \<Rightarrow> 'fp \<Rightarrow> 's"
  BraunBlanquetSimilarity :: "'fp \<Rightarrow> 'fp \<Rightarrow> 's"
  CosineSimilarity :: "'fp \<Rightarrow> 'fp \<Rightarrow> 's"
  DiceSimilarity :: "'fp \<Rightarrow> 'fp \<Rightarrow> 's"
  KulczynskiSimilarity :: "'fp \<Rightarrow> 'fp \<Rightarrow> 's"
  McConnaugheySimilarity :: "'fp \<Rightarrow> 'fp \<Rightarrow> 's"
  OnBitSimilarity :: "'fp \<Rightarrow> 'fp \<Rightarrow> 's"
  RogotGoldbergSimilarity :: "'fp \<Rightarrow> 'fp \<Rightarrow> 's"
  RusselSimilarity :: "'fp \<Rightarrow> 'fp \<Rightarrow> 's"
  SokalSimilarity :: "'fp \<Rightarrow> 'fp \<Rightarrow> 's"
  TanimotoSimilarity :: "'fp \<Rightarrow> 'fp \<Rightarrow> 's"
  TverskySimilarity :: "'fp \<Rightarrow> 'fp \<Rightarrow> 's \<Rightarrow> 's \<Rightarrow> 's"

subsection \<open>featurizer.py\<close>

record FingerprintCalculator =
  descriptor :: string

definition FingerprintCalculator_init :: "string \<Rightarrow> FingerprintCalculator" where
  "FingerprintCalculator_init d = \<lparr>descriptor = d\<rparr>"

text \<open>The dictionary \<^verbatim>\<open>self.descriptors\<close>, the same for every instance.\<close>

definition descriptors :: "('mol, 'fp, 's) rdkit \<Rightarrow> (string \<times> ('mol \<Rightarrow> 'fp)) list" where
  "descriptors tk =
     [(''atompairs'', \<lambda>m. GetAtomPairFingerprint tk m),
      (''maccs'', \<lambda>m. GenMACCSKeys tk m),
      (''morgan2'', \<lambda>m. GetMorganFingerprintAsBitVect tk m 2 2048),
      (''morgan3'', \<lambda>m. GetMorganFingerprintAsBitVect tk m 3 2048),
      (''rdkit'', \<lambda>m. FingerprintMol tk m),
      (''topo'', \<lambda>m. GetTopologicalTorsionFingerprint tk m)]"

definition calculate_fingerprint ::
  "('mol, 'fp, 's) rdkit \<Rightarrow> FingerprintCalculator \<Rightarrow> string \<Rightarrow> error + 'fp" where
  "calculate_fingerprint tk self smiles =
     (case MolFromSmiles tk smiles of
        Some mol \<Rightarrow>
          (case map_of (descriptors tk) (descriptor self) of
             None \<Rightarrow> Inl (KeyError (descriptor self))
           | Some fn \<Rightarrow> Inr (fn mol))
      | None \<Rightarrow> Inl (InvalidSMILESError []))"

subsection \<open>similarity.py\<close>

text \<open>
  The values of \<^verbatim>\<open>self.metrics\<close> are callables of two positional parameters, except
  the lambda stored under \<^verbatim>\<open>"tversky"\<close>, which has four. Applying a callable to two
  arguments raises \<^verbatim>\<open>TypeError\<close> when it requires four.
\<close>

datatype ('fp, 's) callable =
    Fn2 "'fp \<Rightarrow> 'fp \<Rightarrow> 's"
  | Fn4 "'fp \<Rightarrow> 'fp \<Rightarrow> 's \<Rightarrow> 's \<Rightarrow> 's"

fun call2 :: "('fp, 's) callable \<Rightarrow> 'fp \<Rightarrow> 'fp \<Rightarrow> error + 's" where
  "call2 (Fn2 f) x y = Inr (f x y)"
| "call2 (Fn4 f) x y = Inl TypeError"

record SimilarityCalculator =
  sim_metric :: string

definition SimilarityCalculator_init :: "string \<Rightarrow> SimilarityCalculator" where
  "SimilarityCalculator_init m = \<lparr>sim_metric = m\<rparr>"

definition metrics :: "('mol, 'fp, 's) rdkit \<Rightarrow> (string \<times> ('fp, 's) callable) list" where
  "metrics tk =
     [(''asymmetric'', Fn2 (AsymmetricSimilarity tk)),
      (''braunblanquet'', Fn2 (BraunBlanquetSimilarity tk)),
      (''cosine'', Fn2 (CosineSimilarity tk)),
      (''dice'', Fn2 (DiceSimilarity tk)),
      (''kulczynski'', Fn2 (KulczynskiSimilarity tk)),
      (''mcconnaughey'', Fn2 (McConnaugheySimilarity tk)),
      (''onbit'', Fn2 (OnBitSimilarity tk)),
      (''rogotgoldberg'', Fn2 (RogotGoldbergSimilarity tk)),
      (''russel'', Fn2 (RusselSimilarity tk)),
      (''sokal'', Fn2 (SokalSimilarity tk)),
      (''tanimoto'', Fn2 (TanimotoSimilarity tk)),
      (''tversky'', Fn4 (\<lambda>m1 m2 alpha beta. TverskySimilarity tk m1 m2 alpha beta))]"

text \<open>\<^verbatim>\<open>self.metrics[self.sim_metric](fp1, fp2)\<close>: the lookup, then the call.\<close>

definition apply_metric ::
  "('mol, 'fp, 's) rdkit \<Rightarrow> SimilarityCalculator \<Rightarrow> 'fp \<Rightarrow> 'fp \<Rightarrow> error + 's" where
  "apply_metric tk self fp1 fp2 =
     (case map_of (metrics tk) (sim_metric self) of
        None \<Rightarrow> Inl (KeyError (sim_metric self))
      | Some fn \<Rightarrow> call2 fn fp1 fp2)"

definition calculate_similarity ::
  "('mol, 'fp, 's::linorder) rdkit \<Rightarrow> SimilarityCalculator \<Rightarrow> 'fp \<Rightarrow> 'fp \<Rightarrow> error + 's" where
  "calculate_similarity tk self fp1 fp2 =
     (case apply_metric tk self fp1 fp2 of
        Inl e \<Rightarrow> Inl e
      | Inr a \<Rightarrow>
          (case apply_metric tk self fp2 fp1 of
             Inl e \<Rightarrow> Inl e
           | Inr b \<Rightarrow> Inr (max a b)))"

subsection \<open>The part of networkx.Graph the package uses\<close>

text \<open>
  A \<^verbatim>\<open>networkx.Graph\<close> keeps two dictionaries: \<^verbatim>\<open>_node\<close> maps a node to its attribute
  dictionary, \<^verbatim>\<open>_adj\<close> maps a node to the dictionary of its neighbours (neighbour to
  edge attributes). Both always have the same keys, so the reads \<^verbatim>\<open>_adj[u]\<close> in
  \<^verbatim>\<open>add_edge\<close> never miss; \<open>wf_graph\<close> states it.
\<close>

type_synonym attrs = "(string \<times> string) list"

record Graph =
  G_node :: "(nat \<times> attrs) list"
  G_adj :: "(nat \<times> (nat \<times> attrs) list) list"

definition Graph_init :: Graph where
  "Graph_init = \<lparr>G_node = [], G_adj = []\<rparr>"

definition keys :: "('k \<times> 'v) list \<Rightarrow> 'k set" where
  "keys d = fst ` set d"

text \<open>\<^verbatim>\<open>d.update(new)\<close>\<close>

definition dict_update :: "('k \<times> 'v) list \<Rightarrow> ('k \<times> 'v) list \<Rightarrow> ('k \<times> 'v) list" where
  "dict_update d new = fold (\<lambda>(k, v). AList.update k v) new d"

text \<open>The lines of \<^verbatim>\<open>add_nodes_from\<close> and \<^verbatim>\<open>add_edge\<close> that create a missing node.\<close>

definition new_node :: "nat \<Rightarrow> Graph \<Rightarrow> Graph" where
  "new_node n G =
     (if n \<notin> keys (G_node G)
      then G\<lparr>G_adj := AList.update n [] (G_adj G), G_node := AList.update n [] (G_node G)\<rparr>
      else G)"

fun add_nodes_from :: "Graph \<Rightarrow> (nat \<times> attrs) list \<Rightarrow> Graph" where
  "add_nodes_from G [] = G"
| "add_nodes_from G ((n, ndict) # rest) =
     (let G1 = new_node n G
      in add_nodes_from
           (G1\<lparr>G_node := AList.map_entry n (\<lambda>d. dict_update d ndict) (G_node G1)\<rparr>) rest)"

definition add_edge :: "Graph \<Rightarrow> nat \<Rightarrow> nat \<Rightarrow> Graph" where
  "add_edge G u v =
     (let G1 = new_node u G;
          G2 = new_node v G1;
          datadict = (case map_of (G_adj G2) u of
                        None \<Rightarrow> []
                      | Some nbrs \<Rightarrow> (case map_of nbrs v of None \<Rightarrow> [] | Some d \<Rightarrow> d));
          adj1 = AList.map_entry u (AList.update v datadict) (G_adj G2);
          adj2 = AList.map_entry v (AList.update u datadict) adj1
      in G2\<lparr>G_adj := adj2\<rparr>)"

definition has_node :: "Graph \<Rightarrow> nat \<Rightarrow> bool" where
  "has_node G n = (n \<in> keys (G_node G))"

definition has_edge :: "Graph \<Rightarrow> nat \<Rightarrow> nat \<Rightarrow> bool" where
  "has_edge G u v =
     (case map_of (G_adj G) u of None \<Rightarrow> False | Some nbrs \<Rightarrow> v \<in> keys nbrs)"

text \<open>\<^verbatim>\<open>number_of_edges()\<close>: half the sum of the degrees, a self-loop counting twice.\<close>

definition degree_sum :: "(nat \<times> (nat \<times> attrs) list) list \<Rightarrow> nat" where
  "degree_sum adj = (\<Sum>(n, nbrs)\<leftarrow>adj. length nbrs + (if n \<in> keys nbrs then 1 else 0))"

definition number_of_edges :: "Graph \<Rightarrow> nat" where
  "number_of_edges G = degree_sum (G_adj G) div 2"

definition number_of_nodes :: "Graph \<Rightarrow> nat" where
  "number_of_nodes G = length (G_node G)"

definition wf_graph :: "Graph \<Rightarrow> bool" where
  "wf_graph G = (keys (G_node G) = keys (G_adj G))"

subsection \<open>The NumPy operations of \<^verbatim>\<open>_convert_classes\<close>\<close>

text \<open>
  \<^verbatim>\<open>np.unique(classes)\<close> first makes an array of the list, and an array has one dtype:
  integers beside a float become floats, numbers beside a string become strings, a string
  loses its trailing NUL characters. \<^verbatim>\<open>unique_classes == c\<close> then compares the
  elements of that array with a raw label by NumPy's rules, not by Python's. Both are
  behaviour of the library and a parameter here: \<open>np_asarray\<close> is the conversion of the
  list, \<open>np_equal u c\<close> the entry of \<^verbatim>\<open>unique_classes == c\<close> at the element \<open>u\<close>.
\<close>

record 'c numpy =
  np_asarray :: "'c list \<Rightarrow> 'c list"
  np_equal :: "'c \<Rightarrow> 'c \<Rightarrow> bool"

text \<open>\<^verbatim>\<open>np.unique(classes)\<close>: the distinct values of the array, sorted.\<close>

definition np_unique :: "'c::linorder numpy \<Rightarrow> 'c list \<Rightarrow> 'c list" where
  "np_unique np classes = sort (remdups (np_asarray np classes))"

text \<open>\<^verbatim>\<open>np.where(unique_classes == c)[0][0]\<close>: the first position whose element compares
  equal to \<open>c\<close>; indexing the empty result raises \<^verbatim>\<open>IndexError\<close>.\<close>

fun np_where_first :: "'c numpy \<Rightarrow> 'c list \<Rightarrow> 'c \<Rightarrow> error + nat" where
  "np_where_first np [] c = Inl IndexError"
| "np_where_first np (u # us) c =
     (if np_equal np u c then Inr 0
      else (case np_where_first np us c of Inl e \<Rightarrow> Inl e | Inr k \<Rightarrow> Inr (Suc k)))"

text \<open>\<^verbatim>\<open>xs[i]\<close> for a non-negative index.\<close>

definition getitem :: "'a list \<Rightarrow> nat \<Rightarrow> error + 'a" where
  "getitem xs i = (if i < length xs then Inr (xs ! i) else Inl IndexError)"

subsection \<open>graph.py\<close>

record 's MolecularNetwork =
  sim_threshold :: 's
  fingerprint_calculator :: FingerprintCalculator
  similarity_calculator :: SimilarityCalculator
  graph :: Graph

definition MolecularNetwork_init :: "string \<Rightarrow> string \<Rightarrow> 's \<Rightarrow> 's MolecularNetwork" where
  "MolecularNetwork_init descr metric threshold =
     \<lparr>sim_threshold = threshold,
      fingerprint_calculator = FingerprintCalculator_init descr,
      similarity_calculator = SimilarityCalculator_init metric,
      graph = Graph_init\<rparr>"

definition p_calculate_fingerprints ::
  "('mol, 'fp, 's) rdkit \<Rightarrow> 's MolecularNetwork \<Rightarrow> string list \<Rightarrow> error + 'fp list" where
  "p_calculate_fingerprints tk self smiles_list =
     comprehension (calculate_fingerprint tk (fingerprint_calculator self)) smiles_list"

definition p_convert_classes ::
  "'c::linorder numpy \<Rightarrow> 'c list \<Rightarrow> error + ('c list \<times> nat list)" where
  "p_convert_classes np classes =
     (let unique_classes = np_unique np classes;
          categorical_labels = [0..<length unique_classes]
      in (case comprehension
                 (\<lambda>c. case np_where_first np unique_classes c of
                         Inl e \<Rightarrow> Inl e
                       | Inr k \<Rightarrow> getitem categorical_labels k)
                 classes of
            Inl e \<Rightarrow> Inl e
          | Inr class_labels \<Rightarrow> Inr (unique_classes, class_labels)))"

text \<open>The body of the comprehension in \<^verbatim>\<open>_add_nodes\<close>; \<open>str\<close> is Python's \<^verbatim>\<open>str\<close> on an
  element of the array \<^verbatim>\<open>unique_classes\<close>.\<close>

definition weighted_node ::
  "('c \<Rightarrow> string) \<Rightarrow> string list \<Rightarrow> 'c list \<Rightarrow> nat \<times> nat \<Rightarrow> error + (nat \<times> attrs)" where
  "weighted_node str smiles_list unique_classes nv =
     (case nv of (node, val) \<Rightarrow>
        (case getitem smiles_list node of
           Inl e \<Rightarrow> Inl e
         | Inr smi \<Rightarrow>
             (case getitem unique_classes val of
                Inl e \<Rightarrow> Inl e
              | Inr c \<Rightarrow> Inr (node, [(''smiles'', smi), (''categorical_label'', str c)]))))"

definition p_add_nodes ::
  "('c \<Rightarrow> string) \<Rightarrow> 's MolecularNetwork \<Rightarrow> string list \<Rightarrow> 'c list \<Rightarrow> nat list
     \<Rightarrow> (error + unit) \<times> 's MolecularNetwork" where
  "p_add_nodes str self smiles_list unique_classes categorical_labels =
     (let num_nodes = length smiles_list;
          nodes = [0..<num_nodes]
      in (case comprehension (weighted_node str smiles_list unique_classes)
                 (zip nodes categorical_labels) of
            Inl e \<Rightarrow> (Inl e, self)
          | Inr weighted_nodes \<Rightarrow>
              (Inr (), self\<lparr>graph := add_nodes_from (graph self) weighted_nodes\<rparr>)))"

definition p_calculate_similarity ::
  "('mol, 'fp, 's::linorder) rdkit \<Rightarrow> 's MolecularNetwork \<Rightarrow> 'fp \<Rightarrow> 'fp \<Rightarrow> error + 's" where
  "p_calculate_similarity tk self fp1 fp2 =
     calculate_similarity tk (similarity_calculator self) fp1 fp2"

text \<open>The inner loop of \<^verbatim>\<open>_add_edges\<close>, \<^verbatim>\<open>for j in range(i + 1, num_nodes)\<close>, over the
  values of \<open>j\<close> still to come, and the outer loop \<^verbatim>\<open>for i in range(num_nodes)\<close>.
  The indices come from \<^verbatim>\<open>range(len(fps))\<close>, so \<^verbatim>\<open>fps[i]\<close> and \<^verbatim>\<open>fps[j]\<close> are in range.\<close>

fun add_edges_inner ::
  "('mol, 'fp, 's::linorder) rdkit \<Rightarrow> 's MolecularNetwork \<Rightarrow> 'fp list \<Rightarrow> nat \<Rightarrow> nat list
     \<Rightarrow> (error + unit) \<times> 's MolecularNetwork" where
  "add_edges_inner tk self fps i [] = (Inr (), self)"
| "add_edges_inner tk self fps i (j # js) =
     (case p_calculate_similarity tk self (fps ! i) (fps ! j) of
        Inl e \<Rightarrow> (Inl e, self)
      | Inr sim_val \<Rightarrow>
          add_edges_inner tk
            (if sim_val > sim_threshold self
             then self\<lparr>graph := add_edge (graph self) i j\<rparr> else self)
            fps i js)"

fun add_edges_outer ::
  "('mol, 'fp, 's::linorder) rdkit \<Rightarrow> 's MolecularNetwork \<Rightarrow> 'fp list \<Rightarrow> nat \<Rightarrow> nat list
     \<Rightarrow> (error + unit) \<times> 's MolecularNetwork" where
  "add_edges_outer tk self fps num_nodes [] = (Inr (), self)"
| "add_edges_outer tk self fps num_nodes (i # is) =
     (case add_edges_inner tk self fps i [i + 1..<num_nodes] of
        (Inl e, self') \<Rightarrow> (Inl e, self')
      | (Inr u, self') \<Rightarrow> add_edges_outer tk self' fps num_nodes is)"

definition p_add_edges ::
  "('mol, 'fp, 's::linorder) rdkit \<Rightarrow> 's MolecularNetwork \<Rightarrow> 'fp list
     \<Rightarrow> (error + unit) \<times> 's MolecularNetwork" where
  "p_add_edges tk self fps =
     (let num_nodes = length fps
      in add_edges_outer tk self fps num_nodes [0..<num_nodes])"

definition p_create_graph ::
  "('mol, 'fp, 's::linorder) rdkit \<Rightarrow> 'c::linorder numpy \<Rightarrow> ('c \<Rightarrow> string)
     \<Rightarrow> 's MolecularNetwork \<Rightarrow> string list \<Rightarrow> 'c list
     \<Rightarrow> (error + unit) \<times> 's MolecularNetwork" where
  "p_create_graph tk np str self smiles_list classes =
     (case p_calculate_fingerprints tk self smiles_list of
        Inl e \<Rightarrow> (Inl e, self)
      | Inr fps \<Rightarrow>
          (case p_convert_classes np classes of
             Inl e \<Rightarrow> (Inl e, self)
           | Inr (unique_classes, categorical_labels) \<Rightarrow>
               (case p_add_nodes str self smiles_list unique_classes categorical_labels of
                  (Inl e, self1) \<Rightarrow> (Inl e, self1)
                | (Inr u, self1) \<Rightarrow> p_add_edges tk self1 fps)))"

definition create_graph ::
  "('mol, 'fp, 's::linorder) rdkit \<Rightarrow> 'c::linorder numpy \<Rightarrow> ('c \<Rightarrow> string)
     \<Rightarrow> 's MolecularNetwork \<Rightarrow> string list \<Rightarrow> 'c list
     \<Rightarrow> (error + Graph) \<times> 's MolecularNetwork" where
  "create_graph tk np str self smiles_list classes =
     (case p_create_graph tk np str self smiles_list classes of
        (Inl e, self') \<Rightarrow> (Inl e, self')
      | (Inr u, self') \<Rightarrow> (Inr (graph self'), self'))"

definition get_network :: "'s MolecularNetwork \<Rightarrow> Graph" where
  "get_network self = graph self"

subsection \<open>A test double for RDKit\<close>

text \<open>
  The stub toolkit of the scenarios: every string but \<^verbatim>\<open>bogus!!\<close> parses, the descriptor
  of a molecule is the string itself, and every metric is the scorer \<open>sim\<close> given.
\<close>

definition stub_rdkit :: "(string \<Rightarrow> string \<Rightarrow> real) \<Rightarrow> (string, string, real) rdkit" where
  "stub_rdkit sim =
     \<lparr>MolFromSmiles = (\<lambda>s. if s = ''bogus!!'' then None else Some s),
      GetAtomPairFingerprint = (\<lambda>m. m),
      GenMACCSKeys = (\<lambda>m. m),
      GetMorganFingerprintAsBitVect = (\<lambda>m r n. m),
      FingerprintMol = (\<lambda>m. m),
      GetTopologicalTorsionFingerprint = (\<lambda>m. m),
      AsymmetricSimilarity = sim,
      BraunBlanquetSimilarity = sim,
      CosineSimilarity = sim,
      DiceSimilarity = sim,
      KulczynskiSimilarity = sim,
      McConnaugheySimilarity = sim,
      OnBitSimilarity = sim,
      RogotGoldbergSimilarity = sim,
      RusselSimilarity = sim,
      SokalSimilarity = sim,
      TanimotoSimilarity = sim,
      TverskySimilarity = (\<lambda>a b alpha beta. sim a b)\<rparr>"

text \<open>Two scorers for it: one that finds every pair alike, and one whose value depends on
  the order of its arguments.\<close>

definition all_similar :: "string \<Rightarrow> string \<Rightarrow> real" where
  "all_similar a b = 1"

definition one_way :: "string \<Rightarrow> string \<Rightarrow> real" where
  "one_way a b = (if a = ''C'' \<and> b = ''CC'' then 1 else 0)"

subsection \<open>NumPy on lists of Python strings\<close>

text \<open>
  An array made of Python strings has a fixed-width Unicode dtype, as wide as the longest
  of them. A shorter string is padded with NUL characters, and the padding is dropped when
  an element is read or compared, so a trailing NUL of the string itself is lost with it.
  Such arrays sort and compare by code point.
\<close>

definition strip_nul :: "string \<Rightarrow> string" where
  "strip_nul s = rev (dropWhile (\<lambda>c. c = CHR 0x00) (rev s))"

definition numpy_str :: "string numpy" where
  "numpy_str =
     \<lparr>np_asarray = map strip_nul,
      np_equal = (\<lambda>u c. strip_nul u = strip_nul c)\<rparr>"

section \<open>Notions used to state and prove the properties\<close>

text \<open>
  None of the following is code of the package. They name what the statements talk about:
  the score the edge loop compares with the threshold, the pairs the two loops visit in
  order, one iteration of each loop as a function on graphs, and the node list
  \<^verbatim>\<open>_add_nodes\<close> hands to networkx.
\<close>

text \<open>The value \<^verbatim>\<open>_calculate_similarity(fps[i], fps[j])\<close> returns for a two-parameter
  metric \<open>sim\<close>.\<close>

definition score :: "('fp \<Rightarrow> 'fp \<Rightarrow> 's::linorder) \<Rightarrow> 'fp list \<Rightarrow> nat \<Rightarrow> nat \<Rightarrow> 's" where
  "score sim fps i j = max (sim (fps ! i) (fps ! j)) (sim (fps ! j) (fps ! i))"

text \<open>The body of the inner loop of \<^verbatim>\<open>_add_edges\<close> once the score is known.\<close>

definition link :: "(nat \<Rightarrow> nat \<Rightarrow> bool) \<Rightarrow> nat \<times> nat \<Rightarrow> Graph \<Rightarrow> Graph" where
  "link P ij G = (case ij of (i, j) \<Rightarrow> if P i j then add_edge G i j else G)"

text \<open>The pairs \<open>(i, j)\<close> in the order the two loops of \<^verbatim>\<open>_add_edges\<close> reach them.\<close>

definition pairs :: "nat \<Rightarrow> (nat \<times> nat) list" where
  "pairs n = concat (map (\<lambda>i. map (Pair i) [i + 1..<n]) [0..<n])"

text \<open>The position \<^verbatim>\<open>np.where\<close> finds, as a plain number.\<close>

definition label_index :: "'c numpy \<Rightarrow> 'c list \<Rightarrow> 'c \<Rightarrow> nat" where
  "label_index np us c = (case np_where_first np us c of Inr k \<Rightarrow> k | Inl e \<Rightarrow> 0)"

text \<open>The labels NumPy keeps as they are: the array of the list is the list itself, and
  on its labels NumPy's comparison is equality.\<close>

definition stored_unchanged :: "'c numpy \<Rightarrow> 'c list \<Rightarrow> bool" where
  "stored_unchanged np classes \<longleftrightarrow>
     np_asarray np classes = classes \<and>
     list_all (\<lambda>u. list_all (\<lambda>c. np_equal np u c = (u = c)) classes) classes"

text \<open>The attribute dictionary \<^verbatim>\<open>_add_nodes\<close> builds for one node.\<close>

definition node_attrs :: "('c \<Rightarrow> string) \<Rightarrow> string \<Rightarrow> 'c \<Rightarrow> attrs" where
  "node_attrs str smi c = [(''smiles'', smi), (''categorical_label'', str c)]"

text \<open>One iteration of the loop of \<^verbatim>\<open>add_nodes_from\<close>.\<close>

definition add_node :: "nat \<times> attrs \<Rightarrow> Graph \<Rightarrow> Graph" where
  "add_node p G = (case p of (n, ndict) \<Rightarrow>
     (let G1 = new_node n G
      in G1\<lparr>G_node := AList.map_entry n (\<lambda>d. dict_update d ndict) (G_node G1)\<rparr>))"

text \<open>The list \<^verbatim>\<open>weighted_nodes\<close>: \<^verbatim>\<open>zip\<close> stops at the shorter of its two arguments.\<close>

definition built_nodes ::
  "('c \<Rightarrow> string) \<Rightarrow> string list \<Rightarrow> 'c list \<Rightarrow> nat list \<Rightarrow> (nat \<times> attrs) list" where
  "built_nodes str smiles_list unique_classes categorical_labels =
     map (\<lambda>k. (k, node_attrs str (smiles_list ! k) (unique_classes ! (categorical_labels ! k))))
       [0..<min (length smiles_list) (length categorical_labels)]"

text \<open>The neighbours of a node, in the order networkx lists them.\<close>

definition adj_list :: "Graph \<Rightarrow> nat \<Rightarrow> nat list" where
  "adj_list G u = (case map_of (G_adj G) u of None \<Rightarrow> [] | Some nbrs \<Rightarrow> map fst nbrs)"

text \<open>The invariant of the graphs a builder holds: the two dictionaries agree on the
  nodes, adjacency is symmetric and has no self-loop, and no key occurs twice.\<close>

definition simple_graph :: "Graph \<Rightarrow> bool" where
  "simple_graph G \<longleftrightarrow>
     wf_graph G \<and> (\<forall>u v. has_edge G u v \<longrightarrow> has_edge G v u) \<and> (\<forall>u. \<not> has_edge G u u) \<and>
     distinct (map fst (G_adj G)) \<and> (\<forall>u. distinct (adj_list G u))"

text \<open>The builders a program can hold: a constructed one, and one left by a call of
  \<^verbatim>\<open>create_graph\<close>, whether it returned or raised, on a builder it could hold.\<close>

inductive reachable ::
  "('mol, 'fp, 's::linorder) rdkit \<Rightarrow> 'c::linorder numpy \<Rightarrow> ('c \<Rightarrow> string)
     \<Rightarrow> 's MolecularNetwork \<Rightarrow> bool"
  for tk :: "('mol, 'fp, 's::linorder) rdkit" and np :: "'c::linorder numpy"
    and str :: "'c \<Rightarrow> string" where
  constructed: "reachable tk np str (MolecularNetwork_init descr metric threshold)"
| rebuilt: "reachable tk np str self \<Longrightarrow>
            create_graph tk np str self smiles_list classes = (r, self') \<Longrightarrow>
            reachable tk np str self'"

section \<open>Running the model on concrete inputs\<close>

lemmas run_defs =
  create_graph_def p_create_graph_def p_calculate_fingerprints_def calculate_fingerprint_def
  stub_rdkit_def all_similar_def one_way_def MolecularNetwork_init_def FingerprintCalculator_init_def
  SimilarityCalculator_init_def descriptors_def metrics_def p_convert_classes_def np_unique_def
  getitem_def p_add_nodes_def weighted_node_def Graph_init_def new_node_def keys_def
  dict_update_def p_add_edges_def p_calculate_similarity_def calculate_similarity_def
  apply_metric_def add_edge_def has_edge_def numpy_str_def strip_nul_def

section \<open>Comprehensions\<close>

lemma comprehension_length: "comprehension f xs = Inr ys \<Longrightarrow> length ys = length xs"
  by (induction xs arbitrary: ys) (auto split: sum.splits)

section \<open>Properties of the operations\<close>

subsection \<open>Dictionaries\<close>

lemma update_new_key: "k \<notin> fst ` set al \<Longrightarrow> AList.update k v al = al @ [(k, v)]"
  by (induction al) auto

lemma keys_Nil [simp]: "keys [] = {}"
  by (simp add: keys_def)

lemma keys_update: "keys (AList.update k v al) = insert k (keys al)"
  by (simp add: keys_def dom_update)

lemma keys_map_entry: "keys (AList.map_entry k f al) = keys al"
  by (simp add: keys_def dom_map_entry)

lemma map_of_None_keys: "map_of al k = None \<longleftrightarrow> k \<notin> keys al"
  by (simp add: keys_def map_of_eq_None_iff)

lemma map_of_Some_keys: "map_of al k = Some v \<Longrightarrow> k \<in> keys al"
  using map_of_None_keys [of al k] by auto

subsection \<open>Creating nodes and edges\<close>

lemma new_node_present: "n \<in> keys (G_node G) \<Longrightarrow> new_node n G = G"
  by (simp add: new_node_def)

lemma keys_node_new_node: "keys (G_node (new_node n G)) = insert n (keys (G_node G))"
  by (auto simp: new_node_def keys_update)

lemma keys_adj_new_node:
  "wf_graph G \<Longrightarrow> keys (G_adj (new_node n G)) = insert n (keys (G_adj G))"
  by (auto simp: new_node_def keys_update wf_graph_def)

lemma wf_new_node: "wf_graph G \<Longrightarrow> wf_graph (new_node n G)"
  by (auto simp: new_node_def keys_update wf_graph_def)

lemma has_edge_new_node: "wf_graph G \<Longrightarrow> has_edge (new_node n G) a b = has_edge G a b"
  by (auto simp: new_node_def has_edge_def wf_graph_def update_conv'
      dest: map_of_Some_keys split: option.splits)

lemma adj_link:
  assumes "u \<in> keys adj" and "v \<in> keys adj"
  shows "(case map_of (AList.map_entry v (AList.update u d) (AList.map_entry u (AList.update v d) adj)) a of
            None \<Rightarrow> False | Some nbrs \<Rightarrow> b \<in> keys nbrs)
         \<longleftrightarrow> (case map_of adj a of None \<Rightarrow> False | Some nbrs \<Rightarrow> b \<in> keys nbrs)
              \<or> (a = u \<and> b = v) \<or> (a = v \<and> b = u)"
proof -
  obtain nu nv where "map_of adj u = Some nu" and "map_of adj v = Some nv"
    using assms map_of_None_keys [of adj] by (metis not_Some_eq)
  then show ?thesis
    by (auto simp: map_of_map_entry keys_update split: option.splits)
qed

lemma G_node_add_edge: "G_node (add_edge G u v) = G_node (new_node v (new_node u G))"
  by (simp add: add_edge_def Let_def)

lemma G_node_add_edge_present:
  "u \<in> keys (G_node G) \<Longrightarrow> v \<in> keys (G_node G) \<Longrightarrow> G_node (add_edge G u v) = G_node G"
  by (simp add: G_node_add_edge new_node_present)

lemma keys_node_add_edge: "keys (G_node (add_edge G u v)) = insert u (insert v (keys (G_node G)))"
  by (auto simp: G_node_add_edge keys_node_new_node)

lemma keys_adj_add_edge:
  "wf_graph G \<Longrightarrow> keys (G_adj (add_edge G u v)) = insert u (insert v (keys (G_adj G)))"
  by (auto simp: add_edge_def Let_def keys_map_entry keys_adj_new_node wf_new_node)

lemma wf_add_edge: "wf_graph G \<Longrightarrow> wf_graph (add_edge G u v)"
  using keys_adj_add_edge [of G u v] keys_node_add_edge [of G u v]
  by (simp add: wf_graph_def)

lemma has_edge_add_edge:
  assumes "wf_graph G"
  shows "has_edge (add_edge G u v) a b \<longleftrightarrow>
           has_edge G a b \<or> (a = u \<and> b = v) \<or> (a = v \<and> b = u)"
proof -
  let ?G2 = "new_node v (new_node u G)"
  have wf2: "wf_graph ?G2" using assms by (simp add: wf_new_node)
  have ku: "u \<in> keys (G_adj ?G2)" and kv: "v \<in> keys (G_adj ?G2)"
    using assms by (simp_all add: keys_adj_new_node wf_new_node)
  have "has_edge ?G2 a b = has_edge G a b"
    using assms by (simp add: has_edge_new_node wf_new_node)
  then show ?thesis
    using adj_link [OF ku kv, where a = a and b = b]
    by (simp add: add_edge_def Let_def has_edge_def)
qed

subsection \<open>The edge loops as a fold over the pairs\<close>

lemma apply_metric_Fn2:
  "map_of (metrics tk) (sim_metric sc) = Some (Fn2 sim) \<Longrightarrow> apply_metric tk sc a b = Inr (sim a b)"
  by (simp add: apply_metric_def)

lemma p_calculate_similarity_Fn2:
  "map_of (metrics tk) (sim_metric (similarity_calculator self)) = Some (Fn2 sim) \<Longrightarrow>
   p_calculate_similarity tk self (fps ! i) (fps ! j) = Inr (score sim fps i j)"
  by (simp add: p_calculate_similarity_def calculate_similarity_def apply_metric_Fn2 score_def)

lemma add_edges_inner_Fn2:
  assumes "map_of (metrics tk) (sim_metric (similarity_calculator self)) = Some (Fn2 sim)"
  shows "add_edges_inner tk self fps i js =
           (Inr (), self\<lparr>graph :=
              fold (link (\<lambda>i j. sim_threshold self < score sim fps i j)) (map (Pair i) js) (graph self)\<rparr>)"
  using assms
proof (induction js arbitrary: self)
  case Nil
  then show ?case by simp
next
  case (Cons j js)
  let ?self' = "if sim_threshold self < score sim fps i j
                then self\<lparr>graph := add_edge (graph self) i j\<rparr> else self"
  have m: "map_of (metrics tk) (sim_metric (similarity_calculator ?self')) = Some (Fn2 sim)"
    using Cons.prems by simp
  have t: "sim_threshold ?self' = sim_threshold self" by simp
  show ?case
    using Cons.IH [OF m] Cons.prems
    by (simp add: p_calculate_similarity_Fn2 t link_def)
qed

lemma add_edges_outer_Fn2:
  assumes "map_of (metrics tk) (sim_metric (similarity_calculator self)) = Some (Fn2 sim)"
  shows "add_edges_outer tk self fps n is =
           (Inr (), self\<lparr>graph :=
              fold (link (\<lambda>i j. sim_threshold self < score sim fps i j))
                (concat (map (\<lambda>i. map (Pair i) [i + 1..<n]) is)) (graph self)\<rparr>)"
  using assms
proof (induction "is" arbitrary: self)
  case Nil
  then show ?case by simp
next
  case (Cons i "is")
  let ?P = "link (\<lambda>i j. sim_threshold self < score sim fps i j)"
  let ?self' = "self\<lparr>graph := fold ?P (map (Pair i) [i + 1..<n]) (graph self)\<rparr>"
  have m: "map_of (metrics tk) (sim_metric (similarity_calculator ?self')) = Some (Fn2 sim)"
    using Cons.prems by simp
  show ?case
    using Cons.IH [OF m] by (simp add: add_edges_inner_Fn2 [OF Cons.prems])
qed

lemma p_add_edges_Fn2:
  assumes "map_of (metrics tk) (sim_metric (similarity_calculator self)) = Some (Fn2 sim)"
  shows "p_add_edges tk self fps =
           (Inr (), self\<lparr>graph :=
              fold (link (\<lambda>i j. sim_threshold self < score sim fps i j))
                (pairs (length fps)) (graph self)\<rparr>)"
  by (simp add: p_add_edges_def Let_def pairs_def add_edges_outer_Fn2 [OF assms])

lemma in_set_pairs: "(i, j) \<in> set (pairs n) \<longleftrightarrow> i < j \<and> j < n"
proof
  assume "(i, j) \<in> set (pairs n)"
  then show "i < j \<and> j < n" by (auto simp: pairs_def)
next
  assume a: "i < j \<and> j < n"
  have "\<exists>x\<in>{0..<n}. (i, j) \<in> Pair x ` {Suc x..<n}"
  proof (rule bexI [where x = i])
    show "(i, j) \<in> Pair i ` {Suc i..<n}" using a by simp
    show "i \<in> {0..<n}" using a by simp
  qed
  then show "(i, j) \<in> set (pairs n)" by (simp add: pairs_def)
qed

lemma distinct_pairs: "distinct (pairs n)"
  unfolding pairs_def
proof (rule distinct_concat)
  have "inj_on (\<lambda>i. map (Pair i) [i + 1..<n]) (set [0..<n])"
  proof (rule inj_onI)
    fix x y
    assume "x \<in> set [0..<n]" and "y \<in> set [0..<n]"
      and e: "map (Pair x) [x + 1..<n] = map (Pair y) [y + 1..<n]"
    then have "x < n" and "y < n" by auto
    moreover have "length (map (Pair x) [x + 1..<n]) = length (map (Pair y) [y + 1..<n])"
      using e by simp
    ultimately show "x = y" by simp
  qed
  then show "distinct (map (\<lambda>i. map (Pair i) [i + 1..<n]) [0..<n])"
    by (simp add: distinct_map)
next
  fix ys assume "ys \<in> set (map (\<lambda>i. map (Pair i) [i + 1..<n]) [0..<n])"
  then show "distinct ys" by (auto simp: distinct_map inj_on_def)
next
  fix ys zs
  assume "ys \<in> set (map (\<lambda>i. map (Pair i) [i + 1..<n]) [0..<n])"
    and "zs \<in> set (map (\<lambda>i. map (Pair i) [i + 1..<n]) [0..<n])" and "ys \<noteq> zs"
  then show "set ys \<inter> set zs = {}" by auto
qed

lemma wf_link: "wf_graph G \<Longrightarrow> wf_graph (link P ij G)"
  by (cases ij) (simp add: link_def wf_add_edge)

lemma wf_fold_link: "wf_graph G \<Longrightarrow> wf_graph (fold (link P) ps G)"
  by (induction ps arbitrary: G) (simp_all add: wf_link)

lemma has_edge_link:
  "wf_graph G \<Longrightarrow>
   has_edge (link P (i, j) G) a b \<longleftrightarrow>
     has_edge G a b \<or> (P i j \<and> ((a = i \<and> b = j) \<or> (a = j \<and> b = i)))"
  by (auto simp: link_def has_edge_add_edge)

lemma has_edge_fold_link:
  "wf_graph G \<Longrightarrow>
   has_edge (fold (link P) ps G) a b \<longleftrightarrow>
     has_edge G a b \<or> (\<exists>(i, j)\<in>set ps. P i j \<and> ((a = i \<and> b = j) \<or> (a = j \<and> b = i)))"
proof (induction ps arbitrary: G)
  case Nil
  then show ?case by simp
next
  case (Cons p ps)
  obtain i j where p: "p = (i, j)" by (cases p)
  show ?case
    using Cons.IH [OF wf_link [OF Cons.prems], of P p] Cons.prems
    by (auto simp: p has_edge_link)
qed

lemma G_node_fold_link:
  "\<forall>(i, j)\<in>set ps. i \<in> keys (G_node G) \<and> j \<in> keys (G_node G) \<Longrightarrow>
   G_node (fold (link P) ps G) = G_node G"
proof (induction ps arbitrary: G)
  case Nil
  then show ?case by simp
next
  case (Cons p ps)
  obtain i j where p: "p = (i, j)" by (cases p)
  have n: "G_node (link P p G) = G_node G"
    using Cons.prems by (simp add: p link_def G_node_add_edge_present)
  show ?case
    using Cons.IH [of "link P p G"] Cons.prems n by simp
qed

subsection \<open>Comprehensions that run through or stop\<close>

lemma comprehension_map:
  "(\<And>x. x \<in> set xs \<Longrightarrow> f x = Inr (g x)) \<Longrightarrow> comprehension f xs = Inr (map g xs)"
  by (induction xs) simp_all

lemma comprehension_first_error:
  "(\<And>y. y \<in> set pre \<Longrightarrow> \<exists>z. f y = Inr z) \<Longrightarrow> f x = Inl e \<Longrightarrow>
   comprehension f (pre @ x # rest) = Inl e"
proof (induction pre)
  case Nil
  then show ?case by simp
next
  case (Cons a pre)
  obtain z where "f a = Inr z" using Cons.prems(1) [of a] by auto
  moreover have "comprehension f (pre @ x # rest) = Inl e"
    using Cons by simp
  ultimately show ?case by simp
qed

lemma comprehension_error_source:
  "comprehension f xs = Inl e \<Longrightarrow> \<exists>x\<in>set xs. f x = Inl e"
  by (induction xs) (auto split: sum.splits)

subsection \<open>Fingerprints\<close>

lemma calculate_fingerprint_ok:
  "map_of (descriptors tk) (descriptor fc) = Some fn \<Longrightarrow> MolFromSmiles tk s = Some m \<Longrightarrow>
   calculate_fingerprint tk fc s = Inr (fn m)"
  by (simp add: calculate_fingerprint_def)

lemma calculate_fingerprint_invalid:
  "MolFromSmiles tk s = None \<Longrightarrow> calculate_fingerprint tk fc s = Inl (InvalidSMILESError [])"
  by (simp add: calculate_fingerprint_def)

lemma calculate_fingerprint_unsupported:
  "map_of (descriptors tk) (descriptor fc) = None \<Longrightarrow> MolFromSmiles tk s = Some m \<Longrightarrow>
   calculate_fingerprint tk fc s = Inl (KeyError (descriptor fc))"
  by (simp add: calculate_fingerprint_def)

lemma p_calculate_fingerprints_ok:
  assumes "map_of (descriptors tk) (descriptor (fingerprint_calculator self)) = Some fn"
    and "\<forall>s\<in>set smiles_list. MolFromSmiles tk s \<noteq> None"
  shows "p_calculate_fingerprints tk self smiles_list =
           Inr (map (\<lambda>s. fn (the (MolFromSmiles tk s))) smiles_list)"
  unfolding p_calculate_fingerprints_def
proof (rule comprehension_map)
  fix s assume "s \<in> set smiles_list"
  then obtain m where "MolFromSmiles tk s = Some m" using assms(2) by auto
  then show "calculate_fingerprint tk (fingerprint_calculator self) s
               = Inr (fn (the (MolFromSmiles tk s)))"
    using calculate_fingerprint_ok [OF assms(1)] by simp
qed

subsection \<open>Classes\<close>

lemma comprehension_Inr:
  "comprehension f xs = Inr ys \<Longrightarrow>
   length ys = length xs \<and> (\<forall>i<length xs. f (xs ! i) = Inr (ys ! i))"
proof (induction xs arbitrary: ys)
  case Nil
  then show ?case by simp
next
  case (Cons x xs)
  from Cons.prems obtain y where y: "f x = Inr y"
    by (cases "f x") simp_all
  from Cons.prems y obtain zs where zs: "comprehension f xs = Inr zs" and ys: "ys = y # zs"
    by (cases "comprehension f xs") auto
  from Cons.IH [OF zs] have l: "length zs = length xs"
    and a: "\<forall>i<length xs. f (xs ! i) = Inr (zs ! i)" by simp_all
  show ?case
  proof (intro conjI allI impI)
    show "length ys = length (x # xs)" by (simp add: ys l)
  next
    fix i assume "i < length (x # xs)"
    then show "f ((x # xs) ! i) = Inr (ys ! i)"
      using a y by (cases i) (simp_all add: ys)
  qed
qed

lemma np_where_first_Inr:
  "np_where_first np us c = Inr k \<Longrightarrow> k < length us \<and> np_equal np (us ! k) c"
proof (induction us arbitrary: k)
  case Nil
  then show ?case by simp
next
  case (Cons u us)
  show ?case
  proof (cases "np_equal np u c")
    case True
    then show ?thesis using Cons.prems by simp
  next
    case False
    with Cons.prems obtain k' where k': "np_where_first np us c = Inr k'" and k: "k = Suc k'"
      by (cases "np_where_first np us c") auto
    from Cons.IH [OF k'] show ?thesis by (simp add: k)
  qed
qed

lemma np_where_first_least:
  "np_where_first np us c = Inr k \<Longrightarrow> q < k \<Longrightarrow> \<not> np_equal np (us ! q) c"
proof (induction us arbitrary: k q)
  case Nil
  then show ?case by simp
next
  case (Cons u us)
  show ?case
  proof (cases "np_equal np u c")
    case True
    then show ?thesis using Cons.prems by simp
  next
    case False
    with Cons.prems obtain k' where k': "np_where_first np us c = Inr k'" and k: "k = Suc k'"
      by (cases "np_where_first np us c") auto
    show ?thesis
    proof (cases q)
      case 0
      then show ?thesis using False by simp
    next
      case (Suc q')
      then have "q' < k'" using Cons.prems(2) k by simp
      from Cons.IH [OF k' this] show ?thesis by (simp add: Suc)
    qed
  qed
qed

lemma np_where_first_Inl: "np_where_first np us c = Inl e \<Longrightarrow> e = IndexError"
  by (induction us) (auto split: if_splits sum.splits)

lemma np_where_first_found:
  "c \<in> set us \<Longrightarrow> \<forall>u\<in>set us. np_equal np u c = (u = c) \<Longrightarrow>
   \<exists>k. np_where_first np us c = Inr k \<and> k < length us \<and> us ! k = c"
proof (induction us)
  case Nil
  then show ?case by simp
next
  case (Cons u us)
  show ?case
  proof (cases "u = c")
    case True
    then show ?thesis using Cons.prems by simp
  next
    case False
    with Cons.prems have "c \<in> set us" and "\<forall>u\<in>set us. np_equal np u c = (u = c)" by simp_all
    from Cons.IH [OF this] obtain k where "np_where_first np us c = Inr k"
      and "k < length us" and "us ! k = c" by blast
    then show ?thesis using False Cons.prems by simp
  qed
qed

lemma set_np_unique: "set (np_unique np classes) = set (np_asarray np classes)"
  by (simp add: np_unique_def)

lemma distinct_np_unique: "distinct (np_unique np classes)"
  by (simp add: np_unique_def)

lemma sorted_np_unique: "sorted (np_unique np classes)"
  by (simp add: np_unique_def)

lemma label_index_Inr: "np_where_first np us c = Inr k \<Longrightarrow> label_index np us c = k"
  by (simp add: label_index_def)

lemma convert_body:
  "(case np_where_first np us c of Inl e \<Rightarrow> Inl e | Inr k \<Rightarrow> getitem [0..<length us] k) =
   np_where_first np us c"
proof (cases "np_where_first np us c")
  case (Inl e)
  then show ?thesis by simp
next
  case (Inr k)
  from np_where_first_Inr [OF Inr] show ?thesis by (simp add: Inr getitem_def)
qed

lemma p_convert_classes_comprehension:
  "p_convert_classes np classes =
     (case comprehension (np_where_first np (np_unique np classes)) classes of
        Inl e \<Rightarrow> Inl e
      | Inr class_labels \<Rightarrow> Inr (np_unique np classes, class_labels))"
  by (simp add: p_convert_classes_def Let_def convert_body)

text \<open>What a call of \<^verbatim>\<open>_convert_classes\<close> that returns has returned.\<close>

lemma p_convert_classes_Inr:
  assumes "p_convert_classes np classes = Inr (vocabulary, indices)"
  shows "vocabulary = np_unique np classes"
    and "length indices = length classes"
    and "\<forall>p<length classes.
           np_where_first np vocabulary (classes ! p) = Inr (indices ! p) \<and>
           indices ! p < length vocabulary \<and>
           np_equal np (vocabulary ! (indices ! p)) (classes ! p)"
    and "\<forall>v\<in>set indices. v < length vocabulary"
proof -
  from assms obtain ls where c: "comprehension (np_where_first np (np_unique np classes)) classes = Inr ls"
    and v: "vocabulary = np_unique np classes" and i: "indices = ls"
    unfolding p_convert_classes_comprehension
    by (cases "comprehension (np_where_first np (np_unique np classes)) classes") auto
  show "vocabulary = np_unique np classes" by (rule v)
  from comprehension_Inr [OF c] have l: "length ls = length classes"
    and a: "\<forall>p<length classes. np_where_first np (np_unique np classes) (classes ! p) = Inr (ls ! p)"
    by simp_all
  show "length indices = length classes" by (simp add: i l)
  show 3: "\<forall>p<length classes.
           np_where_first np vocabulary (classes ! p) = Inr (indices ! p) \<and>
           indices ! p < length vocabulary \<and>
           np_equal np (vocabulary ! (indices ! p)) (classes ! p)"
  proof (intro allI impI)
    fix p assume "p < length classes"
    with a have w: "np_where_first np vocabulary (classes ! p) = Inr (indices ! p)"
      by (simp add: v i)
    from np_where_first_Inr [OF w] w
    show "np_where_first np vocabulary (classes ! p) = Inr (indices ! p) \<and>
           indices ! p < length vocabulary \<and>
           np_equal np (vocabulary ! (indices ! p)) (classes ! p)" by simp
  qed
  show "\<forall>v\<in>set indices. v < length vocabulary"
  proof
    fix x assume "x \<in> set indices"
    then obtain p where "p < length indices" and "indices ! p = x"
      by (auto simp: in_set_conv_nth)
    with 3 show "x < length vocabulary" by (auto simp: i l)
  qed
qed

lemma p_convert_classes_Inl: "p_convert_classes np classes = Inl e \<Longrightarrow> e = IndexError"
proof -
  assume a: "p_convert_classes np classes = Inl e"
  then have "comprehension (np_where_first np (np_unique np classes)) classes = Inl e"
    unfolding p_convert_classes_comprehension
    by (cases "comprehension (np_where_first np (np_unique np classes)) classes") auto
  from comprehension_error_source [OF this] obtain c
    where "np_where_first np (np_unique np classes) c = Inl e" by blast
  then show ?thesis by (rule np_where_first_Inl)
qed

text \<open>On labels NumPy keeps as they are the call returns, and the vocabulary decodes to
  the labels.\<close>

lemma stored_unchangedD:
  "stored_unchanged np classes \<Longrightarrow> np_asarray np classes = classes"
  "stored_unchanged np classes \<Longrightarrow> u \<in> set classes \<Longrightarrow> c \<in> set classes \<Longrightarrow>
     np_equal np u c = (u = c)"
  by (auto simp: stored_unchanged_def list_all_iff)

lemma p_convert_classes_unchanged:
  assumes s: "stored_unchanged np classes"
  shows "p_convert_classes np classes =
           Inr (sort (remdups classes),
                map (label_index np (sort (remdups classes))) classes)"
    and "\<forall>p<length classes.
           sort (remdups classes) ! (label_index np (sort (remdups classes)) (classes ! p))
             = classes ! p"
proof -
  let ?us = "sort (remdups classes)"
  have u: "np_unique np classes = ?us" by (simp add: np_unique_def stored_unchangedD(1) [OF s])
  have f: "np_where_first np ?us c = Inr (label_index np ?us c) \<and> ?us ! label_index np ?us c = c"
    if c: "c \<in> set classes" for c
  proof -
    have "c \<in> set ?us" using c by simp
    moreover have "\<forall>u\<in>set ?us. np_equal np u c = (u = c)"
      using stored_unchangedD(2) [OF s _ c] by simp
    ultimately obtain k where k: "np_where_first np ?us c = Inr k" and e: "?us ! k = c"
      using np_where_first_found [of c ?us np] by blast
    show ?thesis by (simp add: k e label_index_Inr [OF k])
  qed
  have "comprehension (np_where_first np ?us) classes = Inr (map (label_index np ?us) classes)"
    by (rule comprehension_map) (simp add: f)
  then show "p_convert_classes np classes = Inr (?us, map (label_index np ?us) classes)"
    by (simp add: p_convert_classes_comprehension u)
  show "\<forall>p<length classes. ?us ! (label_index np ?us (classes ! p)) = classes ! p"
    using f by simp
qed

lemma convert_unchanged_decode:
  assumes "stored_unchanged np classes"
    and "p_convert_classes np classes = Inr (vocabulary, indices)"
    and "p < length classes"
  shows "vocabulary ! (indices ! p) = classes ! p"
  using p_convert_classes_unchanged [OF assms(1)] assms(2,3) by simp

subsection \<open>Nodes\<close>

lemma weighted_node_ok:
  "node < length smiles_list \<Longrightarrow> val < length unique_classes \<Longrightarrow>
   weighted_node str smiles_list unique_classes (node, val) =
     Inr (node, node_attrs str (smiles_list ! node) (unique_classes ! val))"
  by (simp add: weighted_node_def getitem_def node_attrs_def)

lemma p_add_nodes_ok:
  assumes "\<forall>v\<in>set categorical_labels. v < length unique_classes"
  shows "p_add_nodes str self smiles_list unique_classes categorical_labels =
     (Inr (), self\<lparr>graph := add_nodes_from (graph self)
        (map (\<lambda>(node, val). (node, node_attrs str (smiles_list ! node) (unique_classes ! val)))
           (zip [0..<length smiles_list] categorical_labels))\<rparr>)"
proof -
  have "comprehension (weighted_node str smiles_list unique_classes)
          (zip [0..<length smiles_list] categorical_labels)
        = Inr (map (\<lambda>(node, val). (node, node_attrs str (smiles_list ! node) (unique_classes ! val)))
           (zip [0..<length smiles_list] categorical_labels))"
  proof (rule comprehension_map)
    fix x assume x: "x \<in> set (zip [0..<length smiles_list] categorical_labels)"
    obtain node val where nv: "x = (node, val)" by (cases x)
    have "node < length smiles_list" and "val < length unique_classes"
      using x assms unfolding nv by (auto dest: set_zip_leftD set_zip_rightD)
    then show "weighted_node str smiles_list unique_classes x =
       Inr (case x of (node, val) \<Rightarrow>
              (node, node_attrs str (smiles_list ! node) (unique_classes ! val)))"
      by (simp add: nv weighted_node_ok)
  qed
  then show ?thesis by (simp add: p_add_nodes_def Let_def)
qed

subsection \<open>Adding the nodes\<close>

lemma map_entry_append_new:
  "k \<notin> fst ` set al \<Longrightarrow> AList.map_entry k f (al @ [(k, v)]) = al @ [(k, f v)]"
  by (induction al) auto

lemma keys_Cons [simp]: "keys ((k, v) # al) = insert k (keys al)"
  by (simp add: keys_def)

lemma map_of_dict_update:
  "distinct (map fst new) \<Longrightarrow> map_of (dict_update d new) = map_of d ++ map_of new"
  unfolding dict_update_def
proof (induction new arbitrary: d)
  case Nil
  then show ?case by simp
next
  case (Cons p new)
  obtain k v where p: "p = (k, v)" by (cases p)
  have d: "distinct (map fst new)" and k: "k \<notin> dom (map_of new)"
    using Cons.prems by (auto simp: p dom_map_of_conv_image_fst)
  have "map_of (fold (\<lambda>(k, v). AList.update k v) new (AList.update k v d))
          = map_of (AList.update k v d) ++ map_of new"
    by (rule Cons.IH [OF d])
  also have "\<dots> = (map_of d ++ map_of new)(k \<mapsto> v)"
    by (simp add: update_conv' map_add_upd_left [OF k])
  also have "\<dots> = map_of d ++ map_of ((k, v) # new)"
    by simp
  finally show ?case unfolding p by (simp only: fold_simps prod.case)
qed

lemma dict_update_node_attrs: "dict_update [] (node_attrs str smi c) = node_attrs str smi c"
  by (simp add: dict_update_def node_attrs_def)

lemma add_nodes_from_fold: "add_nodes_from G wn = fold add_node wn G"
  by (induction G wn rule: add_nodes_from.induct) (simp_all add: add_node_def Let_def)

lemma G_adj_add_node: "G_adj (add_node (n, nd) G) = G_adj (new_node n G)"
  by (simp add: add_node_def Let_def)

lemma keys_node_add_node: "keys (G_node (add_node (n, nd) G)) = insert n (keys (G_node G))"
  by (simp add: add_node_def Let_def keys_map_entry keys_node_new_node)

lemma wf_add_node: "wf_graph G \<Longrightarrow> wf_graph (add_node p G)"
  using wf_new_node [of G "fst p"]
  by (cases p) (simp add: wf_graph_def G_adj_add_node keys_map_entry add_node_def Let_def)

lemma has_edge_add_node: "wf_graph G \<Longrightarrow> has_edge (add_node p G) a b = has_edge G a b"
  using has_edge_new_node [of G "fst p" a b]
  by (cases p) (simp add: has_edge_def G_adj_add_node)

lemma map_of_node_add_node:
  "map_of (G_node (add_node (n, nd) G)) k =
     (if k = n then Some (dict_update (case map_of (G_node G) n of None \<Rightarrow> [] | Some d \<Rightarrow> d) nd)
      else map_of (G_node G) k)"
  by (auto simp: add_node_def Let_def new_node_def map_of_map_entry update_conv'
      map_of_None_keys [symmetric] split: option.splits)

lemma wf_add_nodes_from: "wf_graph G \<Longrightarrow> wf_graph (add_nodes_from G wn)"
  unfolding add_nodes_from_fold
  by (induction wn arbitrary: G) (simp_all add: wf_add_node)

lemma has_edge_add_nodes_from:
  "wf_graph G \<Longrightarrow> has_edge (add_nodes_from G wn) a b = has_edge G a b"
  unfolding add_nodes_from_fold
  by (induction wn arbitrary: G) (simp_all add: wf_add_node has_edge_add_node)

lemma keys_node_add_nodes_from:
  "keys (G_node (add_nodes_from G wn)) = keys (G_node G) \<union> keys wn"
  unfolding add_nodes_from_fold
proof (induction wn arbitrary: G)
  case Nil
  then show ?case by simp
next
  case (Cons p wn)
  obtain n nd where p: "p = (n, nd)" by (cases p)
  show ?case by (simp add: Cons.IH p keys_node_add_node)
qed

lemma map_of_node_add_nodes_from:
  "distinct (map fst wn) \<Longrightarrow>
   map_of (G_node (add_nodes_from G wn)) k =
     (case map_of wn k of
        None \<Rightarrow> map_of (G_node G) k
      | Some nd \<Rightarrow> Some (dict_update (case map_of (G_node G) k of None \<Rightarrow> [] | Some d \<Rightarrow> d) nd))"
  unfolding add_nodes_from_fold
proof (induction wn arbitrary: G)
  case Nil
  then show ?case by simp
next
  case (Cons p wn)
  obtain n nd where p: "p = (n, nd)" by (cases p)
  have d: "distinct (map fst wn)" and n: "n \<notin> fst ` set wn"
    using Cons.prems by (auto simp: p)
  have none: "map_of wn n = None" using n by (simp add: map_of_eq_None_iff)
  show ?case
    using Cons.IH [OF d, of "add_node p G"]
    by (auto simp: p map_of_node_add_node none split: option.splits)
qed

lemma add_node_fresh:
  assumes "wf_graph G" and "n \<notin> keys (G_node G)"
  shows "add_node (n, nd) G =
           G\<lparr>G_adj := G_adj G @ [(n, [])], G_node := G_node G @ [(n, dict_update [] nd)]\<rparr>"
proof -
  have a: "n \<notin> fst ` set (G_adj G)" and b: "n \<notin> fst ` set (G_node G)"
    using assms by (simp_all add: wf_graph_def keys_def)
  show ?thesis
    using assms(2)
    by (simp add: add_node_def Let_def new_node_def update_new_key [OF a] update_new_key [OF b]
        map_entry_append_new [OF b])
qed

lemma add_nodes_from_fresh:
  assumes "wf_graph G" and "distinct (map fst wn)" and "keys wn \<inter> keys (G_node G) = {}"
  shows "add_nodes_from G wn =
           G\<lparr>G_adj := G_adj G @ map (\<lambda>(n, nd). (n, [])) wn,
             G_node := G_node G @ map (\<lambda>(n, nd). (n, dict_update [] nd)) wn\<rparr>"
  unfolding add_nodes_from_fold using assms
proof (induction wn arbitrary: G)
  case Nil
  then show ?case by simp
next
  case (Cons p wn)
  obtain n nd where p: "p = (n, nd)" by (cases p)
  have fresh: "n \<notin> keys (G_node G)" using Cons.prems(3) by (simp add: p)
  let ?G = "add_node (n, nd) G"
  have eq: "?G = G\<lparr>G_adj := G_adj G @ [(n, [])], G_node := G_node G @ [(n, dict_update [] nd)]\<rparr>"
    by (rule add_node_fresh [OF Cons.prems(1) fresh])
  have wf: "wf_graph ?G" by (rule wf_add_node [OF Cons.prems(1)])
  have d: "distinct (map fst wn)" using Cons.prems(2) by simp
  have "n \<notin> keys wn" using Cons.prems(2) by (simp add: p keys_def)
  then have disj: "keys wn \<inter> keys (G_node ?G) = {}"
    using Cons.prems(3) by (auto simp: p keys_node_add_node)
  show ?case
    using Cons.IH [OF wf d disj] by (simp add: p eq)
qed

subsection \<open>A build that succeeds\<close>

lemma weighted_nodes_eq:
  "map (\<lambda>(node, val). (node, node_attrs str (smiles_list ! node) (vocabulary ! val)))
     (zip [0..<length smiles_list] indices)
   = built_nodes str smiles_list vocabulary indices"
  by (rule nth_equalityI) (simp_all add: built_nodes_def)

lemma p_add_nodes_total:
  "\<forall>v\<in>set indices. v < length vocabulary \<Longrightarrow>
   p_add_nodes str self smiles_list vocabulary indices =
   (Inr (), self\<lparr>graph := add_nodes_from (graph self)
                            (built_nodes str smiles_list vocabulary indices)\<rparr>)"
  by (simp add: p_add_nodes_ok weighted_nodes_eq)

lemma create_graph_ok:
  assumes d: "map_of (descriptors tk) (descriptor (fingerprint_calculator self)) = Some fn"
    and m: "map_of (metrics tk) (sim_metric (similarity_calculator self)) = Some (Fn2 sim)"
    and p: "\<forall>s\<in>set smiles_list. MolFromSmiles tk s \<noteq> None"
    and c: "p_convert_classes np classes = Inr (vocabulary, indices)"
  shows "create_graph tk np str self smiles_list classes =
    (Inr (fold (link (\<lambda>i j. sim_threshold self
                   < score sim (map (\<lambda>s. fn (the (MolFromSmiles tk s))) smiles_list) i j))
            (pairs (length smiles_list))
            (add_nodes_from (graph self) (built_nodes str smiles_list vocabulary indices))),
     self\<lparr>graph := fold (link (\<lambda>i j. sim_threshold self
                   < score sim (map (\<lambda>s. fn (the (MolFromSmiles tk s))) smiles_list) i j))
            (pairs (length smiles_list))
            (add_nodes_from (graph self) (built_nodes str smiles_list vocabulary indices))\<rparr>)"
proof -
  let ?fps = "map (\<lambda>s. fn (the (MolFromSmiles tk s))) smiles_list"
  let ?self1 = "self\<lparr>graph := add_nodes_from (graph self) (built_nodes str smiles_list vocabulary indices)\<rparr>"
  have f: "p_calculate_fingerprints tk self smiles_list = Inr ?fps"
    by (rule p_calculate_fingerprints_ok [OF d p])
  have n: "p_add_nodes str self smiles_list vocabulary indices = (Inr (), ?self1)"
    by (rule p_add_nodes_total [OF p_convert_classes_Inr(4) [OF c]])
  have m1: "map_of (metrics tk) (sim_metric (similarity_calculator ?self1)) = Some (Fn2 sim)"
    using m by simp
  show ?thesis
    by (simp add: create_graph_def p_create_graph_def f c n p_add_edges_Fn2 [OF m1])
qed

lemma keys_built_nodes:
  "keys (built_nodes str smiles_list vocabulary indices) = {k. k < min (length smiles_list) (length indices)}"
  by (auto simp: built_nodes_def keys_def image_iff)

lemma distinct_built_nodes: "distinct (map fst (built_nodes str smiles_list vocabulary indices))"
  by (simp add: built_nodes_def comp_def)

lemma map_of_built_nodes:
  "map_of (built_nodes str smiles_list vocabulary indices) k =
     (if k < min (length smiles_list) (length indices)
      then Some (node_attrs str (smiles_list ! k) (vocabulary ! (indices ! k))) else None)"
proof (cases "k < min (length smiles_list) (length indices)")
  case True
  have "map_of (map (\<lambda>k. (k, node_attrs str (smiles_list ! k) (vocabulary ! (indices ! k))))
          [0..<min (length smiles_list) (length indices)]) k
        = Some (node_attrs str (smiles_list ! k) (vocabulary ! (indices ! k)))"
    using True by (simp add: map_of_map_restrict)
  then show ?thesis using True by (simp add: built_nodes_def)
next
  case False
  then have "k \<notin> keys (built_nodes str smiles_list vocabulary indices)" by (simp add: keys_built_nodes)
  then have "map_of (built_nodes str smiles_list vocabulary indices) k = None"
    by (simp add: map_of_None_keys)
  then show ?thesis using False by auto
qed

lemma wf_Graph_init: "wf_graph Graph_init"
  by (simp add: wf_graph_def Graph_init_def)

lemma has_edge_Graph_init: "\<not> has_edge Graph_init a b"
  by (simp add: has_edge_def Graph_init_def)

lemma has_edge_fresh_build:
  "has_edge (fold (link P) (pairs n) (add_nodes_from Graph_init wn)) a b \<longleftrightarrow>
     (a < b \<and> b < n \<and> P a b) \<or> (b < a \<and> a < n \<and> P b a)"
proof -
  have wf: "wf_graph (add_nodes_from Graph_init wn)"
    by (rule wf_add_nodes_from [OF wf_Graph_init])
  have "has_edge (fold (link P) (pairs n) (add_nodes_from Graph_init wn)) a b \<longleftrightarrow>
        (\<exists>(i, j)\<in>set (pairs n). P i j \<and> ((a = i \<and> b = j) \<or> (a = j \<and> b = i)))"
    by (simp add: has_edge_fold_link [OF wf] has_edge_add_nodes_from [OF wf_Graph_init]
        has_edge_Graph_init)
  also have "\<dots> \<longleftrightarrow> (a < b \<and> b < n \<and> P a b) \<or> (b < a \<and> a < n \<and> P b a)"
    using in_set_pairs [of a b n] in_set_pairs [of b a n]
    by (auto simp: in_set_pairs)
  finally show ?thesis .
qed

lemma keys_Graph_init: "keys (G_node Graph_init) = {}"
  by (simp add: Graph_init_def)

lemma add_nodes_fresh_build:
  "add_nodes_from Graph_init (built_nodes str smiles_list vocabulary indices) =
     \<lparr>G_node = built_nodes str smiles_list vocabulary indices,
      G_adj = map (\<lambda>k. (k, [])) [0..<min (length smiles_list) (length indices)]\<rparr>"
proof -
  have "keys (built_nodes str smiles_list vocabulary indices) \<inter> keys (G_node Graph_init) = {}"
    by (simp add: keys_Graph_init)
  from add_nodes_from_fresh [OF wf_Graph_init distinct_built_nodes this]
  show ?thesis
    by (simp add: Graph_init_def built_nodes_def dict_update_node_attrs comp_def)
qed

subsection \<open>Nodes created with an edge\<close>

lemma map_of_node_new_node:
  "map_of (G_node (new_node n G)) k =
     (if k = n \<and> n \<notin> keys (G_node G) then Some [] else map_of (G_node G) k)"
  by (simp add: new_node_def update_conv')

lemma map_of_node_add_edge:
  "map_of (G_node (add_edge G u v)) k =
     (if k \<in> keys (G_node G) then map_of (G_node G) k
      else if k = u \<or> k = v then Some [] else None)"
  using map_of_None_keys [of "G_node G" k]
  by (auto simp: G_node_add_edge map_of_node_new_node keys_node_new_node)

lemma map_of_node_fold_link:
  "map_of (G_node (fold (link P) ps G)) k =
     (if k \<in> keys (G_node G) then map_of (G_node G) k
      else if \<exists>(i, j)\<in>set ps. P i j \<and> (k = i \<or> k = j) then Some [] else None)"
proof (induction ps arbitrary: G)
  case Nil
  then show ?case using map_of_None_keys [of "G_node G" k] by auto
next
  case (Cons p ps)
  obtain i j where p: "p = (i, j)" by (cases p)
  show ?case
  proof (cases "P i j")
    case False
    then show ?thesis using Cons.IH [of G] by (auto simp: p link_def)
  next
    case True
    then have l: "link P (i, j) G = add_edge G i j" by (simp add: link_def)
    show ?thesis
      using Cons.IH [of "add_edge G i j"] True
      by (auto simp: p l keys_node_add_edge map_of_node_add_edge)
  qed
qed

lemma has_node_fold_link:
  "has_node (fold (link P) ps G) k \<longleftrightarrow>
     has_node G k \<or> (\<exists>(i, j)\<in>set ps. P i j \<and> (k = i \<or> k = j))"
  using map_of_node_fold_link [of P ps G k]
    map_of_None_keys [of "G_node (fold (link P) ps G)" k] map_of_None_keys [of "G_node G" k]
  by (auto simp: has_node_def split: if_splits)

subsection \<open>Where an exception comes from\<close>

lemma calculate_fingerprint_error:
  "map_of (descriptors tk) (descriptor fc) = Some fn \<Longrightarrow> calculate_fingerprint tk fc s = Inl e \<Longrightarrow>
   e = InvalidSMILESError []"
  by (auto simp: calculate_fingerprint_def split: option.splits)

lemma apply_metric_error:
  "apply_metric tk sc a b = Inl e \<Longrightarrow>
   (map_of (metrics tk) (sim_metric sc) = None \<and> e = KeyError (sim_metric sc)) \<or> e = TypeError"
  by (cases "map_of (metrics tk) (sim_metric sc)"; cases "the (map_of (metrics tk) (sim_metric sc))")
     (auto simp: apply_metric_def)

lemma calculate_similarity_error:
  "calculate_similarity tk sc a b = Inl e \<Longrightarrow>
   (map_of (metrics tk) (sim_metric sc) = None \<and> e = KeyError (sim_metric sc)) \<or> e = TypeError"
  using apply_metric_error [of tk sc a b e] apply_metric_error [of tk sc b a e]
  by (auto simp: calculate_similarity_def split: sum.splits)

lemma add_edges_inner_error:
  "add_edges_inner tk self fps i js = (Inl e, self') \<Longrightarrow>
   \<exists>a b. calculate_similarity tk (similarity_calculator self) a b = Inl e"
proof (induction js arbitrary: self)
  case Nil
  then show ?case by simp
next
  case (Cons j js)
  show ?case
  proof (cases "p_calculate_similarity tk self (fps ! i) (fps ! j)")
    case (Inl e')
    then show ?thesis using Cons.prems by (auto simp: p_calculate_similarity_def)
  next
    case (Inr v)
    let ?s = "if sim_threshold self < v then self\<lparr>graph := add_edge (graph self) i j\<rparr> else self"
    have "add_edges_inner tk ?s fps i js = (Inl e, self')"
      using Cons.prems Inr by simp
    from Cons.IH [OF this] show ?thesis by (simp split: if_splits)
  qed
qed

lemma add_edges_inner_config:
  "add_edges_inner tk self fps i js = (r, self') \<Longrightarrow>
   similarity_calculator self' = similarity_calculator self \<and>
   fingerprint_calculator self' = fingerprint_calculator self \<and>
   sim_threshold self' = sim_threshold self"
proof (induction js arbitrary: self)
  case Nil
  then show ?case by simp
next
  case (Cons j js)
  show ?case
  proof (cases "p_calculate_similarity tk self (fps ! i) (fps ! j)")
    case (Inl e')
    then show ?thesis using Cons.prems by auto
  next
    case (Inr v)
    let ?s = "if sim_threshold self < v then self\<lparr>graph := add_edge (graph self) i j\<rparr> else self"
    have "add_edges_inner tk ?s fps i js = (r, self')"
      using Cons.prems Inr by simp
    from Cons.IH [OF this] show ?thesis by (simp split: if_splits)
  qed
qed

lemma add_edges_outer_error:
  "add_edges_outer tk self fps n is = (Inl e, self') \<Longrightarrow>
   \<exists>a b. calculate_similarity tk (similarity_calculator self) a b = Inl e"
proof (induction "is" arbitrary: self)
  case Nil
  then show ?case by simp
next
  case (Cons i "is")
  obtain r s1 where in1: "add_edges_inner tk self fps i [i + 1..<n] = (r, s1)"
    by (cases "add_edges_inner tk self fps i [i + 1..<n]")
  show ?case
  proof (cases r)
    case (Inl e')
    then have "e' = e" using Cons.prems in1 by simp
    then show ?thesis using add_edges_inner_error [of tk self fps i "[i + 1..<n]" e s1] in1 Inl
      by simp
  next
    case (Inr u)
    then have "add_edges_outer tk s1 fps n is = (Inl e, self')"
      using Cons.prems in1 by simp
    from Cons.IH [OF this] add_edges_inner_config [OF in1] show ?thesis by simp
  qed
qed

lemma p_add_edges_error:
  "p_add_edges tk self fps = (Inl e, self') \<Longrightarrow>
   \<exists>a b. calculate_similarity tk (similarity_calculator self) a b = Inl e"
  by (simp add: p_add_edges_def Let_def add_edges_outer_error)

lemma create_graph_after_fingerprints:
  "p_calculate_fingerprints tk self smiles_list = Inr fps \<Longrightarrow>
   p_convert_classes np classes = Inr (vocabulary, indices) \<Longrightarrow>
   p_create_graph tk np str self smiles_list classes =
     p_add_edges tk
       (self\<lparr>graph := add_nodes_from (graph self) (built_nodes str smiles_list vocabulary indices)\<rparr>) fps"
  by (simp add: p_create_graph_def p_add_nodes_total [OF p_convert_classes_Inr(4)])

lemma create_graph_convert_error:
  "p_calculate_fingerprints tk self smiles_list = Inr fps \<Longrightarrow>
   p_convert_classes np classes = Inl e \<Longrightarrow>
   create_graph tk np str self smiles_list classes = (Inl e, self)"
  by (simp add: create_graph_def p_create_graph_def)

lemma create_graph_fingerprint_error:
  "p_calculate_fingerprints tk self smiles_list = Inl e \<Longrightarrow>
   create_graph tk np str self smiles_list classes = (Inl e, self)"
  by (simp add: create_graph_def p_create_graph_def)

lemma fingerprints_first_invalid:
  assumes "map_of (descriptors tk) (descriptor (fingerprint_calculator self)) = Some fn"
    and "\<forall>s\<in>set pre. MolFromSmiles tk s \<noteq> None"
    and "MolFromSmiles tk bad = None"
  shows "p_calculate_fingerprints tk self (pre @ bad # rest) = Inl (InvalidSMILESError [])"
  unfolding p_calculate_fingerprints_def
proof (rule comprehension_first_error)
  fix y assume "y \<in> set pre"
  then obtain mol where "MolFromSmiles tk y = Some mol" using assms(2) by auto
  then show "\<exists>z. calculate_fingerprint tk (fingerprint_calculator self) y = Inr z"
    using calculate_fingerprint_ok [OF assms(1)] by blast
next
  show "calculate_fingerprint tk (fingerprint_calculator self) bad = Inl (InvalidSMILESError [])"
    by (rule calculate_fingerprint_invalid [OF assms(3)])
qed

lemma create_graph_no_KeyError:
  assumes d: "map_of (descriptors tk) (descriptor (fingerprint_calculator self)) \<noteq> None"
    and m: "map_of (metrics tk) (sim_metric (similarity_calculator self)) \<noteq> None"
  shows "fst (create_graph tk np str self smiles_list classes) \<noteq> Inl (KeyError x)"
proof (cases "p_calculate_fingerprints tk self smiles_list")
  case (Inl e)
  obtain fn where fn: "map_of (descriptors tk) (descriptor (fingerprint_calculator self)) = Some fn"
    using d by auto
  from Inl obtain s where "calculate_fingerprint tk (fingerprint_calculator self) s = Inl e"
    using comprehension_error_source by (fastforce simp: p_calculate_fingerprints_def)
  from calculate_fingerprint_error [OF fn this] have "e = InvalidSMILESError []" .
  then show ?thesis using Inl by (simp add: create_graph_fingerprint_error)
next
  case fps: (Inr fps)
  show ?thesis
  proof (cases "p_convert_classes np classes")
    case (Inl e)
    from p_convert_classes_Inl [OF Inl] show ?thesis
      by (simp add: create_graph_convert_error [OF fps Inl])
  next
    case (Inr vi)
    obtain vocabulary indices where vi: "vi = (vocabulary, indices)" by (cases vi)
    note c = Inr [unfolded vi]
    let ?s1 = "self\<lparr>graph := add_nodes_from (graph self) (built_nodes str smiles_list vocabulary indices)\<rparr>"
    obtain r s2 where e: "p_add_edges tk ?s1 fps = (r, s2)"
      by (cases "p_add_edges tk ?s1 fps")
    have run: "create_graph tk np str self smiles_list classes =
                 (case r of Inl e \<Rightarrow> (Inl e, s2) | Inr u \<Rightarrow> (Inr (graph s2), s2))"
      using e
      by (simp add: create_graph_def create_graph_after_fingerprints [OF fps c] split: sum.splits)
    show ?thesis
    proof (cases r)
      case (Inl err)
      with e obtain a b where "calculate_similarity tk (similarity_calculator ?s1) a b = Inl err"
        using p_add_edges_error by blast
      from calculate_similarity_error [OF this] m have "err = TypeError" by simp
      then show ?thesis using run Inl by simp
    next
      case (Inr u)
      then show ?thesis using run by simp
    qed
  qed
qed

lemma create_graph_unsupported_descriptor:
  assumes "map_of (descriptors tk) (descriptor (fingerprint_calculator self)) = None"
    and "MolFromSmiles tk s \<noteq> None"
  shows "create_graph tk np str self (s # rest) classes
           = (Inl (KeyError (descriptor (fingerprint_calculator self))), self)"
proof -
  obtain mol where "MolFromSmiles tk s = Some mol" using assms(2) by auto
  from calculate_fingerprint_unsupported [OF assms(1) this]
  have "p_calculate_fingerprints tk self (s # rest)
          = Inl (KeyError (descriptor (fingerprint_calculator self)))"
    by (simp add: p_calculate_fingerprints_def)
  then show ?thesis by (rule create_graph_fingerprint_error)
qed

lemma apply_metric_unsupported:
  "map_of (metrics tk) (sim_metric sc) = None \<Longrightarrow>
   apply_metric tk sc a b = Inl (KeyError (sim_metric sc))"
  by (simp add: apply_metric_def)

lemma add_edges_inner_unsupported:
  "map_of (metrics tk) (sim_metric (similarity_calculator self)) = None \<Longrightarrow>
   add_edges_inner tk self fps i (j # js)
     = (Inl (KeyError (sim_metric (similarity_calculator self))), self)"
  by (simp add: p_calculate_similarity_def calculate_similarity_def apply_metric_unsupported)

lemma p_add_edges_unsupported:
  assumes "map_of (metrics tk) (sim_metric (similarity_calculator self)) = None"
    and "2 \<le> length fps"
  shows "p_add_edges tk self fps = (Inl (KeyError (sim_metric (similarity_calculator self))), self)"
proof -
  have pos: "0 < length fps" and one: "0 + 1 < length fps"
    using assms(2) by auto
  have a: "[0..<length fps] = 0 # [Suc 0..<length fps]"
    using pos by (rule upt_conv_Cons)
  have b: "[0 + 1..<length fps] = (0 + 1) # [Suc (0 + 1)..<length fps]"
    using one by (rule upt_conv_Cons)
  have "add_edges_inner tk self fps 0 [0 + 1..<length fps]
          = (Inl (KeyError (sim_metric (similarity_calculator self))), self)"
    unfolding b by (rule add_edges_inner_unsupported [OF assms(1)])
  then have "add_edges_outer tk self fps (length fps) (0 # [Suc 0..<length fps])
          = (Inl (KeyError (sim_metric (similarity_calculator self))), self)"
    by (simp only: add_edges_outer.simps prod.case sum.case)
  then show ?thesis
    by (simp only: p_add_edges_def Let_def a)
qed

lemma create_graph_unsupported_metric:
  assumes d: "map_of (descriptors tk) (descriptor (fingerprint_calculator self)) = Some fn"
    and m: "map_of (metrics tk) (sim_metric (similarity_calculator self)) = None"
    and p: "\<forall>s\<in>set smiles_list. MolFromSmiles tk s \<noteq> None"
    and l: "2 \<le> length smiles_list"
    and c: "p_convert_classes np classes = Inr (vocabulary, indices)"
  shows "create_graph tk np str self smiles_list classes =
           (Inl (KeyError (sim_metric (similarity_calculator self))),
            self\<lparr>graph := add_nodes_from (graph self) (built_nodes str smiles_list vocabulary indices)\<rparr>)"
proof -
  let ?fps = "map (\<lambda>s. fn (the (MolFromSmiles tk s))) smiles_list"
  let ?s1 = "self\<lparr>graph := add_nodes_from (graph self) (built_nodes str smiles_list vocabulary indices)\<rparr>"
  have f: "p_calculate_fingerprints tk self smiles_list = Inr ?fps"
    by (rule p_calculate_fingerprints_ok [OF d p])
  have m1: "map_of (metrics tk) (sim_metric (similarity_calculator ?s1)) = None"
    using m by simp
  have l1: "2 \<le> length ?fps" using l by simp
  show ?thesis
    using p_add_edges_unsupported [OF m1 l1]
    by (simp add: create_graph_def create_graph_after_fingerprints [OF f c])
qed

subsection \<open>Simple graphs\<close>

lemma map_of_adj_new_node:
  "map_of (G_adj (new_node n G)) u =
     (if u = n \<and> n \<notin> keys (G_node G) then Some [] else map_of (G_adj G) u)"
  by (simp add: new_node_def update_conv')

lemma adj_list_new_node: "wf_graph G \<Longrightarrow> adj_list (new_node n G) u = adj_list G u"
  using map_of_None_keys [of "G_adj G" n]
  by (auto simp: adj_list_def map_of_adj_new_node wf_graph_def)

lemma distinct_adj_new_node:
  "distinct (map fst (G_adj G)) \<Longrightarrow> distinct (map fst (G_adj (new_node n G)))"
  by (simp add: new_node_def distinct_update)

lemma simple_new_node: "simple_graph G \<Longrightarrow> simple_graph (new_node n G)"
  by (simp add: simple_graph_def wf_new_node has_edge_new_node adj_list_new_node
      distinct_adj_new_node)

lemma simple_add_node: "simple_graph G \<Longrightarrow> simple_graph (add_node p G)"
proof -
  assume s: "simple_graph G"
  obtain n nd where p: "p = (n, nd)" by (cases p)
  have wf: "wf_graph G" using s by (simp add: simple_graph_def)
  have a: "adj_list (add_node p G) u = adj_list (new_node n G) u" for u
    by (simp add: adj_list_def p G_adj_add_node)
  show ?thesis
    using simple_new_node [OF s, of n] s
    by (simp add: simple_graph_def wf_add_node [OF wf] has_edge_add_node [OF wf]
        has_edge_new_node [OF wf] a) (simp add: p G_adj_add_node)
qed

lemma simple_add_nodes_from: "simple_graph G \<Longrightarrow> simple_graph (add_nodes_from G wn)"
  unfolding add_nodes_from_fold
  by (induction wn arbitrary: G) (simp_all add: simple_add_node)

lemma distinct_nbrs_map_entry:
  "distinct (case map_of adj a of None \<Rightarrow> [] | Some nbrs \<Rightarrow> map fst nbrs) \<Longrightarrow>
   distinct (case map_of (AList.map_entry k (AList.update x d) adj) a of
               None \<Rightarrow> [] | Some nbrs \<Rightarrow> map fst nbrs)"
  by (auto simp: map_of_map_entry distinct_update split: option.splits)

lemma simple_add_edge:
  assumes "simple_graph G" and "u \<noteq> v"
  shows "simple_graph (add_edge G u v)"
proof -
  let ?G2 = "new_node v (new_node u G)"
  have s2: "simple_graph ?G2" using assms(1) by (simp add: simple_new_node)
  have wf: "wf_graph G" using assms(1) by (simp add: simple_graph_def)
  have d: "distinct (map fst (G_adj (add_edge G u v)))"
    using s2 by (simp add: add_edge_def Let_def distinct_map_entry simple_graph_def)
  have n: "distinct (adj_list (add_edge G u v) a)" for a
  proof -
    have "distinct (case map_of (G_adj ?G2) a of None \<Rightarrow> [] | Some nbrs \<Rightarrow> map fst nbrs)"
      using s2 by (simp add: simple_graph_def adj_list_def)
    then show ?thesis
      by (simp add: adj_list_def add_edge_def Let_def distinct_nbrs_map_entry)
  qed
  show ?thesis
    using assms d n
    by (auto simp: simple_graph_def wf_add_edge [OF wf] has_edge_add_edge [OF wf])
qed

lemma simple_Graph_init: "simple_graph Graph_init"
  by (simp add: simple_graph_def wf_Graph_init has_edge_Graph_init)
     (simp add: Graph_init_def adj_list_def)

lemma simple_add_edges_inner:
  "simple_graph (graph self) \<Longrightarrow> i \<notin> set js \<Longrightarrow>
   add_edges_inner tk self fps i js = (r, self') \<Longrightarrow> simple_graph (graph self')"
proof (induction js arbitrary: self)
  case Nil
  then show ?case by simp
next
  case (Cons j js)
  show ?case
  proof (cases "p_calculate_similarity tk self (fps ! i) (fps ! j)")
    case (Inl e)
    then show ?thesis using Cons.prems by auto
  next
    case (Inr v)
    let ?s = "if sim_threshold self < v then self\<lparr>graph := add_edge (graph self) i j\<rparr> else self"
    have ij: "i \<noteq> j" and rest: "i \<notin> set js" using Cons.prems(2) by auto
    have "simple_graph (graph ?s)"
      using Cons.prems(1) ij by (simp add: simple_add_edge)
    moreover have "add_edges_inner tk ?s fps i js = (r, self')"
      using Cons.prems(3) Inr by simp
    ultimately show ?thesis using Cons.IH rest by blast
  qed
qed

lemma simple_add_edges_outer:
  "simple_graph (graph self) \<Longrightarrow>
   add_edges_outer tk self fps n is = (r, self') \<Longrightarrow> simple_graph (graph self')"
proof (induction "is" arbitrary: self)
  case Nil
  then show ?case by simp
next
  case (Cons i "is")
  obtain r1 s1 where in1: "add_edges_inner tk self fps i [i + 1..<n] = (r1, s1)"
    by (cases "add_edges_inner tk self fps i [i + 1..<n]")
  have "i \<notin> set [i + 1..<n]" by simp
  from simple_add_edges_inner [OF Cons.prems(1) this in1]
  have s1: "simple_graph (graph s1)" .
  show ?case
  proof (cases r1)
    case (Inl e)
    then have "self' = s1" using Cons.prems(2) in1 by simp
    then show ?thesis using s1 by simp
  next
    case (Inr u)
    then have "add_edges_outer tk s1 fps n is = (r, self')"
      using Cons.prems(2) in1 by simp
    from Cons.IH [OF s1 this] show ?thesis .
  qed
qed

lemma simple_create_graph:
  assumes "simple_graph (graph self)"
    and "create_graph tk np str self smiles_list classes = (r, self')"
  shows "simple_graph (graph self')"
proof (cases "p_calculate_fingerprints tk self smiles_list")
  case (Inl e)
  then have "self' = self"
    using assms(2) by (simp add: create_graph_fingerprint_error)
  then show ?thesis using assms(1) by simp
next
  case fps: (Inr fps)
  show ?thesis
  proof (cases "p_convert_classes np classes")
    case (Inl e)
    then have "self' = self"
      using assms(2) by (simp add: create_graph_convert_error [OF fps Inl])
    then show ?thesis using assms(1) by simp
  next
    case (Inr vi)
    obtain vocabulary indices where vi: "vi = (vocabulary, indices)" by (cases vi)
    note c = Inr [unfolded vi]
    let ?s1 = "self\<lparr>graph := add_nodes_from (graph self) (built_nodes str smiles_list vocabulary indices)\<rparr>"
    have s1: "simple_graph (graph ?s1)"
      using assms(1) by (simp add: simple_add_nodes_from)
    obtain r2 s2 where e: "p_add_edges tk ?s1 fps = (r2, s2)"
      by (cases "p_add_edges tk ?s1 fps")
    then have "add_edges_outer tk ?s1 fps (length fps) [0..<length fps] = (r2, s2)"
      by (simp add: p_add_edges_def Let_def)
    from simple_add_edges_outer [OF s1 this] have "simple_graph (graph s2)" .
    moreover have "self' = s2"
      using assms(2) e
      by (auto simp: create_graph_def create_graph_after_fingerprints [OF fps c] split: sum.splits)
    ultimately show ?thesis by simp
  qed
qed

lemma simple_reachable: "reachable tk np str self \<Longrightarrow> simple_graph (graph self)"
proof (induction rule: reachable.induct)
  case (constructed descr metric threshold)
  then show ?case by (simp add: MolecularNetwork_init_def simple_Graph_init)
next
  case (rebuilt self smiles_list classes r self')
  then show ?case using simple_create_graph by blast
qed

lemma create_graph_returns_graph:
  "create_graph tk np str self smiles_list classes = (Inr G, self') \<Longrightarrow> graph self' = G"
  by (auto simp: create_graph_def split: prod.splits sum.splits)

subsection \<open>Building twice\<close>

lemma dict_update_overwrite:
  "dict_update (node_attrs str a b) (node_attrs str c d) = node_attrs str c d"
  by (simp add: dict_update_def node_attrs_def)

lemma G_node_fresh_build:
  assumes "length indices = length smiles_list"
  shows "G_node (fold (link P) (pairs (length smiles_list))
           (add_nodes_from Graph_init (built_nodes str smiles_list vocabulary indices)))
         = built_nodes str smiles_list vocabulary indices"
proof -
  let ?G1 = "add_nodes_from Graph_init (built_nodes str smiles_list vocabulary indices)"
  have n1: "G_node ?G1 = built_nodes str smiles_list vocabulary indices"
    by (simp add: add_nodes_fresh_build)
  have "\<forall>(i, j)\<in>set (pairs (length smiles_list)). i \<in> keys (G_node ?G1) \<and> j \<in> keys (G_node ?G1)"
    using assms by (auto simp: n1 keys_built_nodes in_set_pairs)
  then show ?thesis using n1 by (simp add: G_node_fold_link)
qed

lemma wf_fresh_build:
  "wf_graph (fold (link P) ps (add_nodes_from Graph_init wn))"
  by (intro wf_fold_link wf_add_nodes_from wf_Graph_init)

lemma map_of_node_rebuild:
  assumes "length indices = length smiles_list"
  shows "map_of (G_node (fold (link P) (pairs (length smiles_list))
           (add_nodes_from G (built_nodes str smiles_list vocabulary indices)))) k =
         (if k < length smiles_list
          then Some (dict_update (case map_of (G_node G) k of None \<Rightarrow> [] | Some d \<Rightarrow> d)
                       (node_attrs str (smiles_list ! k) (vocabulary ! (indices ! k))))
          else map_of (G_node G) k)"
proof -
  let ?bn = "built_nodes str smiles_list vocabulary indices"
  let ?G1 = "add_nodes_from G ?bn"
  have "\<forall>(i, j)\<in>set (pairs (length smiles_list)). i \<in> keys (G_node ?G1) \<and> j \<in> keys (G_node ?G1)"
    using assms by (auto simp: keys_node_add_nodes_from keys_built_nodes in_set_pairs)
  then have "G_node (fold (link P) (pairs (length smiles_list)) ?G1) = G_node ?G1"
    by (rule G_node_fold_link)
  then show ?thesis
    using assms
    by (simp add: map_of_node_add_nodes_from [OF distinct_built_nodes] map_of_built_nodes)
qed

subsection \<open>Counting edges\<close>

lemma degree_sum_Nil [simp]: "degree_sum [] = 0"
  by (simp add: degree_sum_def)

lemma degree_sum_Cons:
  "degree_sum ((n, nbrs) # adj) =
     length nbrs + (if n \<in> keys nbrs then 1 else 0) + degree_sum adj"
  by (simp add: degree_sum_def)

lemma degree_sum_append: "degree_sum (a @ b) = degree_sum a + degree_sum b"
  by (simp add: degree_sum_def)

lemma degree_sum_isolated: "degree_sum (map (\<lambda>k. (k, [])) ks) = 0"
  by (induction ks) (simp_all add: degree_sum_Cons)

lemma degree_sum_new_node:
  "wf_graph G \<Longrightarrow> degree_sum (G_adj (new_node n G)) = degree_sum (G_adj G)"
proof -
  assume wf: "wf_graph G"
  show ?thesis
  proof (cases "n \<in> keys (G_node G)")
    case True
    then show ?thesis by (simp add: new_node_present)
  next
    case False
    then have "n \<notin> fst ` set (G_adj G)" using wf by (simp add: wf_graph_def keys_def)
    from update_new_key [OF this] False show ?thesis
      by (simp add: new_node_def degree_sum_append degree_sum_Cons)
  qed
qed

lemma degree_sum_map_entry:
  "map_of adj u = Some nbrs \<Longrightarrow> v \<notin> keys nbrs \<Longrightarrow> u \<noteq> v \<Longrightarrow>
   degree_sum (AList.map_entry u (AList.update v d) adj) = degree_sum adj + 1"
proof (induction adj)
  case Nil
  then show ?case by simp
next
  case (Cons p adj)
  obtain k n where p: "p = (k, n)" by (cases p)
  show ?case
  proof (cases "k = u")
    case True
    then have n: "n = nbrs" using Cons.prems(1) by (simp add: p)
    have "v \<notin> fst ` set nbrs" using Cons.prems(2) by (simp add: keys_def)
    from update_new_key [OF this]
    have l: "length (AList.update v d nbrs) = length nbrs + 1" by simp
    have "u \<in> keys (AList.update v d nbrs) \<longleftrightarrow> u \<in> keys nbrs"
      using Cons.prems(3) by (simp add: keys_update)
    then show ?thesis using True l by (simp add: p n degree_sum_Cons)
  next
    case False
    then have "map_of adj u = Some nbrs" using Cons.prems(1) by (simp add: p)
    from Cons.IH [OF this Cons.prems(2,3)] False show ?thesis
      by (simp add: p degree_sum_Cons)
  qed
qed

lemma degree_sum_add_edge:
  assumes wf: "wf_graph G" and ne: "u \<noteq> v"
    and nuv: "\<not> has_edge G u v" and nvu: "\<not> has_edge G v u"
  shows "degree_sum (G_adj (add_edge G u v)) = degree_sum (G_adj G) + 2"
proof -
  let ?G2 = "new_node v (new_node u G)"
  let ?adj = "G_adj ?G2"
  have wf2: "wf_graph ?G2" using wf by (simp add: wf_new_node)
  have ds: "degree_sum ?adj = degree_sum (G_adj G)"
    using wf by (simp add: degree_sum_new_node wf_new_node)
  have ku: "u \<in> keys ?adj" and kv: "v \<in> keys ?adj"
    using wf by (simp_all add: keys_adj_new_node wf_new_node)
  obtain nu nv where mu: "map_of ?adj u = Some nu" and mv: "map_of ?adj v = Some nv"
    using ku kv map_of_None_keys [of ?adj] by (metis not_Some_eq)
  have "\<not> has_edge ?G2 u v" and "\<not> has_edge ?G2 v u"
    using wf nuv nvu by (simp_all add: has_edge_new_node wf_new_node)
  then have vu: "v \<notin> keys nu" and uv: "u \<notin> keys nv"
    using mu mv by (simp_all add: has_edge_def)
  let ?dd = "case map_of ?adj u of None \<Rightarrow> [] | Some nbrs \<Rightarrow>
               (case map_of nbrs v of None \<Rightarrow> [] | Some d \<Rightarrow> d)"
  let ?adj1 = "AList.map_entry u (AList.update v ?dd) ?adj"
  have s1: "degree_sum ?adj1 = degree_sum ?adj + 1"
    by (rule degree_sum_map_entry [OF mu vu ne])
  have mv1: "map_of ?adj1 v = Some nv"
    using mv ne by (simp add: map_of_map_entry)
  have s2: "degree_sum (AList.map_entry v (AList.update u ?dd) ?adj1) = degree_sum ?adj1 + 1"
    using ne by (intro degree_sum_map_entry [OF mv1 uv]) simp
  show ?thesis
    using s1 s2 ds by (simp add: add_edge_def Let_def)
qed

lemma degree_sum_fold_link:
  "wf_graph G \<Longrightarrow> distinct ps \<Longrightarrow>
   \<forall>(i, j)\<in>set ps. i < j \<and> \<not> has_edge G i j \<and> \<not> has_edge G j i \<Longrightarrow>
   degree_sum (G_adj (fold (link P) ps G)) =
     degree_sum (G_adj G) + 2 * length (filter (\<lambda>(i, j). P i j) ps)"
proof (induction ps arbitrary: G)
  case Nil
  then show ?case by simp
next
  case (Cons p ps)
  obtain i j where p: "p = (i, j)" by (cases p)
  have ij: "i < j" and nij: "\<not> has_edge G i j" and nji: "\<not> has_edge G j i"
    using Cons.prems(3) by (auto simp: p)
  let ?G = "link P (i, j) G"
  have wf: "wf_graph ?G" by (rule wf_link [OF Cons.prems(1)])
  have d: "distinct ps" and np: "(i, j) \<notin> set ps" using Cons.prems(2) by (auto simp: p)
  have rest: "\<forall>(a, b)\<in>set ps. a < b \<and> \<not> has_edge ?G a b \<and> \<not> has_edge ?G b a"
  proof (clarify, intro conjI)
    fix a b assume ab: "(a, b) \<in> set ps"
    then have lt: "a < b" and "\<not> has_edge G a b" and "\<not> has_edge G b a"
      using Cons.prems(3) by auto
    moreover have "(a, b) \<noteq> (i, j)" using ab np by auto
    ultimately show "a < b" and "\<not> has_edge ?G a b" and "\<not> has_edge ?G b a"
      using ij by (auto simp: has_edge_link [OF Cons.prems(1)])
  qed
  have step: "degree_sum (G_adj ?G) = degree_sum (G_adj G) + (if P i j then 2 else 0)"
    using ij nij nji by (simp add: link_def degree_sum_add_edge [OF Cons.prems(1)])
  show ?case
    using Cons.IH [OF wf d rest] step by (simp add: p)
qed

lemma number_of_edges_fresh_build:
  "number_of_edges (fold (link P) (pairs n)
      (add_nodes_from Graph_init (built_nodes str smiles_list vocabulary indices)))
   = length (filter (\<lambda>(i, j). P i j) (pairs n))"
proof -
  let ?G1 = "add_nodes_from Graph_init (built_nodes str smiles_list vocabulary indices)"
  have wf: "wf_graph ?G1" by (rule wf_add_nodes_from [OF wf_Graph_init])
  have none: "\<not> has_edge ?G1 a b" for a b
    by (simp add: has_edge_add_nodes_from [OF wf_Graph_init] has_edge_Graph_init)
  have "\<forall>(i, j)\<in>set (pairs n). i < j \<and> \<not> has_edge ?G1 i j \<and> \<not> has_edge ?G1 j i"
    by (auto simp: in_set_pairs none)
  from degree_sum_fold_link [OF wf distinct_pairs this, of P]
  show ?thesis
    by (simp add: number_of_edges_def add_nodes_fresh_build degree_sum_isolated)
qed

lemma length_filter_mono:
  "(\<And>x. x \<in> set xs \<Longrightarrow> Q x \<Longrightarrow> R x) \<Longrightarrow> length (filter Q xs) \<le> length (filter R xs)"
  by (induction xs) auto

section \<open>The four-parameter metric\<close>

lemma apply_metric_tversky:
  "sim_metric sc = ''tversky'' \<Longrightarrow> apply_metric tk sc fp1 fp2 = Inl TypeError"
  by (simp add: apply_metric_def metrics_def)

lemma calculate_similarity_tversky:
  "sim_metric sc = ''tversky'' \<Longrightarrow> calculate_similarity tk sc fp1 fp2 = Inl TypeError"
  by (simp add: calculate_similarity_def apply_metric_tversky)

lemma add_edges_inner_tversky:
  "sim_metric (similarity_calculator self) = ''tversky'' \<Longrightarrow>
   add_edges_inner tk self fps i (j # js) = (Inl TypeError, self)"
  by (simp add: p_calculate_similarity_def calculate_similarity_tversky)

lemma add_edges_inner_range_tversky:
  assumes "sim_metric (similarity_calculator self) = ''tversky''" and "i + 1 < n"
  shows "add_edges_inner tk self fps i [i + 1..<n] = (Inl TypeError, self)"
proof -
  have "[i + 1..<n] = (i + 1) # [Suc (i + 1)..<n]"
    using assms(2) by (rule upt_conv_Cons)
  then show ?thesis
    using add_edges_inner_tversky [OF assms(1)] by simp
qed

lemma p_add_edges_tversky:
  assumes "sim_metric (similarity_calculator self) = ''tversky''" and "2 \<le> length fps"
  shows "p_add_edges tk self fps = (Inl TypeError, self)"
proof -
  have pos: "0 < length fps" and one: "0 + 1 < length fps"
    using assms(2) by auto
  have a: "[0..<length fps] = 0 # [Suc 0..<length fps]"
    using pos by (rule upt_conv_Cons)
  have "add_edges_outer tk self fps (length fps) (0 # [Suc 0..<length fps])
          = (Inl TypeError, self)"
    by (simp only: add_edges_outer.simps
          add_edges_inner_range_tversky [OF assms(1) one] prod.case sum.case)
  then show ?thesis
    by (simp only: p_add_edges_def Let_def a)
qed

lemma p_add_nodes_config:
  "p_add_nodes str self smiles u c = (r, self') \<Longrightarrow>
   similarity_calculator self' = similarity_calculator self \<and>
   fingerprint_calculator self' = fingerprint_calculator self \<and>
   sim_threshold self' = sim_threshold self"
  by (auto simp: p_add_nodes_def Let_def split: sum.splits)

section \<open>The claims\<close>

text \<open>
  C1. The specification says that after a build the edge between \<open>i\<close> and \<open>j\<close> exists exactly
  when the larger of the two scores of the pair is above the threshold. The graph of a
  builder is created once, in the constructor, and \<^verbatim>\<open>_add_edges\<close> only adds to it. A
  builder that has built \<^verbatim>\<open>CC\<close> and \<^verbatim>\<open>C\<close>, which the scorer \<open>one_way\<close> links, and then builds
  \<^verbatim>\<open>N\<close> and \<^verbatim>\<open>O\<close>, whose score is 0 under the threshold 1/2, returns a graph with the edge
  between 0 and 1.
\<close>

theorem stale_edge_counterexample:
  "create_graph (stub_rdkit one_way) numpy_str id
     (snd (create_graph (stub_rdkit one_way) numpy_str id
             (MolecularNetwork_init ''morgan2'' ''tanimoto'' (1 / 2))
             [''CC'', ''C''] [''x'', ''y'']))
     [''N'', ''O''] [''x'', ''y''] =
   (Inr \<lparr>G_node = [(0, [(''smiles'', ''N''), (''categorical_label'', ''x'')]),
                   (1, [(''smiles'', ''O''), (''categorical_label'', ''y'')])],
          G_adj = [(0, [(1, [])]), (1, [(0, [])])]\<rparr>,
    (MolecularNetwork_init ''morgan2'' ''tanimoto'' (1 / 2))
      \<lparr>graph :=
         \<lparr>G_node = [(0, [(''smiles'', ''N''), (''categorical_label'', ''x'')]),
                    (1, [(''smiles'', ''O''), (''categorical_label'', ''y'')])],
           G_adj = [(0, [(1, [])]), (1, [(0, [])])]\<rparr>\<rparr>) \<and>
   has_edge \<lparr>G_node = [(0, [(''smiles'', ''N''), (''categorical_label'', ''x'')]),
                      (1, [(''smiles'', ''O''), (''categorical_label'', ''y'')])],
             G_adj = [(0, [(1, [])]), (1, [(0, [])])]\<rparr> 0 1 \<and>
   calculate_fingerprint (stub_rdkit one_way) (FingerprintCalculator_init ''morgan2'') ''N''
     = Inr ''N'' \<and>
   calculate_fingerprint (stub_rdkit one_way) (FingerprintCalculator_init ''morgan2'') ''O''
     = Inr ''O'' \<and>
   calculate_similarity (stub_rdkit one_way) (SimilarityCalculator_init ''tanimoto'') ''N'' ''O''
     = Inr 0 \<and>
   \<not> (1 / 2 < max (one_way ''N'' ''O'') (one_way ''O'' ''N''))"
  by (simp add: run_defs upt_rec)

text \<open>
  C1, as the code has it. For a builder a program can hold, freshly constructed or left
  by earlier calls, whose descriptor kind and metric are supported (the metric one of
  the two-parameter ones, \<open>sim\<close>), for every list of parseable SMILES strings, all classes
  that \<^verbatim>\<open>_convert_classes\<close> accepts and every pair \<open>i < j < N\<close>: \<^verbatim>\<open>create_graph\<close> returns the
  graph, and the edge between \<open>i\<close> and \<open>j\<close> is in it (looked up in either direction)
  exactly when it was in the graph of the builder before the call or the larger of
  \<open>sim d\<^sub>i d\<^sub>j\<close> and \<open>sim d\<^sub>j d\<^sub>i\<close> is strictly above the threshold, \<open>d\<^sub>k\<close> being the
  descriptor of the \<open>k\<close>-th molecule. On a builder whose graph is empty, as after
  construction, it is in the graph exactly when that score is above the threshold.
\<close>

theorem edge_iff_exceeds_or_present_before:
  assumes "reachable tk np str self"
    and "map_of (descriptors tk) (descriptor (fingerprint_calculator self)) = Some fn"
    and "map_of (metrics tk) (sim_metric (similarity_calculator self)) = Some (Fn2 sim)"
    and "\<forall>s\<in>set smiles_list. MolFromSmiles tk s \<noteq> None"
    and "p_convert_classes np classes = Inr (vocabulary, indices)"
    and "i < j" and "j < length smiles_list"
  shows "\<exists>G self'.
           create_graph tk np str self smiles_list classes = (Inr G, self') \<and>
           get_network self' = G \<and>
           (has_edge G i j \<longleftrightarrow>
              has_edge (graph self) i j \<or>
              sim_threshold self
                < max (sim (fn (the (MolFromSmiles tk (smiles_list ! i))))
                           (fn (the (MolFromSmiles tk (smiles_list ! j)))))
                      (sim (fn (the (MolFromSmiles tk (smiles_list ! j))))
                           (fn (the (MolFromSmiles tk (smiles_list ! i)))))) \<and>
           has_edge G j i = has_edge G i j \<and>
           (graph self = Graph_init \<longrightarrow>
              (has_edge G i j \<longleftrightarrow>
                 sim_threshold self
                   < max (sim (fn (the (MolFromSmiles tk (smiles_list ! i))))
                              (fn (the (MolFromSmiles tk (smiles_list ! j)))))
                         (sim (fn (the (MolFromSmiles tk (smiles_list ! j))))
                              (fn (the (MolFromSmiles tk (smiles_list ! i)))))))"
proof -
  let ?fps = "map (\<lambda>s. fn (the (MolFromSmiles tk s))) smiles_list"
  let ?P = "\<lambda>i j. sim_threshold self < score sim ?fps i j"
  let ?G1 = "add_nodes_from (graph self) (built_nodes str smiles_list vocabulary indices)"
  let ?G = "fold (link ?P) (pairs (length smiles_list)) ?G1"
  have run: "create_graph tk np str self smiles_list classes = (Inr ?G, self\<lparr>graph := ?G\<rparr>)"
    by (rule create_graph_ok [OF assms(2) assms(3) assms(4) assms(5)])
  have simple: "simple_graph (graph self)" by (rule simple_reachable [OF assms(1)])
  then have wf: "wf_graph (graph self)" by (simp add: simple_graph_def)
  have wf1: "wf_graph ?G1" by (rule wf_add_nodes_from [OF wf])
  have sym: "has_edge (graph self) j i = has_edge (graph self) i j"
    using simple by (auto simp: simple_graph_def)
  have ij: "(i, j) \<in> set (pairs (length smiles_list))"
    and ji: "(j, i) \<notin> set (pairs (length smiles_list))"
    using assms(6,7) by (simp_all add: in_set_pairs)
  have e1: "has_edge ?G i j \<longleftrightarrow> has_edge (graph self) i j \<or> ?P i j"
  proof -
    have "(\<exists>(a, b)\<in>set (pairs (length smiles_list)).
             ?P a b \<and> ((i = a \<and> j = b) \<or> (i = b \<and> j = a))) \<longleftrightarrow> ?P i j"
      using ij ji by auto
    then show ?thesis
      by (simp only: has_edge_fold_link [OF wf1] has_edge_add_nodes_from [OF wf])
  qed
  have e2: "has_edge ?G j i \<longleftrightarrow> has_edge (graph self) i j \<or> ?P i j"
  proof -
    have "(\<exists>(a, b)\<in>set (pairs (length smiles_list)).
             ?P a b \<and> ((j = a \<and> i = b) \<or> (j = b \<and> i = a))) \<longleftrightarrow> ?P i j"
      using ij ji by auto
    then show ?thesis
      by (simp only: has_edge_fold_link [OF wf1] has_edge_add_nodes_from [OF wf] sym)
  qed
  have sc: "?P i j \<longleftrightarrow>
        sim_threshold self
          < max (sim (fn (the (MolFromSmiles tk (smiles_list ! i))))
                     (fn (the (MolFromSmiles tk (smiles_list ! j)))))
                (sim (fn (the (MolFromSmiles tk (smiles_list ! j))))
                     (fn (the (MolFromSmiles tk (smiles_list ! i)))))"
    using assms(6,7) by (simp add: score_def)
  have fresh: "graph self = Graph_init \<Longrightarrow> \<not> has_edge (graph self) i j"
    by (simp add: has_edge_Graph_init)
  from run e1 e2 sc fresh show ?thesis by (auto simp: get_network_def)
qed

theorem edge_iff_exceeds_or_present_before_witness:
  "(\<exists>G self'.
      create_graph (stub_rdkit one_way) numpy_str id
        (MolecularNetwork_init ''morgan2'' ''tanimoto'' (1 / 2))
        [''CC'', ''C'', ''CCC''] [''x'', ''y'', ''x''] = (Inr G, self') \<and>
      get_network self' = G \<and> has_edge G 0 1 \<and> has_edge G 1 0) \<and>
   (\<exists>G self'.
      create_graph (stub_rdkit one_way) numpy_str id
        (snd (create_graph (stub_rdkit one_way) numpy_str id
                (MolecularNetwork_init ''morgan2'' ''tanimoto'' (1 / 2))
                [''CC'', ''C''] [''x'', ''y'']))
        [''N'', ''O''] [''x'', ''y''] = (Inr G, self') \<and>
      get_network self' = G \<and> has_edge G 0 1 \<and> has_edge G 1 0)"
proof -
  let ?tk = "stub_rdkit one_way"
  let ?init = "MolecularNetwork_init ''morgan2'' ''tanimoto'' (1 / 2 :: real)"
  let ?K1 = "\<lparr>G_node = [(0, [(''smiles'', ''CC''), (''categorical_label'', ''x'')]),
                        (1, [(''smiles'', ''C''), (''categorical_label'', ''y'')])],
               G_adj = [(0, [(1, [])]), (1, [(0, [])])]\<rparr>"
  let ?self1 = "?init\<lparr>graph := ?K1\<rparr>"
  have b1: "create_graph ?tk numpy_str id ?init [''CC'', ''C''] [''x'', ''y'']
              = (Inr ?K1, ?self1)"
    by (simp add: run_defs upt_rec)
  have r0: "reachable ?tk numpy_str id ?init" by (rule reachable.constructed)
  have r1: "reachable ?tk numpy_str id ?self1"
    by (rule reachable.rebuilt [OF reachable.constructed b1])
  have d0: "map_of (descriptors ?tk) (descriptor (fingerprint_calculator ?init)) =
              Some (\<lambda>m. GetMorganFingerprintAsBitVect ?tk m 2 2048)"
    by (simp add: descriptors_def MolecularNetwork_init_def FingerprintCalculator_init_def)
  have m0: "map_of (metrics ?tk) (sim_metric (similarity_calculator ?init)) =
              Some (Fn2 (TanimotoSimilarity ?tk))"
    by (simp add: metrics_def MolecularNetwork_init_def SimilarityCalculator_init_def)
  have d1: "map_of (descriptors ?tk) (descriptor (fingerprint_calculator ?self1)) =
              Some (\<lambda>m. GetMorganFingerprintAsBitVect ?tk m 2 2048)"
    using d0 by simp
  have m1: "map_of (metrics ?tk) (sim_metric (similarity_calculator ?self1)) =
              Some (Fn2 (TanimotoSimilarity ?tk))"
    using m0 by simp
  have p0: "\<forall>s\<in>set [''CC'', ''C'', ''CCC'']. MolFromSmiles ?tk s \<noteq> None"
    by (simp add: stub_rdkit_def)
  have p1: "\<forall>s\<in>set [''N'', ''O'']. MolFromSmiles ?tk s \<noteq> None"
    by (simp add: stub_rdkit_def)
  have c0: "p_convert_classes numpy_str [''x'', ''y'', ''x''] = Inr ([''x'', ''y''], [0, 1, 0])"
    by (simp add: run_defs)
  have c1: "p_convert_classes numpy_str [''x'', ''y''] = Inr ([''x'', ''y''], [0, 1])"
    by (simp add: run_defs)
  have i0: "(0 :: nat) < 1" and j0: "1 < length [''CC'', ''C'', ''CCC'']"
    and j1: "1 < length [''N'', ''O'']" by simp_all
  have fresh: "\<exists>G self'.
      create_graph ?tk numpy_str id ?init [''CC'', ''C'', ''CCC''] [''x'', ''y'', ''x'']
        = (Inr G, self') \<and>
      get_network self' = G \<and> has_edge G 0 1 \<and> has_edge G 1 0"
    using edge_iff_exceeds_or_present_before [OF r0 d0 m0 p0 c0 i0 j0]
    by (auto simp: stub_rdkit_def one_way_def MolecularNetwork_init_def)
  have reused: "\<exists>G self'.
      create_graph ?tk numpy_str id ?self1 [''N'', ''O''] [''x'', ''y''] = (Inr G, self') \<and>
      get_network self' = G \<and> has_edge G 0 1 \<and> has_edge G 1 0"
    using edge_iff_exceeds_or_present_before [OF r1 d1 m1 p1 c1 i0 j1]
    by (auto simp: has_edge_def keys_def)
  from fresh reused show ?thesis by (simp only: b1 snd_conv)
qed

text \<open>
  C2. The specification says that a build of \<open>N\<close> molecules gives a graph of exactly \<open>N\<close> nodes.
  \<^verbatim>\<open>_add_nodes\<close> adds to the graph the builder holds, and nothing empties that graph: a
  builder that has built two molecules and then builds one returns a graph of two nodes.
\<close>

theorem extra_nodes_counterexample:
  "create_graph (stub_rdkit all_similar) numpy_str id
     (snd (create_graph (stub_rdkit all_similar) numpy_str id
             (MolecularNetwork_init ''morgan2'' ''tanimoto'' (1 / 2))
             [''m1'', ''m2''] [''x'', ''y'']))
     [''n1''] [''z''] =
   (Inr \<lparr>G_node = [(0, [(''smiles'', ''n1''), (''categorical_label'', ''z'')]),
                   (1, [(''smiles'', ''m2''), (''categorical_label'', ''y'')])],
          G_adj = [(0, [(1, [])]), (1, [(0, [])])]\<rparr>,
    (MolecularNetwork_init ''morgan2'' ''tanimoto'' (1 / 2))
      \<lparr>graph :=
         \<lparr>G_node = [(0, [(''smiles'', ''n1''), (''categorical_label'', ''z'')]),
                    (1, [(''smiles'', ''m2''), (''categorical_label'', ''y'')])],
           G_adj = [(0, [(1, [])]), (1, [(0, [])])]\<rparr>\<rparr>) \<and>
   number_of_nodes
     \<lparr>G_node = [(0, [(''smiles'', ''n1''), (''categorical_label'', ''z'')]),
                (1, [(''smiles'', ''m2''), (''categorical_label'', ''y'')])],
       G_adj = [(0, [(1, [])]), (1, [(0, [])])]\<rparr> = 2 \<and>
   length [''n1''] = 1"
  by (simp add: run_defs upt_rec number_of_nodes_def)

text \<open>
  C2, as the code has it. For a builder with a supported configuration, whatever graph
  it holds, parseable SMILES strings and as many classes, which \<^verbatim>\<open>_convert_classes\<close>
  turns into \<open>vocabulary\<close> and \<open>indices\<close>: \<^verbatim>\<open>create_graph\<close> returns a graph in which every
  \<open>k < N\<close> is a node whose attribute \<^verbatim>\<open>smiles\<close> is the \<open>k\<close>-th SMILES string and whose
  attribute \<^verbatim>\<open>categorical_label\<close> is the string form of \<open>vocabulary[indices[k]]\<close>; its
  nodes are these and the nodes the builder held before, which keep their attributes
  from \<open>N\<close> on. On a builder whose graph is empty, as after construction, the node
  dictionary lists exactly the nodes \<open>0, \<dots>, N - 1\<close> in this order, each with these two
  attributes and no other.
\<close>

theorem nodes_of_build:
  assumes "map_of (descriptors tk) (descriptor (fingerprint_calculator self)) = Some fn"
    and "map_of (metrics tk) (sim_metric (similarity_calculator self)) = Some (Fn2 sim)"
    and "\<forall>s\<in>set smiles_list. MolFromSmiles tk s \<noteq> None"
    and "length classes = length smiles_list"
    and "p_convert_classes np classes = Inr (vocabulary, indices)"
  shows "\<exists>G self'.
           create_graph tk np str self smiles_list classes = (Inr G, self') \<and>
           get_network self' = G \<and>
           (\<forall>k<length smiles_list.
              \<exists>a. map_of (G_node G) k = Some a \<and>
                  map_of a ''smiles'' = Some (smiles_list ! k) \<and>
                  map_of a ''categorical_label'' = Some (str (vocabulary ! (indices ! k)))) \<and>
           (\<forall>k. has_node G k \<longleftrightarrow> k < length smiles_list \<or> has_node (graph self) k) \<and>
           (\<forall>k\<ge>length smiles_list. map_of (G_node G) k = map_of (G_node (graph self)) k) \<and>
           (graph self = Graph_init \<longrightarrow>
              number_of_nodes G = length smiles_list \<and>
              G_node G =
                map (\<lambda>k. (k, [(''smiles'', smiles_list ! k),
                               (''categorical_label'', str (vocabulary ! (indices ! k)))]))
                  [0..<length smiles_list])"
proof -
  let ?fps = "map (\<lambda>s. fn (the (MolFromSmiles tk s))) smiles_list"
  let ?P = "\<lambda>i j. sim_threshold self < score sim ?fps i j"
  let ?N = "length smiles_list"
  let ?bn = "built_nodes str smiles_list vocabulary indices"
  let ?G1 = "add_nodes_from (graph self) ?bn"
  let ?G = "fold (link ?P) (pairs ?N) ?G1"
  have run: "create_graph tk np str self smiles_list classes = (Inr ?G, self\<lparr>graph := ?G\<rparr>)"
    by (rule create_graph_ok [OF assms(1) assms(2) assms(3) assms(5)])
  have l: "length indices = ?N"
    using p_convert_classes_Inr(2) [OF assms(5)] assms(4) by simp
  have low: "\<exists>a. map_of (G_node ?G) k = Some a \<and>
                 map_of a ''smiles'' = Some (smiles_list ! k) \<and>
                 map_of a ''categorical_label'' = Some (str (vocabulary ! (indices ! k)))"
    if "k < ?N" for k
  proof -
    let ?old = "case map_of (G_node (graph self)) k of None \<Rightarrow> [] | Some d \<Rightarrow> d"
    let ?new = "node_attrs str (smiles_list ! k) (vocabulary ! (indices ! k))"
    have a: "map_of (G_node ?G) k = Some (dict_update ?old ?new)"
      using that by (simp add: map_of_node_rebuild [OF l])
    have "distinct (map fst ?new)" by (simp add: node_attrs_def)
    then have "map_of (dict_update ?old ?new) = map_of ?old ++ map_of ?new"
      by (rule map_of_dict_update)
    then have "map_of (dict_update ?old ?new) ''smiles'' = Some (smiles_list ! k)"
      and "map_of (dict_update ?old ?new) ''categorical_label''
             = Some (str (vocabulary ! (indices ! k)))"
      by (simp_all add: node_attrs_def)
    with a show ?thesis by blast
  qed
  have nodes: "has_node ?G k \<longleftrightarrow> k < ?N \<or> has_node (graph self) k" for k
  proof -
    have "has_node ?G1 k \<longleftrightarrow> k < ?N \<or> has_node (graph self) k"
      by (auto simp: has_node_def keys_node_add_nodes_from keys_built_nodes l)
    moreover have "(\<exists>(i, j)\<in>set (pairs ?N). ?P i j \<and> (k = i \<or> k = j)) \<longrightarrow> k < ?N"
      by (auto simp: in_set_pairs)
    ultimately show ?thesis by (auto simp: has_node_fold_link)
  qed
  have high: "map_of (G_node ?G) k = map_of (G_node (graph self)) k" if "?N \<le> k" for k
    using that by (simp add: map_of_node_rebuild [OF l])
  have fresh: "number_of_nodes ?G = ?N \<and>
               G_node ?G =
                 map (\<lambda>k. (k, [(''smiles'', smiles_list ! k),
                                (''categorical_label'', str (vocabulary ! (indices ! k)))]))
                   [0..<?N]"
    if "graph self = Graph_init"
  proof -
    have "G_node ?G = ?bn" unfolding that by (rule G_node_fresh_build [OF l])
    then have n: "G_node ?G =
                 map (\<lambda>k. (k, [(''smiles'', smiles_list ! k),
                                (''categorical_label'', str (vocabulary ! (indices ! k)))]))
                   [0..<?N]"
      by (simp add: built_nodes_def node_attrs_def l)
    then have "number_of_nodes ?G = ?N" by (simp add: number_of_nodes_def)
    with n show ?thesis by simp
  qed
  from run low nodes high fresh show ?thesis by (simp add: get_network_def)
qed

theorem nodes_of_build_witness:
  "(\<exists>G self'.
      create_graph (stub_rdkit all_similar) numpy_str id
        (MolecularNetwork_init ''morgan2'' ''tanimoto'' (1 / 2))
        [''m1'', ''m2'', ''m3''] [''x'', ''y'', ''x''] = (Inr G, self') \<and>
      get_network self' = G \<and>
      number_of_nodes G = 3 \<and>
      G_node G = [(0, [(''smiles'', ''m1''), (''categorical_label'', ''x'')]),
                  (1, [(''smiles'', ''m2''), (''categorical_label'', ''y'')]),
                  (2, [(''smiles'', ''m3''), (''categorical_label'', ''x'')])]) \<and>
   (\<exists>G self' a.
      create_graph (stub_rdkit all_similar) numpy_str id
        (snd (create_graph (stub_rdkit all_similar) numpy_str id
                (MolecularNetwork_init ''morgan2'' ''tanimoto'' (1 / 2))
                [''m1'', ''m2''] [''x'', ''y'']))
        [''n1''] [''z''] = (Inr G, self') \<and>
      get_network self' = G \<and>
      map_of (G_node G) 0 = Some a \<and> map_of a ''smiles'' = Some ''n1'' \<and>
      map_of a ''categorical_label'' = Some ''z'' \<and>
      has_node G 0 \<and> has_node G 1 \<and>
      map_of (G_node G) 1 = Some [(''smiles'', ''m2''), (''categorical_label'', ''y'')])"
proof -
  let ?tk = "stub_rdkit all_similar"
  let ?init = "MolecularNetwork_init ''morgan2'' ''tanimoto'' (1 / 2 :: real)"
  let ?K1 = "\<lparr>G_node = [(0, [(''smiles'', ''m1''), (''categorical_label'', ''x'')]),
                        (1, [(''smiles'', ''m2''), (''categorical_label'', ''y'')])],
               G_adj = [(0, [(1, [])]), (1, [(0, [])])]\<rparr>"
  let ?self1 = "?init\<lparr>graph := ?K1\<rparr>"
  have b1: "create_graph ?tk numpy_str id ?init [''m1'', ''m2''] [''x'', ''y'']
              = (Inr ?K1, ?self1)"
    by (simp add: run_defs upt_rec)
  have d0: "map_of (descriptors ?tk) (descriptor (fingerprint_calculator ?init)) =
              Some (\<lambda>m. GetMorganFingerprintAsBitVect ?tk m 2 2048)"
    by (simp add: descriptors_def MolecularNetwork_init_def FingerprintCalculator_init_def)
  have m0: "map_of (metrics ?tk) (sim_metric (similarity_calculator ?init)) =
              Some (Fn2 (TanimotoSimilarity ?tk))"
    by (simp add: metrics_def MolecularNetwork_init_def SimilarityCalculator_init_def)
  have d1: "map_of (descriptors ?tk) (descriptor (fingerprint_calculator ?self1)) =
              Some (\<lambda>m. GetMorganFingerprintAsBitVect ?tk m 2 2048)"
    using d0 by simp
  have m1: "map_of (metrics ?tk) (sim_metric (similarity_calculator ?self1)) =
              Some (Fn2 (TanimotoSimilarity ?tk))"
    using m0 by simp
  have p0: "\<forall>s\<in>set [''m1'', ''m2'', ''m3'']. MolFromSmiles ?tk s \<noteq> None"
    by (simp add: stub_rdkit_def)
  have p1: "\<forall>s\<in>set [''n1'']. MolFromSmiles ?tk s \<noteq> None"
    by (simp add: stub_rdkit_def)
  have l0: "length [''x'', ''y'', ''x''] = length [''m1'', ''m2'', ''m3'']" by simp
  have l1: "length [''z''] = length [''n1'']" by simp
  have c0: "p_convert_classes numpy_str [''x'', ''y'', ''x''] = Inr ([''x'', ''y''], [0, 1, 0])"
    by (simp add: run_defs)
  have c1: "p_convert_classes numpy_str [''z''] = Inr ([''z''], [0])"
    by (simp add: run_defs)
  have g0: "graph ?init = Graph_init" by (simp add: MolecularNetwork_init_def)
  have fresh: "\<exists>G self'.
      create_graph ?tk numpy_str id ?init [''m1'', ''m2'', ''m3''] [''x'', ''y'', ''x'']
        = (Inr G, self') \<and>
      get_network self' = G \<and>
      number_of_nodes G = 3 \<and>
      G_node G = [(0, [(''smiles'', ''m1''), (''categorical_label'', ''x'')]),
                  (1, [(''smiles'', ''m2''), (''categorical_label'', ''y'')]),
                  (2, [(''smiles'', ''m3''), (''categorical_label'', ''x'')])]"
  proof -
    from nodes_of_build [OF d0 m0 p0 l0 c0, where str = id]
    obtain G self' where
      r: "create_graph ?tk numpy_str id ?init [''m1'', ''m2'', ''m3''] [''x'', ''y'', ''x'']
            = (Inr G, self')" "get_network self' = G"
      and f: "graph ?init = Graph_init \<longrightarrow>
              number_of_nodes G = length [''m1'', ''m2'', ''m3''] \<and>
              G_node G =
                map (\<lambda>k. (k, [(''smiles'', [''m1'', ''m2'', ''m3''] ! k),
                               (''categorical_label'', id ([''x'', ''y''] ! ([0, 1, 0] ! k)))]))
                  [0..<length [''m1'', ''m2'', ''m3'']]"
      by blast
    from f g0 have "number_of_nodes G = 3"
      and "G_node G = [(0, [(''smiles'', ''m1''), (''categorical_label'', ''x'')]),
                  (1, [(''smiles'', ''m2''), (''categorical_label'', ''y'')]),
                  (2, [(''smiles'', ''m3''), (''categorical_label'', ''x'')])]"
      by (simp_all add: upt_rec)
    with r show ?thesis by blast
  qed
  have reused: "\<exists>G self' a.
      create_graph ?tk numpy_str id ?self1 [''n1''] [''z''] = (Inr G, self') \<and>
      get_network self' = G \<and>
      map_of (G_node G) 0 = Some a \<and> map_of a ''smiles'' = Some ''n1'' \<and>
      map_of a ''categorical_label'' = Some ''z'' \<and>
      has_node G 0 \<and> has_node G 1 \<and>
      map_of (G_node G) 1 = Some [(''smiles'', ''m2''), (''categorical_label'', ''y'')]"
  proof -
    from nodes_of_build [OF d1 m1 p1 l1 c1, where str = id]
    obtain G self' where
      r: "create_graph ?tk numpy_str id ?self1 [''n1''] [''z''] = (Inr G, self')"
         "get_network self' = G"
      and lo: "\<forall>k<length [''n1''].
              \<exists>a. map_of (G_node G) k = Some a \<and>
                  map_of a ''smiles'' = Some ([''n1''] ! k) \<and>
                  map_of a ''categorical_label'' = Some (id ([''z''] ! ([0] ! k)))"
      and hn: "\<forall>k. has_node G k \<longleftrightarrow> k < length [''n1''] \<or> has_node (graph ?self1) k"
      and hi: "\<forall>k\<ge>length [''n1'']. map_of (G_node G) k = map_of (G_node (graph ?self1)) k"
      by blast
    from lo [rule_format, of 0] obtain a where
      a: "map_of (G_node G) 0 = Some a" "map_of a ''smiles'' = Some ''n1''"
         "map_of a ''categorical_label'' = Some ''z''"
      by auto
    have n0: "has_node G 0" using hn [rule_format, of 0] by simp
    have n1: "has_node G 1" using hn [rule_format, of 1] by (simp add: has_node_def keys_def)
    have k1: "map_of (G_node G) 1 = Some [(''smiles'', ''m2''), (''categorical_label'', ''y'')]"
      using hi [rule_format, of 1] by simp
    from r a n0 n1 k1 show ?thesis by blast
  qed
  from fresh reused show ?thesis by (simp only: b1 snd_conv)
qed

text \<open>
  C3. The specification says that \<^verbatim>\<open>create_graph\<close> fails with a shape error, before any effect, when
  the SMILES strings and the classes differ in number. The code has no such check:
  \<^verbatim>\<open>zip\<close> in \<^verbatim>\<open>_add_nodes\<close> stops at the shorter sequence, and \<^verbatim>\<open>_add_edges\<close> runs over all
  fingerprints. With three SMILES strings and two classes the call returns normally and
  leaves a graph of three nodes and three edges in a builder that held the empty graph.
\<close>

theorem mismatched_lengths_counterexample:
  "create_graph (stub_rdkit all_similar) numpy_str id
     (MolecularNetwork_init ''morgan2'' ''tanimoto'' (1 / 2))
     [''m1'', ''m2'', ''m3''] [''x'', ''y''] =
   (Inr \<lparr>G_node = [(0, [(''smiles'', ''m1''), (''categorical_label'', ''x'')]),
                   (1, [(''smiles'', ''m2''), (''categorical_label'', ''y'')]),
                   (2, [])],
          G_adj = [(0, [(1, []), (2, [])]), (1, [(0, []), (2, [])]), (2, [(0, []), (1, [])])]\<rparr>,
    (MolecularNetwork_init ''morgan2'' ''tanimoto'' (1 / 2))
      \<lparr>graph :=
         \<lparr>G_node = [(0, [(''smiles'', ''m1''), (''categorical_label'', ''x'')]),
                    (1, [(''smiles'', ''m2''), (''categorical_label'', ''y'')]),
                    (2, [])],
           G_adj = [(0, [(1, []), (2, [])]), (1, [(0, []), (2, [])]),
                    (2, [(0, []), (1, [])])]\<rparr>\<rparr>)"
  by (simp add: run_defs upt_rec)

text \<open>
  C3, as the code has it. On a freshly constructed builder with a supported
  configuration and parseable SMILES strings, \<^verbatim>\<open>create_graph\<close> returns normally also when
  the lengths differ, for all classes that \<^verbatim>\<open>_convert_classes\<close> accepts: every position
  below the shorter length is a node with its SMILES string and the string form of its
  entry of the vocabulary, which is the string form of its class when NumPy keeps the
  classes as they are; a position from the shorter length on is a node exactly when an
  edge touches it, and then it has no attributes.
\<close>

theorem mismatched_lengths_build:
  assumes "map_of (descriptors tk) descr = Some fn"
    and "map_of (metrics tk) metric = Some (Fn2 sim)"
    and "\<forall>s\<in>set smiles_list. MolFromSmiles tk s \<noteq> None"
    and "length classes \<noteq> length smiles_list"
    and "p_convert_classes np classes = Inr (vocabulary, indices)"
  shows "\<exists>G self'.
           create_graph tk np str (MolecularNetwork_init descr metric threshold) smiles_list classes
             = (Inr G, self') \<and> get_network self' = G \<and>
           (\<forall>k<min (length smiles_list) (length classes).
              map_of (G_node G) k =
                Some [(''smiles'', smiles_list ! k),
                      (''categorical_label'', str (vocabulary ! (indices ! k)))]) \<and>
           (stored_unchanged np classes \<longrightarrow>
              (\<forall>k<min (length smiles_list) (length classes).
                 map_of (G_node G) k =
                   Some [(''smiles'', smiles_list ! k),
                         (''categorical_label'', str (classes ! k))])) \<and>
           (\<forall>k\<ge>min (length smiles_list) (length classes).
              (has_node G k \<longleftrightarrow> (\<exists>l. has_edge G k l)) \<and>
              (has_node G k \<longrightarrow> map_of (G_node G) k = Some []))"
proof -
  let ?self = "MolecularNetwork_init descr metric threshold"
  let ?fps = "map (\<lambda>s. fn (the (MolFromSmiles tk s))) smiles_list"
  let ?P = "\<lambda>i j. threshold < score sim ?fps i j"
  let ?bn = "built_nodes str smiles_list vocabulary indices"
  let ?G1 = "add_nodes_from Graph_init ?bn"
  let ?N = "length smiles_list"
  let ?G = "fold (link ?P) (pairs ?N) ?G1"
  have d: "map_of (descriptors tk) (descriptor (fingerprint_calculator ?self)) = Some fn"
    using assms(1) by (simp add: MolecularNetwork_init_def FingerprintCalculator_init_def)
  have m: "map_of (metrics tk) (sim_metric (similarity_calculator ?self)) = Some (Fn2 sim)"
    using assms(2) by (simp add: MolecularNetwork_init_def SimilarityCalculator_init_def)
  have t: "sim_threshold ?self = threshold" and g: "graph ?self = Graph_init"
    by (simp_all add: MolecularNetwork_init_def)
  have run: "create_graph tk np str ?self smiles_list classes = (Inr ?G, ?self\<lparr>graph := ?G\<rparr>)"
    using create_graph_ok [OF d m assms(3) assms(5), of str] by (simp only: t g)
  have li: "length indices = length classes"
    by (rule p_convert_classes_Inr(2) [OF assms(5)])
  have n1: "G_node ?G1 = ?bn" by (simp add: add_nodes_fresh_build)
  have low: "map_of (G_node ?G) k =
               Some [(''smiles'', smiles_list ! k),
                     (''categorical_label'', str (vocabulary ! (indices ! k)))]"
    if "k < min ?N (length classes)" for k
    using that
    by (simp add: map_of_node_fold_link n1 keys_built_nodes map_of_built_nodes node_attrs_def li)
  have raw: "map_of (G_node ?G) k =
               Some [(''smiles'', smiles_list ! k), (''categorical_label'', str (classes ! k))]"
    if "stored_unchanged np classes" and "k < min ?N (length classes)" for k
    using low [OF that(2)] convert_unchanged_decode [OF that(1) assms(5), of k] that(2)
    by simp
  have touched: "(\<exists>(i, j)\<in>set (pairs ?N). ?P i j \<and> (k = i \<or> k = j)) \<longleftrightarrow> (\<exists>l. has_edge ?G k l)"
    for k
    by (auto simp: has_edge_fresh_build in_set_pairs)
  have high: "(has_node ?G k \<longleftrightarrow> (\<exists>l. has_edge ?G k l)) \<and>
              (has_node ?G k \<longrightarrow> map_of (G_node ?G) k = Some [])"
    if "min ?N (length classes) \<le> k" for k
  proof -
    have nk: "k \<notin> keys (G_node ?G1)" using that by (auto simp: n1 keys_built_nodes li)
    then have nn: "\<not> has_node ?G1 k" by (simp add: has_node_def)
    have hn: "has_node ?G k \<longleftrightarrow> (\<exists>(i, j)\<in>set (pairs ?N). ?P i j \<and> (k = i \<or> k = j))"
      using nn by (simp add: has_node_fold_link)
    then have a: "has_node ?G k \<longleftrightarrow> (\<exists>l. has_edge ?G k l)"
      using touched [of k] by simp
    have "map_of (G_node ?G) k =
            (if \<exists>(i, j)\<in>set (pairs ?N). ?P i j \<and> (k = i \<or> k = j) then Some [] else None)"
      using nk by (simp add: map_of_node_fold_link)
    then have "has_node ?G k \<longrightarrow> map_of (G_node ?G) k = Some []"
      using hn by simp
    with a show ?thesis by simp
  qed
  show ?thesis
    using run low raw high by (simp add: get_network_def)
qed

theorem mismatched_lengths_build_witness:
  "\<exists>G self'.
     create_graph (stub_rdkit all_similar) numpy_str id
       (MolecularNetwork_init ''morgan2'' ''tanimoto'' (1 / 2))
       [''m1'', ''m2'', ''m3''] [''x'', ''y''] = (Inr G, self') \<and>
     get_network self' = G \<and>
     map_of (G_node G) 0 = Some [(''smiles'', ''m1''), (''categorical_label'', ''x'')] \<and>
     map_of (G_node G) 1 = Some [(''smiles'', ''m2''), (''categorical_label'', ''y'')] \<and>
     has_node G 2 = (\<exists>l. has_edge G 2 l)"
proof -
  have h1: "map_of (descriptors (stub_rdkit all_similar)) ''morgan2'' =
              Some (\<lambda>m. GetMorganFingerprintAsBitVect (stub_rdkit all_similar) m 2 2048)"
    by (simp add: descriptors_def)
  have h2: "map_of (metrics (stub_rdkit all_similar)) ''tanimoto'' =
              Some (Fn2 (TanimotoSimilarity (stub_rdkit all_similar)))"
    by (simp add: metrics_def)
  have h3: "\<forall>s\<in>set [''m1'', ''m2'', ''m3'']. MolFromSmiles (stub_rdkit all_similar) s \<noteq> None"
    by (simp add: stub_rdkit_def)
  have h4: "length [''x'', ''y''] \<noteq> length [''m1'', ''m2'', ''m3'']"
    by simp
  have h5: "p_convert_classes numpy_str [''x'', ''y''] = Inr ([''x'', ''y''], [0, 1])"
    by (simp add: run_defs)
  from mismatched_lengths_build [OF h1 h2 h3 h4 h5, where str = id and threshold = "1 / 2"]
  obtain G self' where
    r: "create_graph (stub_rdkit all_similar) numpy_str id
       (MolecularNetwork_init ''morgan2'' ''tanimoto'' (1 / 2))
       [''m1'', ''m2'', ''m3''] [''x'', ''y''] = (Inr G, self')" "get_network self' = G"
    and lo: "\<forall>k<min (length [''m1'', ''m2'', ''m3'']) (length [''x'', ''y'']).
         map_of (G_node G) k =
         Some [(''smiles'', [''m1'', ''m2'', ''m3''] ! k),
               (''categorical_label'', id ([''x'', ''y''] ! ([0, 1] ! k)))]"
    and rw: "stored_unchanged numpy_str [''x'', ''y''] \<longrightarrow>
         (\<forall>k<min (length [''m1'', ''m2'', ''m3'']) (length [''x'', ''y'']).
            map_of (G_node G) k =
            Some [(''smiles'', [''m1'', ''m2'', ''m3''] ! k),
                  (''categorical_label'', id ([''x'', ''y''] ! k))])"
    and hi: "\<forall>k\<ge>min (length [''m1'', ''m2'', ''m3'']) (length [''x'', ''y'']).
             (has_node G k \<longleftrightarrow> (\<exists>l. has_edge G k l)) \<and>
             (has_node G k \<longrightarrow> map_of (G_node G) k = Some [])"
    by blast
  have su: "stored_unchanged numpy_str [''x'', ''y'']"
    by (simp add: stored_unchanged_def numpy_str_def strip_nul_def)
  have "map_of (G_node G) 0 = Some [(''smiles'', ''m1''), (''categorical_label'', ''x'')]"
    using lo [rule_format, of 0] by simp
  moreover have "map_of (G_node G) 1 = Some [(''smiles'', ''m2''), (''categorical_label'', ''y'')]"
    using rw [rule_format, OF su, of 1] by simp
  moreover have "has_node G 2 = (\<exists>l. has_edge G 2 l)"
    using hi [rule_format, of 2] by simp
  ultimately show ?thesis using r by blast
qed

text \<open>
  C4. The specification says that a second \<^verbatim>\<open>create_graph\<close> on the same builder gives what a single
  one on a fresh builder gives. The graph is created once, in the constructor, and no
  method empties it: \<^verbatim>\<open>add_nodes_from\<close> and \<^verbatim>\<open>add_edge\<close> work on what is there. After
  three molecules, a build of one molecule returns three nodes and three edges; on a
  fresh builder it returns one node and no edge.
\<close>

theorem rebuild_counterexample:
  "create_graph (stub_rdkit all_similar) numpy_str id
     (snd (create_graph (stub_rdkit all_similar) numpy_str id
             (MolecularNetwork_init ''morgan2'' ''tanimoto'' (1 / 2))
             [''m1'', ''m2'', ''m3''] [''x'', ''y'', ''x'']))
     [''n1''] [''z''] =
   (Inr \<lparr>G_node = [(0, [(''smiles'', ''n1''), (''categorical_label'', ''z'')]),
                   (1, [(''smiles'', ''m2''), (''categorical_label'', ''y'')]),
                   (2, [(''smiles'', ''m3''), (''categorical_label'', ''x'')])],
          G_adj = [(0, [(1, []), (2, [])]), (1, [(0, []), (2, [])]), (2, [(0, []), (1, [])])]\<rparr>,
    (MolecularNetwork_init ''morgan2'' ''tanimoto'' (1 / 2))
      \<lparr>graph :=
         \<lparr>G_node = [(0, [(''smiles'', ''n1''), (''categorical_label'', ''z'')]),
                    (1, [(''smiles'', ''m2''), (''categorical_label'', ''y'')]),
                    (2, [(''smiles'', ''m3''), (''categorical_label'', ''x'')])],
           G_adj = [(0, [(1, []), (2, [])]), (1, [(0, []), (2, [])]),
                    (2, [(0, []), (1, [])])]\<rparr>\<rparr>) \<and>
   create_graph (stub_rdkit all_similar) numpy_str id
     (MolecularNetwork_init ''morgan2'' ''tanimoto'' (1 / 2)) [''n1''] [''z''] =
   (Inr \<lparr>G_node = [(0, [(''smiles'', ''n1''), (''categorical_label'', ''z'')])],
          G_adj = [(0, [])]\<rparr>,
    (MolecularNetwork_init ''morgan2'' ''tanimoto'' (1 / 2))
      \<lparr>graph := \<lparr>G_node = [(0, [(''smiles'', ''n1''), (''categorical_label'', ''z'')])],
                  G_adj = [(0, [])]\<rparr>\<rparr>)"
  by (simp add: run_defs upt_rec)

text \<open>
  C4, as the code has it. With a supported configuration and two valid inputs (parseable
  SMILES strings, as many classes, which \<^verbatim>\<open>_convert_classes\<close> accepts), the second
  \<^verbatim>\<open>create_graph\<close> on a builder returns a graph that has the edges of the first graph and
  those a fresh builder would give for the second input; node \<open>k\<close> is as on the fresh
  builder when \<open>k\<close> is a position of the second input, and as the first call left it
  otherwise.
\<close>

theorem rebuild_accumulates:
  assumes "map_of (descriptors tk) descr = Some fn"
    and "map_of (metrics tk) metric = Some (Fn2 sim)"
    and "\<forall>s\<in>set smiles1. MolFromSmiles tk s \<noteq> None"
    and "length classes1 = length smiles1"
    and "\<forall>s\<in>set smiles2. MolFromSmiles tk s \<noteq> None"
    and "length classes2 = length smiles2"
    and "p_convert_classes np classes1 = Inr (vocabulary1, indices1)"
    and "p_convert_classes np classes2 = Inr (vocabulary2, indices2)"
  shows "\<exists>G1 self1 G2 self2 Gf selff.
      create_graph tk np str (MolecularNetwork_init descr metric threshold) smiles1 classes1
        = (Inr G1, self1) \<and>
      create_graph tk np str self1 smiles2 classes2 = (Inr G2, self2) \<and>
      create_graph tk np str (MolecularNetwork_init descr metric threshold) smiles2 classes2
        = (Inr Gf, selff) \<and>
      (\<forall>u v. has_edge G2 u v \<longleftrightarrow> has_edge G1 u v \<or> has_edge Gf u v) \<and>
      (\<forall>k. map_of (G_node G2) k =
             (if k < length smiles2 then map_of (G_node Gf) k else map_of (G_node G1) k))"
proof -
  let ?self = "MolecularNetwork_init descr metric threshold"
  let ?fps1 = "map (\<lambda>s. fn (the (MolFromSmiles tk s))) smiles1"
  let ?fps2 = "map (\<lambda>s. fn (the (MolFromSmiles tk s))) smiles2"
  let ?P1 = "\<lambda>i j. threshold < score sim ?fps1 i j"
  let ?P2 = "\<lambda>i j. threshold < score sim ?fps2 i j"
  let ?bn1 = "built_nodes str smiles1 vocabulary1 indices1"
  let ?bn2 = "built_nodes str smiles2 vocabulary2 indices2"
  let ?G1 = "fold (link ?P1) (pairs (length smiles1)) (add_nodes_from Graph_init ?bn1)"
  let ?G2 = "fold (link ?P2) (pairs (length smiles2)) (add_nodes_from ?G1 ?bn2)"
  let ?Gf = "fold (link ?P2) (pairs (length smiles2)) (add_nodes_from Graph_init ?bn2)"
  let ?self1 = "?self\<lparr>graph := ?G1\<rparr>"
  have d: "map_of (descriptors tk) (descriptor (fingerprint_calculator ?self)) = Some fn"
    using assms(1) by (simp add: MolecularNetwork_init_def FingerprintCalculator_init_def)
  have m: "map_of (metrics tk) (sim_metric (similarity_calculator ?self)) = Some (Fn2 sim)"
    using assms(2) by (simp add: MolecularNetwork_init_def SimilarityCalculator_init_def)
  have t: "sim_threshold ?self = threshold" and g: "graph ?self = Graph_init"
    by (simp_all add: MolecularNetwork_init_def)
  have d1: "map_of (descriptors tk) (descriptor (fingerprint_calculator ?self1)) = Some fn"
    using d by simp
  have m1: "map_of (metrics tk) (sim_metric (similarity_calculator ?self1)) = Some (Fn2 sim)"
    using m by simp
  have t1: "sim_threshold ?self1 = threshold" and g1: "graph ?self1 = ?G1"
    using t by simp_all
  have run1: "create_graph tk np str ?self smiles1 classes1 = (Inr ?G1, ?self1)"
    using create_graph_ok [OF d m assms(3) assms(7), of str] by (simp only: t g)
  have runf: "create_graph tk np str ?self smiles2 classes2 = (Inr ?Gf, ?self\<lparr>graph := ?Gf\<rparr>)"
    using create_graph_ok [OF d m assms(5) assms(8), of str] by (simp only: t g)
  have run2: "create_graph tk np str ?self1 smiles2 classes2 = (Inr ?G2, ?self1\<lparr>graph := ?G2\<rparr>)"
    using create_graph_ok [OF d1 m1 assms(5) assms(8), of str] by (simp only: t1 g1)
  have l1: "length indices1 = length smiles1"
    using p_convert_classes_Inr(2) [OF assms(7)] assms(4) by simp
  have l2: "length indices2 = length smiles2"
    using p_convert_classes_Inr(2) [OF assms(8)] assms(6) by simp
  have wf1: "wf_graph ?G1" by (rule wf_fresh_build)
  have wf2: "wf_graph (add_nodes_from ?G1 ?bn2)" by (rule wf_add_nodes_from [OF wf1])
  have wff: "wf_graph (add_nodes_from Graph_init ?bn2)"
    by (rule wf_add_nodes_from [OF wf_Graph_init])
  have edges: "has_edge ?G2 u v \<longleftrightarrow> has_edge ?G1 u v \<or> has_edge ?Gf u v" for u v
    by (simp add: has_edge_fold_link [OF wf2] has_edge_fold_link [OF wff]
        has_edge_add_nodes_from [OF wf1] has_edge_add_nodes_from [OF wf_Graph_init]
        has_edge_Graph_init)
  have n1: "G_node ?G1 = ?bn1" by (rule G_node_fresh_build [OF l1])
  have nf: "G_node ?Gf = ?bn2" by (rule G_node_fresh_build [OF l2])
  have nodes: "map_of (G_node ?G2) k =
                 (if k < length smiles2 then map_of (G_node ?Gf) k else map_of (G_node ?G1) k)"
    for k
  proof (cases "k < length smiles2")
    case False
    then show ?thesis by (simp add: map_of_node_rebuild [OF l2])
  next
    case True
    have "dict_update (case map_of ?bn1 k of None \<Rightarrow> [] | Some d \<Rightarrow> d)
            (node_attrs str (smiles2 ! k) (vocabulary2 ! (indices2 ! k)))
          = node_attrs str (smiles2 ! k) (vocabulary2 ! (indices2 ! k))"
      by (simp add: map_of_built_nodes dict_update_overwrite dict_update_node_attrs)
    then show ?thesis
      using True l2
      by (simp add: map_of_node_rebuild [OF l2] n1 nf map_of_built_nodes)
  qed
  from run1 run2 runf edges nodes show ?thesis by blast
qed

theorem rebuild_accumulates_witness:
  "\<exists>G2 self2.
     create_graph (stub_rdkit all_similar) numpy_str id
       (snd (create_graph (stub_rdkit all_similar) numpy_str id
               (MolecularNetwork_init ''morgan2'' ''tanimoto'' (1 / 2))
               [''m1'', ''m2'', ''m3''] [''x'', ''y'', ''x'']))
       [''n1''] [''z''] = (Inr G2, self2) \<and>
     has_edge G2 1 2 \<and>
     map_of (G_node G2) 0 = Some [(''smiles'', ''n1''), (''categorical_label'', ''z'')] \<and>
     map_of (G_node G2) 2 = Some [(''smiles'', ''m3''), (''categorical_label'', ''x'')]"
proof -
  let ?tk = "stub_rdkit all_similar"
  let ?init = "MolecularNetwork_init ''morgan2'' ''tanimoto'' (1 / 2 :: real)"
  let ?K1 = "\<lparr>G_node = [(0, [(''smiles'', ''m1''), (''categorical_label'', ''x'')]),
                (1, [(''smiles'', ''m2''), (''categorical_label'', ''y'')]),
                (2, [(''smiles'', ''m3''), (''categorical_label'', ''x'')])],
       G_adj = [(0, [(1, []), (2, [])]), (1, [(0, []), (2, [])]), (2, [(0, []), (1, [])])]\<rparr>"
  let ?Kf = "\<lparr>G_node = [(0, [(''smiles'', ''n1''), (''categorical_label'', ''z'')])],
                G_adj = [(0, [])]\<rparr>"
  have h1: "map_of (descriptors ?tk) ''morgan2'' =
              Some (\<lambda>m. GetMorganFingerprintAsBitVect ?tk m 2 2048)"
    by (simp add: descriptors_def)
  have h2: "map_of (metrics ?tk) ''tanimoto'' = Some (Fn2 (TanimotoSimilarity ?tk))"
    by (simp add: metrics_def)
  have h3: "\<forall>s\<in>set [''m1'', ''m2'', ''m3'']. MolFromSmiles ?tk s \<noteq> None"
    by (simp add: stub_rdkit_def)
  have h4: "length [''x'', ''y'', ''x''] = length [''m1'', ''m2'', ''m3'']" by simp
  have h5: "\<forall>s\<in>set [''n1'']. MolFromSmiles ?tk s \<noteq> None"
    by (simp add: stub_rdkit_def)
  have h6: "length [''z''] = length [''n1'']" by simp
  have h7: "p_convert_classes numpy_str [''x'', ''y'', ''x''] = Inr ([''x'', ''y''], [0, 1, 0])"
    by (simp add: run_defs)
  have h8: "p_convert_classes numpy_str [''z''] = Inr ([''z''], [0])"
    by (simp add: run_defs)
  from rebuild_accumulates [OF h1 h2 h3 h4 h5 h6 h7 h8, where str = id and threshold = "1 / 2"]
  obtain G1 self1 G2 self2 Gf selff where
    r1: "create_graph ?tk numpy_str id ?init [''m1'', ''m2'', ''m3''] [''x'', ''y'', ''x''] = (Inr G1, self1)"
    and r2: "create_graph ?tk numpy_str id self1 [''n1''] [''z''] = (Inr G2, self2)"
    and rf: "create_graph ?tk numpy_str id ?init [''n1''] [''z''] = (Inr Gf, selff)"
    and edges: "\<forall>u v. has_edge G2 u v \<longleftrightarrow> has_edge G1 u v \<or> has_edge Gf u v"
    and nodes: "\<forall>k. map_of (G_node G2) k =
             (if k < length [''n1''] then map_of (G_node Gf) k else map_of (G_node G1) k)"
    by blast
  have e1: "create_graph ?tk numpy_str id ?init [''m1'', ''m2'', ''m3''] [''x'', ''y'', ''x'']
              = (Inr ?K1, ?init\<lparr>graph := ?K1\<rparr>)"
    by (simp add: run_defs upt_rec)
  have ef: "create_graph ?tk numpy_str id ?init [''n1''] [''z''] = (Inr ?Kf, ?init\<lparr>graph := ?Kf\<rparr>)"
    by (simp add: run_defs upt_rec)
  have G1: "G1 = ?K1" and s1: "self1 = snd (create_graph ?tk numpy_str id ?init
               [''m1'', ''m2'', ''m3''] [''x'', ''y'', ''x''])"
    using r1 [unfolded e1] e1 by auto
  have Gf: "Gf = ?Kf" using rf [unfolded ef] by auto
  have a: "has_edge G2 1 2"
    using edges [rule_format, of 1 2] by (simp add: G1 has_edge_def keys_def)
  have b: "map_of (G_node G2) 0 = Some [(''smiles'', ''n1''), (''categorical_label'', ''z'')]"
    using nodes [rule_format, of 0] by (simp add: Gf)
  have c: "map_of (G_node G2) 2 = Some [(''smiles'', ''m3''), (''categorical_label'', ''x'')]"
    using nodes [rule_format, of 2] by (simp add: G1)
  from r2 a b c show ?thesis unfolding s1 by blast
qed

text \<open>
  C5. The specification says that an unsupported descriptor kind or metric name fails at builder
  construction. The constructors store the names unchecked; the dictionaries are only
  read during the build. A builder made with the descriptor \<^verbatim>\<open>bogus\<close> raises
  \<^verbatim>\<open>KeyError\<close> from \<^verbatim>\<open>create_graph\<close>, and one made with the metric \<^verbatim>\<open>bogus\<close> raises it
  after the nodes have been added to its graph.
\<close>

theorem unsupported_names_counterexample:
  "create_graph (stub_rdkit all_similar) numpy_str id
     (MolecularNetwork_init ''bogus'' ''tanimoto'' (1 / 2)) [''m1''] [''x''] =
   (Inl (KeyError ''bogus''), MolecularNetwork_init ''bogus'' ''tanimoto'' (1 / 2)) \<and>
   create_graph (stub_rdkit all_similar) numpy_str id
     (MolecularNetwork_init ''morgan2'' ''bogus'' (1 / 2)) [''m1'', ''m2''] [''x'', ''y''] =
   (Inl (KeyError ''bogus''),
    (MolecularNetwork_init ''morgan2'' ''bogus'' (1 / 2))
      \<lparr>graph := \<lparr>G_node = [(0, [(''smiles'', ''m1''), (''categorical_label'', ''x'')]),
                           (1, [(''smiles'', ''m2''), (''categorical_label'', ''y'')])],
                  G_adj = [(0, []), (1, [])]\<rparr>\<rparr>)"
  by (simp add: run_defs upt_rec)

text \<open>
  C5, as the code has it. Construction stores any two names. With both names supported
  no \<^verbatim>\<open>create_graph\<close> on the builder, whatever its inputs and its graph, raises
  \<^verbatim>\<open>KeyError\<close>. With an unsupported descriptor kind \<^verbatim>\<open>create_graph\<close> raises \<^verbatim>\<open>KeyError\<close>
  for every list whose first SMILES string parses, the builder unchanged. With a
  supported descriptor kind and an unsupported metric it raises \<^verbatim>\<open>KeyError\<close> for every
  list of two or more parseable SMILES strings and all classes that \<^verbatim>\<open>_convert_classes\<close>
  accepts, when the first pair is scored: the nodes have been added by then, and a
  freshly constructed builder is left holding a graph of the nodes below the shorter of
  the two lengths, each with its two attributes, and no edge.
\<close>

theorem unsupported_names_surface_during_build:
  "descriptor (fingerprint_calculator (MolecularNetwork_init descr metric threshold)) = descr \<and>
   sim_metric (similarity_calculator (MolecularNetwork_init descr metric threshold)) = metric \<and>
   (map_of (descriptors tk) (descriptor (fingerprint_calculator self)) \<noteq> None \<and>
    map_of (metrics tk) (sim_metric (similarity_calculator self)) \<noteq> None \<longrightarrow>
      fst (create_graph tk np str self smiles_list classes) \<noteq> Inl (KeyError x)) \<and>
   (map_of (descriptors tk) descr = None \<and> MolFromSmiles tk s \<noteq> None \<longrightarrow>
      create_graph tk np str (MolecularNetwork_init descr metric threshold) (s # rest) classes
        = (Inl (KeyError descr), MolecularNetwork_init descr metric threshold)) \<and>
   (map_of (descriptors tk) descr \<noteq> None \<and> map_of (metrics tk) metric = None \<and>
    (\<forall>s\<in>set smiles_list. MolFromSmiles tk s \<noteq> None) \<and> 2 \<le> length smiles_list \<and>
    p_convert_classes np classes = Inr (vocabulary, indices) \<longrightarrow>
      create_graph tk np str (MolecularNetwork_init descr metric threshold) smiles_list classes
        = (Inl (KeyError metric),
           (MolecularNetwork_init descr metric threshold)
             \<lparr>graph :=
                \<lparr>G_node =
                   map (\<lambda>k. (k, [(''smiles'', smiles_list ! k),
                                  (''categorical_label'', str (vocabulary ! (indices ! k)))]))
                     [0..<min (length smiles_list) (length classes)],
                 G_adj = map (\<lambda>k. (k, [])) [0..<min (length smiles_list) (length classes)]\<rparr>\<rparr>))"
proof (intro conjI impI)
  show "descriptor (fingerprint_calculator (MolecularNetwork_init descr metric threshold)) = descr"
    by (simp add: MolecularNetwork_init_def FingerprintCalculator_init_def)
  show "sim_metric (similarity_calculator (MolecularNetwork_init descr metric threshold)) = metric"
    by (simp add: MolecularNetwork_init_def SimilarityCalculator_init_def)
next
  assume "map_of (descriptors tk) (descriptor (fingerprint_calculator self)) \<noteq> None \<and>
    map_of (metrics tk) (sim_metric (similarity_calculator self)) \<noteq> None"
  then show "fst (create_graph tk np str self smiles_list classes) \<noteq> Inl (KeyError x)"
    using create_graph_no_KeyError by blast
next
  let ?self = "MolecularNetwork_init descr metric threshold"
  assume a: "map_of (descriptors tk) descr = None \<and> MolFromSmiles tk s \<noteq> None"
  have "descriptor (fingerprint_calculator ?self) = descr"
    by (simp add: MolecularNetwork_init_def FingerprintCalculator_init_def)
  then show "create_graph tk np str ?self (s # rest) classes = (Inl (KeyError descr), ?self)"
    using create_graph_unsupported_descriptor [of tk ?self s np str rest classes] a by simp
next
  let ?self = "MolecularNetwork_init descr metric threshold"
  assume a: "map_of (descriptors tk) descr \<noteq> None \<and> map_of (metrics tk) metric = None \<and>
    (\<forall>s\<in>set smiles_list. MolFromSmiles tk s \<noteq> None) \<and> 2 \<le> length smiles_list \<and>
    p_convert_classes np classes = Inr (vocabulary, indices)"
  then obtain fn where fn: "map_of (descriptors tk) descr = Some fn" by auto
  from a have c: "p_convert_classes np classes = Inr (vocabulary, indices)" by simp
  have d: "map_of (descriptors tk) (descriptor (fingerprint_calculator ?self)) = Some fn"
    using fn by (simp add: MolecularNetwork_init_def FingerprintCalculator_init_def)
  have m: "map_of (metrics tk) (sim_metric (similarity_calculator ?self)) = None"
    using a by (simp add: MolecularNetwork_init_def SimilarityCalculator_init_def)
  have p: "\<forall>s\<in>set smiles_list. MolFromSmiles tk s \<noteq> None" using a by simp
  have l: "2 \<le> length smiles_list" using a by simp
  have sm: "sim_metric (similarity_calculator ?self) = metric"
    and g: "graph ?self = Graph_init"
    by (simp_all add: MolecularNetwork_init_def SimilarityCalculator_init_def)
  have li: "length indices = length classes" by (rule p_convert_classes_Inr(2) [OF c])
  have "add_nodes_from Graph_init (built_nodes str smiles_list vocabulary indices) =
          \<lparr>G_node =
             map (\<lambda>k. (k, [(''smiles'', smiles_list ! k),
                            (''categorical_label'', str (vocabulary ! (indices ! k)))]))
               [0..<min (length smiles_list) (length classes)],
           G_adj = map (\<lambda>k. (k, [])) [0..<min (length smiles_list) (length classes)]\<rparr>"
    unfolding add_nodes_fresh_build by (simp add: built_nodes_def node_attrs_def li)
  then show "create_graph tk np str ?self smiles_list classes
        = (Inl (KeyError metric),
           ?self
             \<lparr>graph :=
                \<lparr>G_node =
                   map (\<lambda>k. (k, [(''smiles'', smiles_list ! k),
                                  (''categorical_label'', str (vocabulary ! (indices ! k)))]))
                     [0..<min (length smiles_list) (length classes)],
                 G_adj = map (\<lambda>k. (k, [])) [0..<min (length smiles_list) (length classes)]\<rparr>\<rparr>)"
    using create_graph_unsupported_metric [OF d m p l c, of str] by (simp only: sm g)
qed

theorem unsupported_names_surface_during_build_witness:
  "fst (create_graph (stub_rdkit all_similar) numpy_str id
          (MolecularNetwork_init ''morgan2'' ''tanimoto'' (1 / 2))
          [''m1'', ''bogus!!''] [''x'', ''y'']) \<noteq> Inl (KeyError ''morgan2'') \<and>
   create_graph (stub_rdkit all_similar) numpy_str id
     (MolecularNetwork_init ''bogus'' ''tanimoto'' (1 / 2)) [''m1'', ''m2''] [''x'', ''y''] =
   (Inl (KeyError ''bogus''), MolecularNetwork_init ''bogus'' ''tanimoto'' (1 / 2)) \<and>
   create_graph (stub_rdkit all_similar) numpy_str id
     (MolecularNetwork_init ''morgan2'' ''bogus'' (1 / 2)) [''m1'', ''m2''] [''x'', ''y''] =
   (Inl (KeyError ''bogus''),
    (MolecularNetwork_init ''morgan2'' ''bogus'' (1 / 2))
      \<lparr>graph := \<lparr>G_node = [(0, [(''smiles'', ''m1''), (''categorical_label'', ''x'')]),
                           (1, [(''smiles'', ''m2''), (''categorical_label'', ''y'')])],
                  G_adj = [(0, []), (1, [])]\<rparr>\<rparr>)"
proof -
  note t = unsupported_names_surface_during_build
  have a: "fst (create_graph (stub_rdkit all_similar) numpy_str id
          (MolecularNetwork_init ''morgan2'' ''tanimoto'' (1 / 2))
          [''m1'', ''bogus!!''] [''x'', ''y'']) \<noteq> Inl (KeyError ''morgan2'')"
    using t [where tk = "stub_rdkit all_similar"
               and self = "MolecularNetwork_init ''morgan2'' ''tanimoto'' (1 / 2)"
               and str = id and smiles_list = "[''m1'', ''bogus!!'']"
               and classes = "[''x'', ''y'']" and x = "''morgan2''"]
    by (simp add: MolecularNetwork_init_def FingerprintCalculator_init_def
        SimilarityCalculator_init_def descriptors_def metrics_def)
  have b: "create_graph (stub_rdkit all_similar) numpy_str id
     (MolecularNetwork_init ''bogus'' ''tanimoto'' (1 / 2)) [''m1'', ''m2''] [''x'', ''y''] =
   (Inl (KeyError ''bogus''), MolecularNetwork_init ''bogus'' ''tanimoto'' (1 / 2))"
    using t [where tk = "stub_rdkit all_similar" and descr = "''bogus''"
               and metric = "''tanimoto''" and threshold = "1 / 2"
               and str = id and s = "''m1''" and rest = "[''m2'']"
               and classes = "[''x'', ''y'']"]
    by (simp add: descriptors_def stub_rdkit_def)
  have cc: "p_convert_classes numpy_str [''x'', ''y''] = Inr ([''x'', ''y''], [0, 1])"
    by (simp add: run_defs)
  have c: "create_graph (stub_rdkit all_similar) numpy_str id
     (MolecularNetwork_init ''morgan2'' ''bogus'' (1 / 2)) [''m1'', ''m2''] [''x'', ''y''] =
   (Inl (KeyError ''bogus''),
    (MolecularNetwork_init ''morgan2'' ''bogus'' (1 / 2))
      \<lparr>graph := \<lparr>G_node = [(0, [(''smiles'', ''m1''), (''categorical_label'', ''x'')]),
                           (1, [(''smiles'', ''m2''), (''categorical_label'', ''y'')])],
                  G_adj = [(0, []), (1, [])]\<rparr>\<rparr>)"
    using t [where tk = "stub_rdkit all_similar" and descr = "''morgan2''"
               and metric = "''bogus''" and threshold = "1 / 2"
               and np = numpy_str and str = id and smiles_list = "[''m1'', ''m2'']"
               and classes = "[''x'', ''y'']" and vocabulary = "[''x'', ''y'']"
               and indices = "[0, 1]"] cc
    by (simp add: descriptors_def metrics_def stub_rdkit_def upt_rec)
  from a b c show ?thesis by simp
qed

text \<open>
  C6. The specification says that the failure on the first unparseable SMILES string identifies
  that string. \<^verbatim>\<open>calculate_fingerprint\<close> raises \<^verbatim>\<open>InvalidSMILESError\<close> without arguments, so
  the exception carries nothing: for the input of the scenario its argument tuple is
  empty and does not hold \<^verbatim>\<open>bogus!!\<close>.
\<close>

theorem invalid_structure_counterexample:
  "create_graph (stub_rdkit all_similar) numpy_str id
     (MolecularNetwork_init ''morgan2'' ''tanimoto'' (1 / 2))
     [''valid_a'', ''bogus!!'', ''valid_c''] [''x'', ''y'', ''x''] =
   (Inl (InvalidSMILESError []), MolecularNetwork_init ''morgan2'' ''tanimoto'' (1 / 2)) \<and>
   ''bogus!!'' \<notin> set (args (InvalidSMILESError []))"
  by (simp add: run_defs)

text \<open>
  C6, as the code has it. For a builder whose descriptor kind is supported and a list
  whose first unparseable SMILES string is at position \<open>k\<close>: \<^verbatim>\<open>create_graph\<close> raises
  \<^verbatim>\<open>InvalidSMILESError\<close> with an empty argument tuple and leaves the builder, its graph
  included, as it was; what follows position \<open>k\<close> in the list, and the classes, have no
  influence on the outcome.
\<close>

theorem first_invalid_smiles_aborts:
  assumes "map_of (descriptors tk) (descriptor (fingerprint_calculator self)) = Some fn"
    and "k < length smiles_list"
    and "MolFromSmiles tk (smiles_list ! k) = None"
    and "\<forall>i<k. MolFromSmiles tk (smiles_list ! i) \<noteq> None"
  shows "create_graph tk np str self smiles_list classes = (Inl (InvalidSMILESError []), self) \<and>
         create_graph tk np str self (take (Suc k) smiles_list @ others) classes'
           = (Inl (InvalidSMILESError []), self)"
proof -
  have pre: "\<forall>s\<in>set (take k smiles_list). MolFromSmiles tk s \<noteq> None"
  proof
    fix s assume "s \<in> set (take k smiles_list)"
    then obtain i where "i < k" and "s = smiles_list ! i"
      using assms(2) by (auto simp: in_set_conv_nth)
    then show "MolFromSmiles tk s \<noteq> None" using assms(4) by simp
  qed
  have a: "smiles_list = take k smiles_list @ smiles_list ! k # drop (Suc k) smiles_list"
    using assms(2) by (rule id_take_nth_drop)
  have b: "take (Suc k) smiles_list @ others = take k smiles_list @ smiles_list ! k # others"
    using assms(2) by (simp add: take_Suc_conv_app_nth)
  have "p_calculate_fingerprints tk self smiles_list = Inl (InvalidSMILESError [])"
    using fingerprints_first_invalid [OF assms(1) pre assms(3), of "drop (Suc k) smiles_list"] a
    by simp
  moreover have "p_calculate_fingerprints tk self (take (Suc k) smiles_list @ others)
                   = Inl (InvalidSMILESError [])"
    using fingerprints_first_invalid [OF assms(1) pre assms(3), of others] b by simp
  ultimately show ?thesis by (simp add: create_graph_fingerprint_error)
qed

theorem first_invalid_smiles_aborts_witness:
  "create_graph (stub_rdkit all_similar) numpy_str id
     (MolecularNetwork_init ''morgan2'' ''tanimoto'' (1 / 2))
     [''valid_a'', ''bogus!!'', ''valid_c''] [''x'', ''y'', ''x''] =
   (Inl (InvalidSMILESError []), MolecularNetwork_init ''morgan2'' ''tanimoto'' (1 / 2)) \<and>
   create_graph (stub_rdkit all_similar) numpy_str id
     (MolecularNetwork_init ''morgan2'' ''tanimoto'' (1 / 2))
     [''valid_a'', ''bogus!!'', ''another'', ''bogus!!''] [''z''] =
   (Inl (InvalidSMILESError []), MolecularNetwork_init ''morgan2'' ''tanimoto'' (1 / 2))"
proof -
  have h1: "map_of (descriptors (stub_rdkit all_similar))
              (descriptor (fingerprint_calculator
                 (MolecularNetwork_init ''morgan2'' ''tanimoto'' (1 / 2 :: real)))) =
            Some (\<lambda>m. GetMorganFingerprintAsBitVect (stub_rdkit all_similar) m 2 2048)"
    by (simp add: descriptors_def MolecularNetwork_init_def FingerprintCalculator_init_def)
  have h2: "1 < length [''valid_a'', ''bogus!!'', ''valid_c'']" by simp
  have h3: "MolFromSmiles (stub_rdkit all_similar) ([''valid_a'', ''bogus!!'', ''valid_c''] ! 1) = None"
    by (simp add: stub_rdkit_def)
  have h4: "\<forall>i<1. MolFromSmiles (stub_rdkit all_similar) ([''valid_a'', ''bogus!!'', ''valid_c''] ! i)
              \<noteq> None"
    by (simp add: stub_rdkit_def)
  from first_invalid_smiles_aborts [OF h1 h2 h3 h4, of numpy_str id "[''x'', ''y'', ''x'']"
         "[''another'', ''bogus!!'']" "[''z'']"]
  show ?thesis by simp
qed

text \<open>
  C7. The specification says that for every sequence of labels the vocabulary decodes the
  indices to the labels, \<open>vocabulary[indices[p]] = classes[p]\<close>, so that the categorical
  label of a node is the string form of its label. The vocabulary is made of the
  elements of a NumPy array, not of the labels: for the one label \<^verbatim>\<open>a\<close> followed by a NUL
  character the array holds \<^verbatim>\<open>a\<close>, the vocabulary is \<^verbatim>\<open>a\<close>, and the node of a build
  carries \<^verbatim>\<open>a\<close>, which is not the label.
\<close>

theorem trailing_nul_label_counterexample:
  "p_convert_classes numpy_str [[CHR ''a'', CHR 0x00]] = Inr ([''a''], [0]) \<and>
   [''a''] ! ([0 :: nat] ! 0) \<noteq> [CHR ''a'', CHR 0x00] \<and>
   create_graph (stub_rdkit all_similar) numpy_str id
     (MolecularNetwork_init ''morgan2'' ''tanimoto'' (1 / 2)) [''m1''] [[CHR ''a'', CHR 0x00]] =
   (Inr \<lparr>G_node = [(0, [(''smiles'', ''m1''), (''categorical_label'', ''a'')])],
          G_adj = [(0, [])]\<rparr>,
    (MolecularNetwork_init ''morgan2'' ''tanimoto'' (1 / 2))
      \<lparr>graph := \<lparr>G_node = [(0, [(''smiles'', ''m1''), (''categorical_label'', ''a'')])],
                  G_adj = [(0, [])]\<rparr>\<rparr>) \<and>
   id [CHR ''a'', CHR 0x00] \<noteq> ''a''"
  by (simp add: run_defs upt_rec)

text \<open>
  C7, as the code has it. Whenever \<^verbatim>\<open>_convert_classes\<close> returns, the vocabulary is the
  sorted sequence of the distinct elements of the NumPy array of the labels, there are
  as many indices as labels, each within the vocabulary, and \<open>indices[p]\<close> is the first
  position of the vocabulary whose element NumPy's comparison finds equal to
  \<open>classes[p]\<close>. For labels that
  NumPy keeps as they are, empty sequence included, \<^verbatim>\<open>_convert_classes\<close> does return, the
  vocabulary is the sorted sequence of the distinct labels, and
  \<open>vocabulary[indices[p]] = classes[p]\<close> at every position \<open>p\<close>; then, after
  \<^verbatim>\<open>create_graph\<close> on a builder with a supported configuration, for as many parseable
  SMILES strings, the node \<open>p\<close> of the graph has the string form of \<open>classes[p]\<close> as its
  categorical label.
\<close>

theorem label_round_trip_when_stored_unchanged:
  "(p_convert_classes np classes = Inr (vocabulary, indices) \<longrightarrow>
      vocabulary = sort (remdups (np_asarray np classes)) \<and>
      length indices = length classes \<and>
      (\<forall>p<length classes.
         indices ! p < length vocabulary \<and>
         np_equal np (vocabulary ! (indices ! p)) (classes ! p) \<and>
         (\<forall>q<indices ! p. \<not> np_equal np (vocabulary ! q) (classes ! p)))) \<and>
   (stored_unchanged np classes \<longrightarrow>
      (\<exists>vocabulary indices.
         p_convert_classes np classes = Inr (vocabulary, indices) \<and>
         vocabulary = sort (remdups classes) \<and>
         sorted vocabulary \<and> distinct vocabulary \<and> set vocabulary = set classes \<and>
         length indices = length classes \<and>
         (\<forall>p<length classes.
            indices ! p < length vocabulary \<and> vocabulary ! (indices ! p) = classes ! p) \<and>
         (map_of (descriptors tk) (descriptor (fingerprint_calculator self)) = Some fn \<and>
          map_of (metrics tk) (sim_metric (similarity_calculator self)) = Some (Fn2 sim) \<and>
          (\<forall>s\<in>set smiles_list. MolFromSmiles tk s \<noteq> None) \<and>
          length smiles_list = length classes \<longrightarrow>
            (\<exists>G self'.
               create_graph tk np str self smiles_list classes = (Inr G, self') \<and>
               get_network self' = G \<and>
               (\<forall>p<length classes.
                  \<exists>a. map_of (G_node G) p = Some a \<and>
                      map_of a ''categorical_label''
                        = Some (str (vocabulary ! (indices ! p))) \<and>
                      map_of a ''categorical_label'' = Some (str (classes ! p)))))))"
proof (intro conjI impI)
  assume c: "p_convert_classes np classes = Inr (vocabulary, indices)"
  show "vocabulary = sort (remdups (np_asarray np classes))"
    using p_convert_classes_Inr(1) [OF c] by (simp add: np_unique_def)
  show "length indices = length classes" by (rule p_convert_classes_Inr(2) [OF c])
  show "\<forall>p<length classes.
         indices ! p < length vocabulary \<and>
         np_equal np (vocabulary ! (indices ! p)) (classes ! p) \<and>
         (\<forall>q<indices ! p. \<not> np_equal np (vocabulary ! q) (classes ! p))"
  proof (intro allI impI)
    fix p assume "p < length classes"
    with p_convert_classes_Inr(3) [OF c]
    have w: "np_where_first np vocabulary (classes ! p) = Inr (indices ! p)"
      and b: "indices ! p < length vocabulary"
      and e: "np_equal np (vocabulary ! (indices ! p)) (classes ! p)" by simp_all
    have "\<forall>q<indices ! p. \<not> np_equal np (vocabulary ! q) (classes ! p)"
      using np_where_first_least [OF w] by blast
    with b e show "indices ! p < length vocabulary \<and>
         np_equal np (vocabulary ! (indices ! p)) (classes ! p) \<and>
         (\<forall>q<indices ! p. \<not> np_equal np (vocabulary ! q) (classes ! p))" by simp
  qed
next
  assume s: "stored_unchanged np classes"
  let ?v = "sort (remdups classes)"
  let ?ix = "map (label_index np ?v) classes"
  have c: "p_convert_classes np classes = Inr (?v, ?ix)"
    by (rule p_convert_classes_unchanged(1) [OF s])
  have dec: "\<forall>p<length classes. ?ix ! p < length ?v \<and> ?v ! (?ix ! p) = classes ! p"
    using p_convert_classes_Inr(3) [OF c] p_convert_classes_unchanged(2) [OF s] by simp
  have build: "\<exists>G self'.
         create_graph tk np str self smiles_list classes = (Inr G, self') \<and>
         get_network self' = G \<and>
         (\<forall>p<length classes.
            \<exists>a. map_of (G_node G) p = Some a \<and>
                map_of a ''categorical_label'' = Some (str (?v ! (?ix ! p))) \<and>
                map_of a ''categorical_label'' = Some (str (classes ! p)))"
    if h: "map_of (descriptors tk) (descriptor (fingerprint_calculator self)) = Some fn \<and>
          map_of (metrics tk) (sim_metric (similarity_calculator self)) = Some (Fn2 sim) \<and>
          (\<forall>s\<in>set smiles_list. MolFromSmiles tk s \<noteq> None) \<and>
          length smiles_list = length classes"
  proof -
    let ?fps = "map (\<lambda>s. fn (the (MolFromSmiles tk s))) smiles_list"
    let ?P = "\<lambda>i j. sim_threshold self < score sim ?fps i j"
    let ?G = "fold (link ?P) (pairs (length smiles_list))
                (add_nodes_from (graph self) (built_nodes str smiles_list ?v ?ix))"
    from h have d: "map_of (descriptors tk) (descriptor (fingerprint_calculator self)) = Some fn"
      and m: "map_of (metrics tk) (sim_metric (similarity_calculator self)) = Some (Fn2 sim)"
      and ps: "\<forall>s\<in>set smiles_list. MolFromSmiles tk s \<noteq> None"
      and l: "length smiles_list = length classes" by simp_all
    have run: "create_graph tk np str self smiles_list classes = (Inr ?G, self\<lparr>graph := ?G\<rparr>)"
      by (rule create_graph_ok [OF d m ps c])
    have li: "length ?ix = length smiles_list" using l by simp
    have node: "\<exists>a. map_of (G_node ?G) p = Some a \<and>
                map_of a ''categorical_label'' = Some (str (?v ! (?ix ! p))) \<and>
                map_of a ''categorical_label'' = Some (str (classes ! p))"
      if p: "p < length classes" for p
    proof -
      let ?old = "case map_of (G_node (graph self)) p of None \<Rightarrow> [] | Some d \<Rightarrow> d"
      let ?new = "node_attrs str (smiles_list ! p) (?v ! (?ix ! p))"
      have pk: "p < length smiles_list" using p l by simp
      have a: "map_of (G_node ?G) p = Some (dict_update ?old ?new)"
        using pk by (simp add: map_of_node_rebuild [OF li])
      have "distinct (map fst ?new)" by (simp add: node_attrs_def)
      then have "map_of (dict_update ?old ?new) = map_of ?old ++ map_of ?new"
        by (rule map_of_dict_update)
      then have b: "map_of (dict_update ?old ?new) ''categorical_label''
                      = Some (str (?v ! (?ix ! p)))"
        by (simp add: node_attrs_def)
      have e: "?v ! (?ix ! p) = classes ! p" using dec p by blast
      from a b e show ?thesis by (simp only: ) blast
    qed
    from run node show ?thesis by (simp only: get_network_def) auto
  qed
  have all:
        "p_convert_classes np classes = Inr (?v, ?ix) \<and>
         ?v = sort (remdups classes) \<and>
         sorted ?v \<and> distinct ?v \<and> set ?v = set classes \<and>
         length ?ix = length classes \<and>
         (\<forall>p<length classes. ?ix ! p < length ?v \<and> ?v ! (?ix ! p) = classes ! p) \<and>
         (map_of (descriptors tk) (descriptor (fingerprint_calculator self)) = Some fn \<and>
          map_of (metrics tk) (sim_metric (similarity_calculator self)) = Some (Fn2 sim) \<and>
          (\<forall>s\<in>set smiles_list. MolFromSmiles tk s \<noteq> None) \<and>
          length smiles_list = length classes \<longrightarrow>
            (\<exists>G self'.
               create_graph tk np str self smiles_list classes = (Inr G, self') \<and>
               get_network self' = G \<and>
               (\<forall>p<length classes.
                  \<exists>a. map_of (G_node G) p = Some a \<and>
                      map_of a ''categorical_label'' = Some (str (?v ! (?ix ! p))) \<and>
                      map_of a ''categorical_label'' = Some (str (classes ! p)))))"
  proof (intro conjI)
    show "p_convert_classes np classes = Inr (?v, ?ix)" by (rule c)
    show "?v = sort (remdups classes)" by simp
    show "sorted ?v" by simp
    show "distinct ?v" by simp
    show "set ?v = set classes" by simp
    show "length ?ix = length classes" by simp
    show "\<forall>p<length classes. ?ix ! p < length ?v \<and> ?v ! (?ix ! p) = classes ! p" by (rule dec)
    show "map_of (descriptors tk) (descriptor (fingerprint_calculator self)) = Some fn \<and>
          map_of (metrics tk) (sim_metric (similarity_calculator self)) = Some (Fn2 sim) \<and>
          (\<forall>s\<in>set smiles_list. MolFromSmiles tk s \<noteq> None) \<and>
          length smiles_list = length classes \<longrightarrow>
            (\<exists>G self'.
               create_graph tk np str self smiles_list classes = (Inr G, self') \<and>
               get_network self' = G \<and>
               (\<forall>p<length classes.
                  \<exists>a. map_of (G_node G) p = Some a \<and>
                      map_of a ''categorical_label'' = Some (str (?v ! (?ix ! p))) \<and>
                      map_of a ''categorical_label'' = Some (str (classes ! p))))"
      by (rule impI) (rule build)
  qed
  show "\<exists>vocabulary indices.
         p_convert_classes np classes = Inr (vocabulary, indices) \<and>
         vocabulary = sort (remdups classes) \<and>
         sorted vocabulary \<and> distinct vocabulary \<and> set vocabulary = set classes \<and>
         length indices = length classes \<and>
         (\<forall>p<length classes.
            indices ! p < length vocabulary \<and> vocabulary ! (indices ! p) = classes ! p) \<and>
         (map_of (descriptors tk) (descriptor (fingerprint_calculator self)) = Some fn \<and>
          map_of (metrics tk) (sim_metric (similarity_calculator self)) = Some (Fn2 sim) \<and>
          (\<forall>s\<in>set smiles_list. MolFromSmiles tk s \<noteq> None) \<and>
          length smiles_list = length classes \<longrightarrow>
            (\<exists>G self'.
               create_graph tk np str self smiles_list classes = (Inr G, self') \<and>
               get_network self' = G \<and>
               (\<forall>p<length classes.
                  \<exists>a. map_of (G_node G) p = Some a \<and>
                      map_of a ''categorical_label''
                        = Some (str (vocabulary ! (indices ! p))) \<and>
                      map_of a ''categorical_label'' = Some (str (classes ! p)))))"
    by (rule exI [where x = "?v"], rule exI [where x = "?ix"], rule all)
qed

theorem label_round_trip_when_stored_unchanged_witness:
  "p_convert_classes numpy_str [''b'', ''a'', ''b''] = Inr ([''a'', ''b''], [1, 0, 1]) \<and>
   stored_unchanged numpy_str [''b'', ''a'', ''b''] \<and>
   np_equal numpy_str ([''a'', ''b''] ! ([1, 0, 1 :: nat] ! 2)) ([''b'', ''a'', ''b''] ! 2) \<and>
   (\<exists>G self' a.
      create_graph (stub_rdkit all_similar) numpy_str id
        (MolecularNetwork_init ''morgan2'' ''tanimoto'' (1 / 2))
        [''m1'', ''m2'', ''m3''] [''b'', ''a'', ''b''] = (Inr G, self') \<and>
      get_network self' = G \<and>
      map_of (G_node G) 2 = Some a \<and> map_of a ''categorical_label'' = Some ''b'')"
proof -
  let ?tk = "stub_rdkit all_similar"
  let ?init = "MolecularNetwork_init ''morgan2'' ''tanimoto'' (1 / 2 :: real)"
  let ?classes = "[''b'', ''a'', ''b'']"
  let ?smiles = "[''m1'', ''m2'', ''m3'']"
  note t = label_round_trip_when_stored_unchanged
    [where np = numpy_str and classes = ?classes and vocabulary = "[''a'', ''b'']"
       and indices = "[1, 0, 1]" and tk = ?tk and self = ?init and str = id
       and smiles_list = ?smiles
       and fn = "\<lambda>m. GetMorganFingerprintAsBitVect ?tk m 2 2048"
       and sim = "TanimotoSimilarity ?tk"]
  have c: "p_convert_classes numpy_str ?classes = Inr ([''a'', ''b''], [1, 0, 1])"
    by (simp add: run_defs)
  have s: "stored_unchanged numpy_str ?classes"
    by (simp add: stored_unchanged_def numpy_str_def strip_nul_def)
  have h: "map_of (descriptors ?tk) (descriptor (fingerprint_calculator ?init)) =
             Some (\<lambda>m. GetMorganFingerprintAsBitVect ?tk m 2 2048) \<and>
           map_of (metrics ?tk) (sim_metric (similarity_calculator ?init)) =
             Some (Fn2 (TanimotoSimilarity ?tk)) \<and>
           (\<forall>s\<in>set ?smiles. MolFromSmiles ?tk s \<noteq> None) \<and>
           length ?smiles = length ?classes"
    by (simp add: descriptors_def metrics_def MolecularNetwork_init_def
        FingerprintCalculator_init_def SimilarityCalculator_init_def stub_rdkit_def)
  from t c have g: "\<forall>p<length ?classes.
         [1, 0, 1] ! p < length [''a'', ''b''] \<and>
         np_equal numpy_str ([''a'', ''b''] ! ([1, 0, 1] ! p)) (?classes ! p)"
    by blast
  from g [rule_format, of 2]
  have e: "np_equal numpy_str ([''a'', ''b''] ! ([1, 0, 1 :: nat] ! 2)) (?classes ! 2)"
    by simp
  from t s obtain vocabulary indices where
    "(map_of (descriptors ?tk) (descriptor (fingerprint_calculator ?init)) =
             Some (\<lambda>m. GetMorganFingerprintAsBitVect ?tk m 2 2048) \<and>
           map_of (metrics ?tk) (sim_metric (similarity_calculator ?init)) =
             Some (Fn2 (TanimotoSimilarity ?tk)) \<and>
           (\<forall>s\<in>set ?smiles. MolFromSmiles ?tk s \<noteq> None) \<and>
           length ?smiles = length ?classes \<longrightarrow>
            (\<exists>G self'.
               create_graph ?tk numpy_str id ?init ?smiles ?classes = (Inr G, self') \<and>
               get_network self' = G \<and>
               (\<forall>p<length ?classes.
                  \<exists>a. map_of (G_node G) p = Some a \<and>
                      map_of a ''categorical_label''
                        = Some (id (vocabulary ! (indices ! p))) \<and>
                      map_of a ''categorical_label'' = Some (id (?classes ! p)))))"
    by blast
  with h obtain G self' where
    r: "create_graph ?tk numpy_str id ?init ?smiles ?classes = (Inr G, self')"
       "get_network self' = G"
    and n: "\<forall>p<length ?classes.
                  \<exists>a. map_of (G_node G) p = Some a \<and>
                      map_of a ''categorical_label''
                        = Some (id (vocabulary ! (indices ! p))) \<and>
                      map_of a ''categorical_label'' = Some (id (?classes ! p))"
    by blast
  from n [rule_format, of 2] obtain a where
    "map_of (G_node G) 2 = Some a" "map_of a ''categorical_label'' = Some ''b''"
    by auto
  with r c s e show ?thesis by blast
qed

text \<open>
  C8. For one valid input (parseable SMILES strings, classes that \<^verbatim>\<open>_convert_classes\<close>
  accepts) and two thresholds \<open>t1 \<le> t2\<close>, each on a freshly constructed builder of the
  same supported configuration: both calls of \<^verbatim>\<open>create_graph\<close> return, the graph for
  \<open>t2\<close> has at most as many edges as the graph for \<open>t1\<close>, and every edge of the former
  is an edge of the latter.
\<close>

theorem edge_count_antitone_in_threshold:
  assumes "map_of (descriptors tk) descr = Some fn"
    and "map_of (metrics tk) metric = Some (Fn2 sim)"
    and "\<forall>s\<in>set smiles_list. MolFromSmiles tk s \<noteq> None"
    and "t1 \<le> t2"
    and "p_convert_classes np classes = Inr (vocabulary, indices)"
  shows "\<exists>G1 self1 G2 self2.
      create_graph tk np str (MolecularNetwork_init descr metric t1) smiles_list classes
        = (Inr G1, self1) \<and>
      create_graph tk np str (MolecularNetwork_init descr metric t2) smiles_list classes
        = (Inr G2, self2) \<and>
      number_of_edges G2 \<le> number_of_edges G1 \<and>
      (\<forall>u v. has_edge G2 u v \<longrightarrow> has_edge G1 u v)"
proof -
  let ?fps = "map (\<lambda>s. fn (the (MolFromSmiles tk s))) smiles_list"
  let ?P = "\<lambda>t i j. t < score sim ?fps i j"
  let ?bn = "built_nodes str smiles_list vocabulary indices"
  let ?G = "\<lambda>t. fold (link (?P t)) (pairs (length smiles_list)) (add_nodes_from Graph_init ?bn)"
  have run: "create_graph tk np str (MolecularNetwork_init descr metric t) smiles_list classes
               = (Inr (?G t), (MolecularNetwork_init descr metric t)\<lparr>graph := ?G t\<rparr>)" for t
  proof -
    let ?self = "MolecularNetwork_init descr metric t"
    have d: "map_of (descriptors tk) (descriptor (fingerprint_calculator ?self)) = Some fn"
      using assms(1) by (simp add: MolecularNetwork_init_def FingerprintCalculator_init_def)
    have m: "map_of (metrics tk) (sim_metric (similarity_calculator ?self)) = Some (Fn2 sim)"
      using assms(2) by (simp add: MolecularNetwork_init_def SimilarityCalculator_init_def)
    have t: "sim_threshold ?self = t" and g: "graph ?self = Graph_init"
      by (simp_all add: MolecularNetwork_init_def)
    show ?thesis
      using create_graph_ok [OF d m assms(3) assms(5), of str] by (simp only: t g)
  qed
  have imp: "?P t2 i j \<Longrightarrow> ?P t1 i j" for i j
    using assms(4) by simp
  have "length (filter (\<lambda>(i, j). ?P t2 i j) (pairs (length smiles_list)))
          \<le> length (filter (\<lambda>(i, j). ?P t1 i j) (pairs (length smiles_list)))"
    by (rule length_filter_mono) (use imp in auto)
  then have count: "number_of_edges (?G t2) \<le> number_of_edges (?G t1)"
    by (simp only: number_of_edges_fresh_build)
  have sub: "has_edge (?G t2) u v \<longrightarrow> has_edge (?G t1) u v" for u v
    using imp by (auto simp: has_edge_fresh_build)
  from run [of t1] run [of t2] count sub show ?thesis by blast
qed

theorem edge_count_antitone_in_threshold_witness:
  "\<exists>G1 self1 G2 self2.
     create_graph (stub_rdkit all_similar) numpy_str id
       (MolecularNetwork_init ''morgan2'' ''tanimoto'' (1 / 2))
       [''m1'', ''m2'', ''m3''] [''x'', ''y'', ''x''] = (Inr G1, self1) \<and>
     create_graph (stub_rdkit all_similar) numpy_str id
       (MolecularNetwork_init ''morgan2'' ''tanimoto'' (3 / 2))
       [''m1'', ''m2'', ''m3''] [''x'', ''y'', ''x''] = (Inr G2, self2) \<and>
     number_of_edges G2 \<le> number_of_edges G1"
proof -
  let ?tk = "stub_rdkit all_similar"
  have h1: "map_of (descriptors ?tk) ''morgan2'' =
              Some (\<lambda>m. GetMorganFingerprintAsBitVect ?tk m 2 2048)"
    by (simp add: descriptors_def)
  have h2: "map_of (metrics ?tk) ''tanimoto'' = Some (Fn2 (TanimotoSimilarity ?tk))"
    by (simp add: metrics_def)
  have h3: "\<forall>s\<in>set [''m1'', ''m2'', ''m3'']. MolFromSmiles ?tk s \<noteq> None"
    by (simp add: stub_rdkit_def)
  have h4: "(1 / 2 :: real) \<le> 3 / 2" by simp
  have h5: "p_convert_classes numpy_str [''x'', ''y'', ''x''] = Inr ([''x'', ''y''], [0, 1, 0])"
    by (simp add: run_defs)
  from edge_count_antitone_in_threshold [OF h1 h2 h3 h4 h5, where str = id]
  show ?thesis by blast
qed

text \<open>
  C9. Every graph \<^verbatim>\<open>create_graph\<close> returns, on a fresh builder or on one that earlier
  calls have used (also calls that raised), is simple and undirected: an edge is found
  from either end, no node is its own neighbour, and no node and no neighbour is listed
  twice.
\<close>

theorem built_graph_simple_undirected:
  assumes "reachable tk np str self"
    and "create_graph tk np str self smiles_list classes = (Inr G, self')"
  shows "has_edge G u v = has_edge G v u \<and> \<not> has_edge G u u \<and>
         distinct (map fst (G_adj G)) \<and> distinct (adj_list G u)"
proof -
  have "reachable tk np str self'" using assms by (rule reachable.rebuilt)
  then have "simple_graph (graph self')" by (rule simple_reachable)
  then have "simple_graph G" using create_graph_returns_graph [OF assms(2)] by simp
  then show ?thesis by (auto simp: simple_graph_def)
qed

theorem built_graph_simple_undirected_witness:
  "has_edge
     \<lparr>G_node = [(0, [(''smiles'', ''n1''), (''categorical_label'', ''z'')]),
                (1, [(''smiles'', ''m2''), (''categorical_label'', ''y'')]),
                (2, [(''smiles'', ''m3''), (''categorical_label'', ''x'')])],
       G_adj = [(0, [(1, []), (2, [])]), (1, [(0, []), (2, [])]), (2, [(0, []), (1, [])])]\<rparr>
     0 2 =
   has_edge
     \<lparr>G_node = [(0, [(''smiles'', ''n1''), (''categorical_label'', ''z'')]),
                (1, [(''smiles'', ''m2''), (''categorical_label'', ''y'')]),
                (2, [(''smiles'', ''m3''), (''categorical_label'', ''x'')])],
       G_adj = [(0, [(1, []), (2, [])]), (1, [(0, []), (2, [])]), (2, [(0, []), (1, [])])]\<rparr>
     2 0 \<and>
   \<not> has_edge
     \<lparr>G_node = [(0, [(''smiles'', ''n1''), (''categorical_label'', ''z'')]),
                (1, [(''smiles'', ''m2''), (''categorical_label'', ''y'')]),
                (2, [(''smiles'', ''m3''), (''categorical_label'', ''x'')])],
       G_adj = [(0, [(1, []), (2, [])]), (1, [(0, []), (2, [])]), (2, [(0, []), (1, [])])]\<rparr>
     0 0 \<and>
   distinct (map fst (G_adj
     \<lparr>G_node = [(0, [(''smiles'', ''n1''), (''categorical_label'', ''z'')]),
                (1, [(''smiles'', ''m2''), (''categorical_label'', ''y'')]),
                (2, [(''smiles'', ''m3''), (''categorical_label'', ''x'')])],
       G_adj = [(0, [(1, []), (2, [])]), (1, [(0, []), (2, [])]),
                (2, [(0, []), (1, [])])]\<rparr>)) \<and>
   distinct (adj_list
     \<lparr>G_node = [(0, [(''smiles'', ''n1''), (''categorical_label'', ''z'')]),
                (1, [(''smiles'', ''m2''), (''categorical_label'', ''y'')]),
                (2, [(''smiles'', ''m3''), (''categorical_label'', ''x'')])],
       G_adj = [(0, [(1, []), (2, [])]), (1, [(0, []), (2, [])]), (2, [(0, []), (1, [])])]\<rparr>
     0)"
proof -
  let ?init = "MolecularNetwork_init ''morgan2'' ''tanimoto'' (1 / 2 :: real)"
  let ?G1 = "\<lparr>G_node = [(0, [(''smiles'', ''m1''), (''categorical_label'', ''x'')]),
                (1, [(''smiles'', ''m2''), (''categorical_label'', ''y'')]),
                (2, [(''smiles'', ''m3''), (''categorical_label'', ''x'')])],
       G_adj = [(0, [(1, []), (2, [])]), (1, [(0, []), (2, [])]), (2, [(0, []), (1, [])])]\<rparr>"
  let ?G2 = "\<lparr>G_node = [(0, [(''smiles'', ''n1''), (''categorical_label'', ''z'')]),
                (1, [(''smiles'', ''m2''), (''categorical_label'', ''y'')]),
                (2, [(''smiles'', ''m3''), (''categorical_label'', ''x'')])],
       G_adj = [(0, [(1, []), (2, [])]), (1, [(0, []), (2, [])]), (2, [(0, []), (1, [])])]\<rparr>"
  have b1: "create_graph (stub_rdkit all_similar) numpy_str id ?init
              [''m1'', ''m2'', ''m3''] [''x'', ''y'', ''x''] = (Inr ?G1, ?init\<lparr>graph := ?G1\<rparr>)"
    by (simp add: run_defs upt_rec)
  have r1: "reachable (stub_rdkit all_similar) numpy_str id (?init\<lparr>graph := ?G1\<rparr>)"
    by (rule reachable.rebuilt [OF reachable.constructed b1])
  have b2: "create_graph (stub_rdkit all_similar) numpy_str id (?init\<lparr>graph := ?G1\<rparr>) [''n1''] [''z'']
              = (Inr ?G2, ?init\<lparr>graph := ?G2\<rparr>)"
    by (simp add: run_defs upt_rec)
  show ?thesis
    by (rule built_graph_simple_undirected [OF r1 b2])
qed

text \<open>
  C10. With the metric \<^verbatim>\<open>"tversky"\<close> every call of \<^verbatim>\<open>calculate_similarity\<close> raises
  \<^verbatim>\<open>TypeError\<close> (the stored lambda has four parameters and is applied to two
  arguments), so \<^verbatim>\<open>create_graph\<close> raises for every input of two or more SMILES
  strings, whatever the classes and whatever the builder held before.
\<close>

theorem tversky_never_succeeds:
  assumes "sim_metric (similarity_calculator self) = ''tversky''"
  shows "calculate_similarity tk (similarity_calculator self) fp1 fp2 = Inl TypeError \<and>
         (2 \<le> length smiles_list \<longrightarrow>
            (\<exists>e self'. create_graph tk np str self smiles_list classes = (Inl e, self')))"
proof (intro conjI impI)
  show "calculate_similarity tk (similarity_calculator self) fp1 fp2 = Inl TypeError"
    by (rule calculate_similarity_tversky [OF assms])
next
  assume len: "2 \<le> length smiles_list"
  show "\<exists>e self'. create_graph tk np str self smiles_list classes = (Inl e, self')"
  proof (cases "p_calculate_fingerprints tk self smiles_list")
    case (Inl e)
    then show ?thesis by (simp add: create_graph_def p_create_graph_def)
  next
    case (Inr fps)
    then have lf: "2 \<le> length fps"
      using len comprehension_length by (fastforce simp: p_calculate_fingerprints_def)
    show ?thesis
    proof (cases "p_convert_classes np classes")
      case (Inl e)
      then show ?thesis using Inr by (simp add: create_graph_def p_create_graph_def)
    next
      case cc: (Inr uc)
      obtain u c where uc: "uc = (u, c)" by (cases uc)
      obtain r self1 where an: "p_add_nodes str self smiles_list u c = (r, self1)"
        by (cases "p_add_nodes str self smiles_list u c")
      show ?thesis
      proof (cases r)
        case (Inl e)
        then show ?thesis using Inr cc uc an by (simp add: create_graph_def p_create_graph_def)
      next
        case r: (Inr x)
        have "sim_metric (similarity_calculator self1) = ''tversky''"
          using p_add_nodes_config [OF an] assms by simp
        then have "p_add_edges tk self1 fps = (Inl TypeError, self1)"
          using lf by (rule p_add_edges_tversky)
        then show ?thesis using Inr cc uc an r by (simp add: create_graph_def p_create_graph_def)
      qed
    qed
  qed
qed

theorem tversky_never_succeeds_witness:
  "calculate_similarity (stub_rdkit all_similar)
       (similarity_calculator (MolecularNetwork_init ''morgan2'' ''tversky'' (1 / 2)))
       ''m1'' ''m2'' = Inl TypeError \<and>
   (\<exists>e self'. create_graph (stub_rdkit all_similar) numpy_str id
       (MolecularNetwork_init ''morgan2'' ''tversky'' (1 / 2))
       [''m1'', ''m2''] [''x'', ''y''] = (Inl e, self'))"
  using tversky_never_succeeds
    [of "MolecularNetwork_init ''morgan2'' ''tversky'' (1 / 2)" "stub_rdkit all_similar"
        "''m1''" "''m2''" "[''m1'', ''m2'']" numpy_str id "[''x'', ''y'']"]
  by (simp add: MolecularNetwork_init_def SimilarityCalculator_init_def)

end
